theory Spec2Isabelle
  imports Main "HOL-Library.AList" "HOL-Library.Sublist"
begin

section \<open>Python values\<close>

text \<open>
  The connector of \<^verbatim>\<open>infoblox_client/connector.py\<close> handles untyped Python values:
  option values, payloads, decoded JSON bodies. They are modelled by one datatype.
  \<^verbatim>\<open>PNone\<close> is Python's \<^verbatim>\<open>None\<close> (also what JSON \<^verbatim>\<open>null\<close> decodes to). A dict is an
  association list in insertion order whose keys are strings. A string is the list of
  the bytes of its UTF-8 encoding. A float is the pair \<open>(m, e)\<close> standing for
  \<open>m * 2 ^ e\<close>; NaN and the infinities are left out.
\<close>

datatype pyval =
    PNone
  | PBool bool
  | PInt int
  | PFloat int int
  | PStr string
  | PList "pyval list"
  | PDict "(string \<times> pyval) list"

type_synonym pydict = "(string \<times> pyval) list"

text \<open>Truth value testing, as \<^verbatim>\<open>if x:\<close> and \<^verbatim>\<open>not x\<close> do it.\<close>

fun truthy :: "pyval \<Rightarrow> bool" where
  "truthy PNone = False"
| "truthy (PBool b) = b"
| "truthy (PInt i) = (i \<noteq> 0)"
| "truthy (PFloat m e) = (m \<noteq> 0)"
| "truthy (PStr s) = (s \<noteq> [])"
| "truthy (PList xs) = (xs \<noteq> [])"
| "truthy (PDict d) = (d \<noteq> [])"

text \<open>
  Modelled from the spec: the exception classes of \<^verbatim>\<open>infoblox_client/exceptions.py\<close>,
  which the connector raises by name; each carries the keyword arguments it is raised
  with, in the order of the source. The other errors are Python's own:
  \<^verbatim>\<open>JSONDecodeFailure\<close> is the \<^verbatim>\<open>ValueError\<close> that \<^verbatim>\<open>jsonutils.loads\<close> raises on the
  content it is given; \<^verbatim>\<open>RequestsTimeout\<close> and \<^verbatim>\<open>RequestsException\<close> are the exceptions
  of the HTTP library.
\<close>

datatype conn_reason = RawContent string | TransportFailure

datatype error =
    ValueError string
  | TypeError
  | AttributeError
  | KeyError string
  | JSONDecodeFailure string
  | RequestsTimeout
  | RequestsException
  | InfobloxConfigException string
  | InfobloxBadWAPICredential string
  | InfobloxSearchError pyval string string int
  | InfobloxMemberAlreadyAssigned pyval string string pyval int
  | InfobloxCannotCreateObject pyval string string pyval int
  | InfobloxFuncException pyval string string string int
  | InfobloxCannotUpdateObject pyval string string int
  | InfobloxCannotDeleteObject pyval string string int
  | InfobloxConnectionError conn_reason
  | InfobloxTimeoutError

text \<open>Sequencing of steps that may raise.\<close>

definition and_then :: "error + 'a \<Rightarrow> ('a \<Rightarrow> error + 'b) \<Rightarrow> error + 'b" where
  "and_then r f = (case r of Inl e \<Rightarrow> Inl e | Inr x \<Rightarrow> f x)"

section \<open>Library functions the connector calls\<close>

text \<open>
  The connector consumes these functions and does not implement them: Python's \<^verbatim>\<open>str\<close>
  on a value that is not a string (used by \<^verbatim>\<open>%s\<close> formatting), \<^verbatim>\<open>jsonutils.loads\<close>
  (\<^verbatim>\<open>None\<close> stands for the \<^verbatim>\<open>ValueError\<close> it raises on content that is not JSON),
  \<^verbatim>\<open>jsonutils.dumps\<close>, and the three \<^verbatim>\<open>urllib\<close> functions that \<^verbatim>\<open>__init__\<close> stores in
  the connector. The interpreter also decides which characters beyond ASCII are decimal
  digits for \<^verbatim>\<open>re\<close> and \<^verbatim>\<open>int\<close>: \<open>nonascii_decimal\<close> gives the value of such a
  character, and nothing for a character that is no decimal digit. All of these are
  parameters of the model.
\<close>

record pylib =
  str_of :: "pyval \<Rightarrow> string"
  loads :: "string \<Rightarrow> pyval option"
  dumps :: "pyval \<Rightarrow> string"
  lib_urlencode :: "pydict \<Rightarrow> string"
  lib_quote :: "string \<Rightarrow> string"
  lib_urljoin :: "string \<Rightarrow> string \<Rightarrow> string"
  nonascii_decimal :: "string \<Rightarrow> nat option"

text \<open>\<^verbatim>\<open>"%s" % v\<close>: a string is inserted as it is.\<close>

definition format_s :: "pylib \<Rightarrow> pyval \<Rightarrow> string" where
  "format_s lib v = (case v of PStr s \<Rightarrow> s | _ \<Rightarrow> str_of lib v)"

text \<open>\<^verbatim>\<open>sep.join(parts)\<close> on a list of strings.\<close>

fun join :: "string \<Rightarrow> string list \<Rightarrow> string" where
  "join sep [] = []"
| "join sep [x] = x"
| "join sep (x # y # ys) = x @ sep @ join sep (y # ys)"

text \<open>
  Modelled from the spec: \<^verbatim>\<open>utils.safe_json_load\<close> of \<^verbatim>\<open>infoblox_client/utils.py\<close>, which
  gives the decoded body, or none when the content is not JSON.
\<close>

definition safe_json_load :: "pylib \<Rightarrow> string \<Rightarrow> pyval" where
  "safe_json_load lib data = (case loads lib data of Some v \<Rightarrow> v | None \<Rightarrow> PNone)"

text \<open>\<^verbatim>\<open>value[key]\<close>, \<^verbatim>\<open>value.get(key)\<close> and \<^verbatim>\<open>needle in value\<close> for a string key or needle.\<close>

definition py_getitem :: "pyval \<Rightarrow> string \<Rightarrow> error + pyval" where
  "py_getitem v key =
     (case v of
        PDict d \<Rightarrow> (case map_of d key of Some x \<Rightarrow> Inr x | None \<Rightarrow> Inl (KeyError key))
      | _ \<Rightarrow> Inl TypeError)"

definition py_get :: "pyval \<Rightarrow> string \<Rightarrow> error + pyval" where
  "py_get v key =
     (case v of
        PDict d \<Rightarrow> (case map_of d key of Some x \<Rightarrow> Inr x | None \<Rightarrow> Inr PNone)
      | _ \<Rightarrow> Inl AttributeError)"

definition py_contains :: "string \<Rightarrow> pyval \<Rightarrow> error + bool" where
  "py_contains needle v =
     (case v of
        PStr s \<Rightarrow> Inr (sublist needle s)
      | PList xs \<Rightarrow> Inr (PStr needle \<in> set xs)
      | PDict d \<Rightarrow> Inr (needle \<in> fst ` set d)
      | _ \<Rightarrow> Inl TypeError)"

section \<open>The API version gate\<close>

text \<open>
  \<^verbatim>\<open>re.search\<close> and \<^verbatim>\<open>int\<close> work on the characters of a string. A string of the model
  holds the bytes of the UTF-8 encoding, so a character is a lead byte with the
  continuation bytes that follow it; \<open>chars_of\<close> gives the characters in order.
\<close>

definition is_continuation :: "char \<Rightarrow> bool" where
  "is_continuation b = (128 \<le> (of_char b :: nat) \<and> (of_char b :: nat) < 192)"

function chars_of :: "string \<Rightarrow> string list" where
  "chars_of [] = []"
| "chars_of (b # bs) =
     (b # takeWhile is_continuation bs) # chars_of (dropWhile is_continuation bs)"
  by pat_completeness auto
termination
  by (relation "measure length") (auto simp: length_dropWhile_le less_Suc_eq_le)

text \<open>
  The characters that \<^verbatim>\<open>\d\<close> matches and \<^verbatim>\<open>int\<close> converts, with their values. An ASCII
  character is a decimal digit when it is one of 0 to 9. For any other character the
  interpreter decides, with one table for both functions: Python 3 takes every
  decimal digit of its Unicode database, Python 2 takes none.
\<close>

definition decimal_value :: "pylib \<Rightarrow> string \<Rightarrow> nat option" where
  "decimal_value lib c =
     (case c of
        [b] \<Rightarrow>
          if (of_char b :: nat) < 128
          then (if b \<in> set ''0123456789'' then Some (of_char b - 48) else None)
          else nonascii_decimal lib c
      | _ \<Rightarrow> nonascii_decimal lib c)"

definition CLOUD_WAPI_MAJOR_VERSION :: int where
  "CLOUD_WAPI_MAJOR_VERSION = 2"

definition is_digit :: "pylib \<Rightarrow> string \<Rightarrow> bool" where
  "is_digit lib c = (decimal_value lib c \<noteq> None)"

text \<open>\<^verbatim>\<open>int(s)\<close> on a string of decimal digits, which is all the source passes to it.\<close>

definition digit_value :: "pylib \<Rightarrow> string \<Rightarrow> int" where
  "digit_value lib c = (case decimal_value lib c of Some d \<Rightarrow> int d | None \<Rightarrow> 0)"

definition int_of_digits :: "pylib \<Rightarrow> string list \<Rightarrow> int" where
  "int_of_digits lib cs = foldl (\<lambda>acc c. 10 * acc + digit_value lib c) 0 cs"

text \<open>
  \<^verbatim>\<open>re.search('(\d+)\.(\d+)', s)\<close> on the characters of \<open>s\<close>. At a start position the
  first group takes the longest run of digits and gives digits back one at a time
  until a dot and a digit follow; the second group then takes the longest run of
  digits. The search tries the start positions from left to right. The result is the
  pair of groups.
\<close>

definition version_match_at :: "pylib \<Rightarrow> string list \<Rightarrow> (string list \<times> string list) option" where
  "version_match_at lib s =
     (let run = takeWhile (is_digit lib) s in
      case List.find
             (\<lambda>n. case drop n s of
                     c # d # _ \<Rightarrow> c = ''.'' \<and> is_digit lib d
                   | _ \<Rightarrow> False)
             (rev [1 ..< Suc (length run)]) of
        None \<Rightarrow> None
      | Some n \<Rightarrow> Some (take n s, takeWhile (is_digit lib) (drop (Suc n) s)))"

fun version_search :: "pylib \<Rightarrow> string list \<Rightarrow> (string list \<times> string list) option" where
  "version_search lib [] = version_match_at lib []"
| "version_search lib (c # cs) =
     (case version_match_at lib (c # cs) of
        Some g \<Rightarrow> Some g
      | None \<Rightarrow> version_search lib cs)"

text \<open>
  \<^verbatim>\<open>Connector.is_cloud_wapi\<close>. \<^verbatim>\<open>valid\<close> is falsy for a falsy argument and for an
  argument that is not a string.
\<close>

definition is_string :: "pyval \<Rightarrow> bool" where
  "is_string v = (case v of PStr _ \<Rightarrow> True | _ \<Rightarrow> False)"

definition is_cloud_wapi :: "pylib \<Rightarrow> pyval \<Rightarrow> error + bool" where
  "is_cloud_wapi lib wapi_version =
     (let valid = truthy wapi_version \<and> is_string wapi_version in
      if \<not> valid then Inl (ValueError ''Invalid argument was passed'')
      else case wapi_version of
             PStr s \<Rightarrow>
               (case version_search lib (chars_of s) of
                  Some (major, minor) \<Rightarrow>
                    if int_of_digits lib major \<ge> CLOUD_WAPI_MAJOR_VERSION then Inr True
                    else Inr False
                | None \<Rightarrow> Inr False)
           | _ \<Rightarrow> Inl (ValueError ''Invalid argument was passed''))"

section \<open>The object-type validator\<close>

text \<open>\<^verbatim>\<open>Connector._validate_obj_type_or_die\<close>; \<^verbatim>\<open>obj_type_expected\<close> defaults to true.\<close>

definition validate_obj_type_or_die :: "string \<Rightarrow> bool \<Rightarrow> error + unit" where
  "validate_obj_type_or_die obj_type obj_type_expected =
     (if obj_type = [] then Inl (ValueError ''NIOS object type cannot be empty.'')
      else if obj_type_expected \<and> CHR ''/'' \<in> set obj_type
        then Inl (ValueError ''NIOS object type cannot contain slash.'')
      else Inr ())"

section \<open>Configuration resolution\<close>

text \<open>
  The options source is a dict, an object with attributes, or both (a dict subclass):
  \<^verbatim>\<open>opt_items\<close> are the keys \<^verbatim>\<open>attr in options\<close> finds when the source is a dict,
  \<^verbatim>\<open>opt_attrs\<close> the attributes \<^verbatim>\<open>hasattr\<close> finds.
\<close>

record options =
  is_dict :: bool
  opt_items :: pydict
  opt_attrs :: pydict

definition DEFAULT_OPTIONS :: pydict where
  "DEFAULT_OPTIONS =
     [(''ssl_verify'', PBool False),
      (''silent_ssl_warnings'', PBool False),
      (''http_request_timeout'', PInt 10),
      (''http_pool_connections'', PInt 10),
      (''http_pool_maxsize'', PInt 10),
      (''wapi_version'', PStr ''1.4''),
      (''log_api_calls_as_info'', PBool False)]"

text \<open>One round of the loop over \<^verbatim>\<open>attributes\<close> in \<^verbatim>\<open>_parse_options\<close>.\<close>

definition resolve_option :: "options \<Rightarrow> string \<Rightarrow> error + pyval" where
  "resolve_option opts attr =
     (case (if is_dict opts then map_of (opt_items opts) attr else None) of
        Some v \<Rightarrow> Inr v
      | None \<Rightarrow>
         (case map_of (opt_attrs opts) attr of
            Some v \<Rightarrow> Inr v
          | None \<Rightarrow>
             (case map_of DEFAULT_OPTIONS attr of
                Some v \<Rightarrow> Inr v
              | None \<Rightarrow>
                 Inl (InfobloxConfigException
                       (''WAPI config error. Option '' @ attr @ '' is not defined'')))))"

text \<open>One round of the second loop, over host, username and password.\<close>

definition require_not_blank :: "string \<Rightarrow> pyval \<Rightarrow> error + unit" where
  "require_not_blank attr v =
     (if \<not> truthy v
      then Inl (InfobloxConfigException
                 (''WAPI config error. Option '' @ attr @ '' can not be blank''))
      else Inr ())"

record config =
  host :: pyval
  wapi_version :: pyval
  username :: pyval
  password :: pyval
  ssl_verify :: pyval
  http_request_timeout :: pyval
  http_pool_connections :: pyval
  http_pool_maxsize :: pyval
  silent_ssl_warnings :: pyval
  log_api_calls_as_info :: pyval
  wapi_url :: string
  cloud_api_enabled :: bool

text \<open>
  \<^verbatim>\<open>Connector._parse_options\<close>, the loops over the fixed tuples written out in their
  order.
\<close>

definition parse_options :: "pylib \<Rightarrow> options \<Rightarrow> error + config" where
  "parse_options lib opts =
     and_then (resolve_option opts ''host'') (\<lambda>v_host.
     and_then (resolve_option opts ''wapi_version'') (\<lambda>v_wapi_version.
     and_then (resolve_option opts ''username'') (\<lambda>v_username.
     and_then (resolve_option opts ''password'') (\<lambda>v_password.
     and_then (resolve_option opts ''ssl_verify'') (\<lambda>v_ssl_verify.
     and_then (resolve_option opts ''http_request_timeout'') (\<lambda>v_timeout.
     and_then (resolve_option opts ''http_pool_connections'') (\<lambda>v_pool_connections.
     and_then (resolve_option opts ''http_pool_maxsize'') (\<lambda>v_pool_maxsize.
     and_then (resolve_option opts ''silent_ssl_warnings'') (\<lambda>v_silent.
     and_then (resolve_option opts ''log_api_calls_as_info'') (\<lambda>v_log_info.
     and_then (require_not_blank ''host'' v_host) (\<lambda>_.
     and_then (require_not_blank ''username'' v_username) (\<lambda>_.
     and_then (require_not_blank ''password'' v_password) (\<lambda>_.
     let url = ''https://'' @ format_s lib v_host @ ''/wapi/v''
                 @ format_s lib v_wapi_version @ ''/'' in
     and_then (is_cloud_wapi lib v_wapi_version) (\<lambda>cloud.
     Inr \<lparr> host = v_host, wapi_version = v_wapi_version, username = v_username,
           password = v_password, ssl_verify = v_ssl_verify,
           http_request_timeout = v_timeout,
           http_pool_connections = v_pool_connections,
           http_pool_maxsize = v_pool_maxsize, silent_ssl_warnings = v_silent,
           log_api_calls_as_info = v_log_info, wapi_url = url,
           cloud_api_enabled = cloud \<rparr>))))))))))))))"

text \<open>
  \<^verbatim>\<open>Connector._configure_session\<close> and the rest of \<^verbatim>\<open>__init__\<close>: the session's settings
  and the \<^verbatim>\<open>urllib\<close> functions kept in the connector.
\<close>

record session_config =
  pool_connections :: pyval
  pool_maxsize :: pyval
  auth :: "pyval \<times> pyval"
  verify :: pyval
  warnings_disabled :: bool

record connector = config +
  session :: session_config
  urlencode :: "pydict \<Rightarrow> string"
  quote :: "string \<Rightarrow> string"
  urljoin :: "string \<Rightarrow> string \<Rightarrow> string"

definition configure_session :: "config \<Rightarrow> session_config" where
  "configure_session c =
     \<lparr> pool_connections = http_pool_connections c,
       pool_maxsize = http_pool_maxsize c,
       auth = (username c, password c),
       verify = ssl_verify c,
       warnings_disabled = truthy (silent_ssl_warnings c) \<rparr>"

definition connector_init :: "pylib \<Rightarrow> options \<Rightarrow> error + connector" where
  "connector_init lib opts =
     and_then (parse_options lib opts) (\<lambda>c.
       Inr (config.extend c
              (connector.fields (configure_session c)
                 (lib_urlencode lib) (lib_quote lib) (lib_urljoin lib))))"

section \<open>URL and query construction\<close>

text \<open>
  The loop of \<^verbatim>\<open>_construct_url\<close> over \<^verbatim>\<open>extattrs.items()\<close>, with \<^verbatim>\<open>attrs_queries\<close> as the
  accumulator. \<^verbatim>\<open>value['value']\<close> raises on a descriptor without that key, and the
  concatenation on a value that is not a string.
\<close>

definition extattr_query :: "string \<Rightarrow> pyval \<Rightarrow> error + string" where
  "extattr_query key descr =
     and_then (py_getitem descr ''value'') (\<lambda>v.
       case v of
         PStr s \<Rightarrow> Inr (''*'' @ key @ ''='' @ s)
       | _ \<Rightarrow> Inl TypeError)"

fun extattr_queries :: "pydict \<Rightarrow> string list \<Rightarrow> error + string list" where
  "extattr_queries [] attrs_queries = Inr attrs_queries"
| "extattr_queries ((key, descr) # rest) attrs_queries =
     and_then (extattr_query key descr) (\<lambda>q.
       extattr_queries rest (attrs_queries @ [q]))"

text \<open>
  \<^verbatim>\<open>Connector._construct_url\<close>. \<^verbatim>\<open>None\<close> for \<^verbatim>\<open>query_params\<close> or \<^verbatim>\<open>extattrs\<close> is the
  default of the source. The result does not show that the source stores
  \<^verbatim>\<open>_proxy_search\<close> in the caller's dict: \<^verbatim>\<open>get_object\<close>, the one caller that uses its
  dict again, does so only after a call with \<^verbatim>\<open>force_proxy\<close> false.
\<close>

definition construct_url ::
  "'a connector_scheme \<Rightarrow> string \<Rightarrow> pydict option \<Rightarrow> pydict option \<Rightarrow> bool \<Rightarrow> error + string"
where
  "construct_url c relative_path query_params extattrs force_proxy =
     (let query_params = (case query_params of None \<Rightarrow> [] | Some q \<Rightarrow> q);
          extattrs = (case extattrs of None \<Rightarrow> [] | Some e \<Rightarrow> e);
          query_params = (if force_proxy
                          then AList.update ''_proxy_search'' (PStr ''GM'') query_params
                          else query_params)
      in
      if relative_path = [] \<or> hd relative_path = CHR ''/''
      then Inl (ValueError ''Path in request must be relative.'')
      else
        let query = (if query_params \<noteq> [] \<or> extattrs \<noteq> [] then ''?'' else []) in
        and_then (if extattrs \<noteq> []
                  then and_then (extattr_queries extattrs [])
                         (\<lambda>attrs_queries. Inr (query @ join ''&'' attrs_queries))
                  else Inr query) (\<lambda>query.
        let query = (if query_params \<noteq> []
                     then (if length query > 1 then query @ ''&'' else query)
                            @ urlencode c query_params
                     else query);
            base_url = urljoin c (wapi_url c) (quote c relative_path)
        in Inr (base_url @ query)))"

section \<open>Requests and replies\<close>

record response =
  status_code :: int
  content :: string

text \<open>\<^verbatim>\<open>requests.codes.UNAUTHORIZED\<close> is 401, \<^verbatim>\<open>ok\<close> 200 and \<^verbatim>\<open>CREATED\<close> 201.\<close>

definition validate_authorized :: "response \<Rightarrow> error + unit" where
  "validate_authorized r =
     (if status_code r = 401 then Inl (InfobloxBadWAPICredential []) else Inr ())"

definition build_query_params :: "pydict option \<Rightarrow> string list option \<Rightarrow> pydict" where
  "build_query_params payload return_fields =
     (let query_params = (case payload of
                            Some p \<Rightarrow> if p \<noteq> [] then p else []
                          | None \<Rightarrow> [])
      in case return_fields of
           Some fs \<Rightarrow>
             if fs \<noteq> []
             then AList.update ''_return_fields'' (PStr (join '','' fs)) query_params
             else query_params
         | None \<Rightarrow> query_params)"

record request_opts =
  opt_verify :: pyval
  opt_timeout :: pyval
  opt_headers :: "(string \<times> string) list"
  opt_data :: "string option"

definition DEFAULT_HEADER :: "(string \<times> string) list" where
  "DEFAULT_HEADER = [(''Content-type'', ''application/json'')]"

definition get_request_options :: "pylib \<Rightarrow> 'a connector_scheme \<Rightarrow> pyval \<Rightarrow> request_opts" where
  "get_request_options lib c data =
     \<lparr> opt_verify = ssl_verify c,
       opt_timeout = http_request_timeout c,
       opt_headers = DEFAULT_HEADER,
       opt_data = (if truthy data then Some (dumps lib data) else None) \<rparr>"

definition parse_reply :: "pylib \<Rightarrow> response \<Rightarrow> error + pyval" where
  "parse_reply lib request =
     (case loads lib (content request) of
        Some v \<Rightarrow> Inr v
      | None \<Rightarrow> Inl (InfobloxConnectionError (RawContent (content request))))"

text \<open>
  The remote side. A request either gets a response or fails in the HTTP library with a
  timeout or another request exception; the appliance may answer the same request
  differently each time, so it has a state. The world also keeps the requests sent and
  the log records written, in order.
\<close>

datatype http_method = GET | POST | PUT | DELETE

datatype outcome = Reply response | TimedOut | Failed

type_synonym 's transport = "http_method \<Rightarrow> string \<Rightarrow> request_opts \<Rightarrow> 's \<Rightarrow> outcome \<times> 's"

datatype log_level = Info | Debug

record 's world =
  remote :: 's
  sent :: "(http_method \<times> string \<times> request_opts) list"
  logged :: "(log_level \<times> string \<times> request_opts) list"

definition log_request ::
  "'a connector_scheme \<Rightarrow> string \<Rightarrow> request_opts \<Rightarrow> 's world \<Rightarrow> 's world"
where
  "log_request c url opts w =
     w\<lparr> logged := logged w @
          [(if truthy (log_api_calls_as_info c) then Info else Debug, url, opts)] \<rparr>"

definition session_request ::
  "'s transport \<Rightarrow> http_method \<Rightarrow> string \<Rightarrow> request_opts \<Rightarrow> 's world
     \<Rightarrow> (error + response) \<times> 's world"
where
  "session_request tr m url opts w =
     (case tr m url opts (remote w) of
        (out, s') \<Rightarrow>
          ((case out of
              Reply r \<Rightarrow> Inr r
            | TimedOut \<Rightarrow> Inl RequestsTimeout
            | Failed \<Rightarrow> Inl RequestsException),
           w\<lparr> remote := s', sent := sent w @ [(m, url, opts)] \<rparr>))"

text \<open>The decorator on every public operation.\<close>

definition reraise_neutron_exception :: "(error + 'a) \<times> 'w \<Rightarrow> (error + 'a) \<times> 'w" where
  "reraise_neutron_exception res =
     (case res of
        (Inl RequestsTimeout, w) \<Rightarrow> (Inl InfobloxTimeoutError, w)
      | (Inl RequestsException, w) \<Rightarrow> (Inl (InfobloxConnectionError TransportFailure), w)
      | _ \<Rightarrow> res)"

section \<open>The operations\<close>

text \<open>\<^verbatim>\<open>jsonutils.loads\<close> where the source calls it with no handler around it.\<close>

definition json_loads :: "pylib \<Rightarrow> string \<Rightarrow> error + pyval" where
  "json_loads lib data =
     (case loads lib data of Some v \<Rightarrow> Inr v | None \<Rightarrow> Inl (JSONDecodeFailure data))"

text \<open>What an operation does with the response, when the request gave one.\<close>

definition with_response ::
  "(error + response) \<times> 'w \<Rightarrow> (response \<Rightarrow> error + 'a) \<Rightarrow> (error + 'a) \<times> 'w"
where
  "with_response res f = (case res of (Inl e, w) \<Rightarrow> (Inl e, w) | (Inr r, w) \<Rightarrow> (f r, w))"

text \<open>
  \<^verbatim>\<open>Connector._get_object\<close>, here \<open>get_object1\<close>: one GET request and the reading of its
  response. The keyword arguments of an exception are evaluated before it is raised,
  so a body that does not decode raises from \<^verbatim>\<open>jsonutils.loads\<close> instead.
\<close>

definition get_object1_reply :: "pylib \<Rightarrow> string \<Rightarrow> response \<Rightarrow> error + pyval" where
  "get_object1_reply lib obj_type r =
     and_then (validate_authorized r) (\<lambda>_.
       if status_code r \<noteq> 200
       then and_then (json_loads lib (content r)) (\<lambda>body.
              Inl (InfobloxSearchError body obj_type (content r) (status_code r)))
       else parse_reply lib r)"

definition get_object1 ::
  "pylib \<Rightarrow> 's transport \<Rightarrow> 'a connector_scheme \<Rightarrow> string \<Rightarrow> string \<Rightarrow> 's world
     \<Rightarrow> (error + pyval) \<times> 's world"
where
  "get_object1 lib tr c obj_type url w =
     (let opts = get_request_options lib c PNone;
          w1 = log_request c url opts w
      in with_response (session_request tr GET url opts w1)
           (get_object1_reply lib obj_type))"

text \<open>\<^verbatim>\<open>Connector.get_object\<close> under its decorator.\<close>

definition get_object_body ::
  "pylib \<Rightarrow> 's transport \<Rightarrow> 'a connector_scheme \<Rightarrow> string \<Rightarrow> pydict option
     \<Rightarrow> string list option \<Rightarrow> pydict option \<Rightarrow> bool \<Rightarrow> 's world
     \<Rightarrow> (error + pyval) \<times> 's world"
where
  "get_object_body lib tr c obj_type payload return_fields extattrs force_proxy w =
     (case validate_obj_type_or_die obj_type False of
        Inl e \<Rightarrow> (Inl e, w)
      | Inr _ \<Rightarrow>
         let query_params = build_query_params payload return_fields;
             proxy_flag = (cloud_api_enabled c \<and> force_proxy)
         in case construct_url c obj_type (Some query_params) extattrs proxy_flag of
              Inl e \<Rightarrow> (Inl e, w)
            | Inr url \<Rightarrow>
               (case get_object1 lib tr c obj_type url w of
                  (Inl e, w1) \<Rightarrow> (Inl e, w1)
                | (Inr ib_object, w1) \<Rightarrow>
                   if truthy ib_object then (Inr ib_object, w1)
                   else if cloud_api_enabled c \<and> \<not> force_proxy
                   then (case construct_url c obj_type (Some query_params) extattrs True of
                           Inl e \<Rightarrow> (Inl e, w1)
                         | Inr url2 \<Rightarrow>
                            (case get_object1 lib tr c obj_type url2 w1 of
                               (Inl e, w2) \<Rightarrow> (Inl e, w2)
                             | (Inr ib_object2, w2) \<Rightarrow>
                                if truthy ib_object2 then (Inr ib_object2, w2)
                                else (Inr PNone, w2)))
                   else (Inr PNone, w1)))"

definition get_object ::
  "pylib \<Rightarrow> 's transport \<Rightarrow> 'a connector_scheme \<Rightarrow> string \<Rightarrow> pydict option
     \<Rightarrow> string list option \<Rightarrow> pydict option \<Rightarrow> bool \<Rightarrow> 's world
     \<Rightarrow> (error + pyval) \<times> 's world"
where
  "get_object lib tr c obj_type payload return_fields extattrs force_proxy w =
     reraise_neutron_exception
       (get_object_body lib tr c obj_type payload return_fields extattrs force_proxy w)"

text \<open>
  \<^verbatim>\<open>Connector.create_object\<close>. \<^verbatim>\<open>response and already_assigned in response.get('text')\<close>
  looks the text up only when the body is truthy.
\<close>

definition already_assigned :: string where
  "already_assigned = ''is assigned to another network view''"

definition create_object_reply ::
  "pylib \<Rightarrow> string \<Rightarrow> pyval \<Rightarrow> response \<Rightarrow> error + pyval"
where
  "create_object_reply lib obj_type payload r =
     and_then (validate_authorized r) (\<lambda>_.
       if status_code r \<noteq> 201
       then
         let response = safe_json_load lib (content r) in
         and_then (if truthy response
                   then and_then (py_get response ''text'') (py_contains already_assigned)
                   else Inr False) (\<lambda>assigned.
           if assigned
           then Inl (InfobloxMemberAlreadyAssigned response obj_type (content r) payload
                       (status_code r))
           else Inl (InfobloxCannotCreateObject response obj_type (content r) payload
                       (status_code r)))
       else parse_reply lib r)"

definition create_object ::
  "pylib \<Rightarrow> 's transport \<Rightarrow> 'a connector_scheme \<Rightarrow> string \<Rightarrow> pyval
     \<Rightarrow> string list option \<Rightarrow> 's world \<Rightarrow> (error + pyval) \<times> 's world"
where
  "create_object lib tr c obj_type payload return_fields w =
     reraise_neutron_exception
       (case validate_obj_type_or_die obj_type True of
          Inl e \<Rightarrow> (Inl e, w)
        | Inr _ \<Rightarrow>
           let query_params = build_query_params None return_fields
           in case construct_url c obj_type (Some query_params) None False of
                Inl e \<Rightarrow> (Inl e, w)
              | Inr url \<Rightarrow>
                 let opts = get_request_options lib c payload;
                     w1 = log_request c url opts w
                 in with_response (session_request tr POST url opts w1)
                      (create_object_reply lib obj_type payload))"

text \<open>\<^verbatim>\<open>Connector.call_func\<close>.\<close>

definition call_func_reply ::
  "pylib \<Rightarrow> string \<Rightarrow> string \<Rightarrow> response \<Rightarrow> error + pyval"
where
  "call_func_reply lib func_name ref r =
     and_then (validate_authorized r) (\<lambda>_.
       if status_code r \<notin> {201, 200}
       then and_then (json_loads lib (content r)) (\<lambda>body.
              Inl (InfobloxFuncException body ref func_name (content r) (status_code r)))
       else parse_reply lib r)"

definition call_func ::
  "pylib \<Rightarrow> 's transport \<Rightarrow> 'a connector_scheme \<Rightarrow> string \<Rightarrow> string \<Rightarrow> pyval
     \<Rightarrow> string list option \<Rightarrow> 's world \<Rightarrow> (error + pyval) \<times> 's world"
where
  "call_func lib tr c func_name ref payload return_fields w =
     reraise_neutron_exception
       (let query_params = build_query_params None return_fields;
            query_params = AList.update ''_function'' (PStr func_name) query_params
        in case construct_url c ref (Some query_params) None False of
             Inl e \<Rightarrow> (Inl e, w)
           | Inr url \<Rightarrow>
              let opts = get_request_options lib c payload;
                  w1 = log_request c url opts w
              in with_response (session_request tr POST url opts w1)
                   (call_func_reply lib func_name ref))"

text \<open>\<^verbatim>\<open>Connector.update_object\<close>.\<close>

definition update_object_reply :: "pylib \<Rightarrow> string \<Rightarrow> response \<Rightarrow> error + pyval" where
  "update_object_reply lib ref r =
     and_then (validate_authorized r) (\<lambda>_.
       if status_code r \<noteq> 200
       then and_then (json_loads lib (content r)) (\<lambda>body.
              Inl (InfobloxCannotUpdateObject body ref (content r) (status_code r)))
       else parse_reply lib r)"

definition update_object ::
  "pylib \<Rightarrow> 's transport \<Rightarrow> 'a connector_scheme \<Rightarrow> string \<Rightarrow> pyval
     \<Rightarrow> string list option \<Rightarrow> 's world \<Rightarrow> (error + pyval) \<times> 's world"
where
  "update_object lib tr c ref payload return_fields w =
     reraise_neutron_exception
       (let query_params = build_query_params None return_fields;
            opts = get_request_options lib c payload
        in case construct_url c ref (Some query_params) None False of
             Inl e \<Rightarrow> (Inl e, w)
           | Inr url \<Rightarrow>
              let w1 = log_request c url opts w
              in with_response (session_request tr PUT url opts w1)
                   (update_object_reply lib ref))"

text \<open>\<^verbatim>\<open>Connector.delete_object\<close>.\<close>

definition delete_object_reply :: "pylib \<Rightarrow> string \<Rightarrow> response \<Rightarrow> error + pyval" where
  "delete_object_reply lib ref r =
     and_then (validate_authorized r) (\<lambda>_.
       if status_code r \<noteq> 200
       then and_then (json_loads lib (content r)) (\<lambda>body.
              Inl (InfobloxCannotDeleteObject body ref (content r) (status_code r)))
       else parse_reply lib r)"

definition delete_object ::
  "pylib \<Rightarrow> 's transport \<Rightarrow> 'a connector_scheme \<Rightarrow> string \<Rightarrow> 's world
     \<Rightarrow> (error + pyval) \<times> 's world"
where
  "delete_object lib tr c ref w =
     reraise_neutron_exception
       (let opts = get_request_options lib c PNone
        in case construct_url c ref None None False of
             Inl e \<Rightarrow> (Inl e, w)
           | Inr url \<Rightarrow>
              let w1 = log_request c url opts w
              in with_response (session_request tr DELETE url opts w1)
                   (delete_object_reply lib ref))"

section \<open>Notions of the specification\<close>

text \<open>
  A version pattern in the specification's words, on the characters of the string: a
  non-empty run of decimal digits, a dot, a non-empty run of decimal digits. The first
  pattern is the one that starts leftmost and whose minor part is not followed by a
  further digit.
\<close>

definition digits :: "pylib \<Rightarrow> string list \<Rightarrow> bool" where
  "digits lib cs = (cs \<noteq> [] \<and> list_all (is_digit lib) cs)"

definition version_pattern_at ::
  "pylib \<Rightarrow> string list \<Rightarrow> string list \<Rightarrow> string list \<Rightarrow> string list \<Rightarrow> string list
     \<Rightarrow> bool"
where
  "version_pattern_at lib s pre major minor post =
     (s = pre @ major @ [''.''] @ minor @ post \<and> digits lib major \<and> digits lib minor)"

definition first_version_pattern ::
  "pylib \<Rightarrow> string list \<Rightarrow> string list \<Rightarrow> string list \<Rightarrow> bool"
where
  "first_version_pattern lib s major minor =
     (\<exists>pre post. version_pattern_at lib s pre major minor post \<and>
        (case post of [] \<Rightarrow> True | c # _ \<Rightarrow> \<not> is_digit lib c) \<and>
        (\<forall>pre' major' minor' post'.
           version_pattern_at lib s pre' major' minor' post' \<longrightarrow> length pre \<le> length pre'))"

text \<open>
  The number a run of decimal digits writes, in positional notation: the digit at
  position \<open>i\<close> of \<open>n\<close> counts \<open>10 ^ (n - 1 - i)\<close> times its value.
\<close>

definition denotes :: "nat list \<Rightarrow> nat" where
  "denotes ds = (\<Sum>i < length ds. ds ! i * 10 ^ (length ds - Suc i))"

definition number_of :: "pylib \<Rightarrow> string list \<Rightarrow> nat" where
  "number_of lib cs =
     denotes (map (\<lambda>c. case decimal_value lib c of Some d \<Rightarrow> d | None \<Rightarrow> 0) cs)"

text \<open>
  The value the options source provides for an option, and the value an option
  resolves to: the provided one, else the fixed default.
\<close>

definition provided :: "options \<Rightarrow> string \<Rightarrow> pyval option" where
  "provided opts attr =
     (case (if is_dict opts then map_of (opt_items opts) attr else None) of
        Some v \<Rightarrow> Some v
      | None \<Rightarrow> map_of (opt_attrs opts) attr)"

definition resolved :: "options \<Rightarrow> string \<Rightarrow> pyval option" where
  "resolved opts attr =
     (case provided opts attr of
        Some v \<Rightarrow> Some v
      | None \<Rightarrow> map_of DEFAULT_OPTIONS attr)"

text \<open>
  Extensible attributes as the data model has them: every descriptor is a dict with a
  string under \<^verbatim>\<open>value\<close>. \<open>extattr_values\<close> gives the name and value pairs of such
  attributes, in order, and nothing for others.
\<close>

fun extattr_values :: "pydict \<Rightarrow> (string \<times> string) list option" where
  "extattr_values [] = Some []"
| "extattr_values ((key, descr) # rest) =
     (case descr of
        PDict d \<Rightarrow>
          (case map_of d ''value'' of
             Some (PStr s) \<Rightarrow> map_option ((#) (key, s)) (extattr_values rest)
           | _ \<Rightarrow> None)
      | _ \<Rightarrow> None)"

text \<open>
  The query string in the specification's words: the extensible-attribute segment after
  a leading question mark, then the encoded ordinary parameters, with an ampersand
  between them when both are there.
\<close>

fun extattr_segment :: "(string \<times> string) list \<Rightarrow> string" where
  "extattr_segment [] = []"
| "extattr_segment ((k, v) # rest) =
     ''*'' @ k @ ''='' @ v @ (if rest = [] then [] else ''&'' @ extattr_segment rest)"

definition query_string ::
  "(pydict \<Rightarrow> string) \<Rightarrow> pydict \<Rightarrow> (string \<times> string) list \<Rightarrow> string"
where
  "query_string encode params eas =
     (if params = [] \<and> eas = [] then []
      else ''?'' @ extattr_segment eas
             @ (if eas \<noteq> [] \<and> params \<noteq> [] then ''&'' else [])
             @ (if params \<noteq> [] then encode params else []))"

text \<open>The remote side answers a request sent from world \<open>w\<close> with the response \<open>r\<close>.\<close>

definition answers ::
  "'s transport \<Rightarrow> http_method \<Rightarrow> string \<Rightarrow> request_opts \<Rightarrow> 's world \<Rightarrow> response \<Rightarrow> bool"
where
  "answers tr m url opts w r = (fst (tr m url opts (remote w)) = Reply r)"

text \<open>The two configuration errors of \<^verbatim>\<open>_parse_options\<close>.\<close>

definition not_defined_error :: "string \<Rightarrow> error" where
  "not_defined_error attr =
     InfobloxConfigException (''WAPI config error. Option '' @ attr @ '' is not defined'')"

definition blank_error :: "string \<Rightarrow> error" where
  "blank_error attr =
     InfobloxConfigException (''WAPI config error. Option '' @ attr @ '' can not be blank'')"

section \<open>A sample environment\<close>

text \<open>
  Concrete stand-ins for the library functions and the remote side, used to run the
  model on examples. The decoder knows a few bodies; the remote side answers the
  requests from a script, one reply per request.
\<close>

definition sample_loads :: "string \<Rightarrow> pyval option" where
  \<open>sample_loads s =
     (if s = ''[]'' then Some (PList [])
      else if s = ''null'' then Some PNone
      else if s = ''[{"network": "10.0.0.0/8"}]''
        then Some (PList [PDict [(''network'', PStr ''10.0.0.0/8'')]])
      else if s = ''{"Error": "x"}'' then Some (PDict [(''Error'', PStr ''x'')])
      else if s = ''{"text": "bad request"}''
        then Some (PDict [(''text'', PStr ''bad request'')])
      else None)\<close>

definition sample_urlencode :: "pydict \<Rightarrow> string" where
  "sample_urlencode d =
     join ''&'' (map (\<lambda>(k, v). k @ ''='' @ (case v of PStr s \<Rightarrow> s | _ \<Rightarrow> ''...'')) d)"

text \<open>
  The sample digit table knows the Arabic-Indic digits U+0660 to U+0669, which UTF-8
  writes as the byte 0xD9 followed by a byte from 0xA0 to 0xA9.
\<close>

definition sample_decimal :: "string \<Rightarrow> nat option" where
  "sample_decimal c =
     (case c of
        [b1, b2] \<Rightarrow>
          if b1 = CHR 0xD9 \<and> 160 \<le> (of_char b2 :: nat) \<and> (of_char b2 :: nat) < 170
          then Some (of_char b2 - 160) else None
      | _ \<Rightarrow> None)"

definition sample_lib :: pylib where
  "sample_lib =
     \<lparr> str_of = (\<lambda>v. ''...''),
       loads = sample_loads,
       dumps = (\<lambda>v. ''{}''),
       lib_urlencode = sample_urlencode,
       lib_quote = (\<lambda>s. s),
       lib_urljoin = (\<lambda>base rel. base @ rel),
       nonascii_decimal = sample_decimal \<rparr>"

definition sample_options :: "string \<Rightarrow> options" where
  "sample_options version =
     \<lparr> is_dict = True,
       opt_items = [(''host'', PStr ''nios.example.com''), (''username'', PStr ''a''),
                    (''password'', PStr ''b''), (''wapi_version'', PStr version)],
       opt_attrs = [] \<rparr>"

definition sample_connector :: "bool \<Rightarrow> connector" where
  "sample_connector cloud =
     \<lparr> host = PStr ''nios.example.com'',
       wapi_version = PStr (if cloud then ''2.5'' else ''1.4''),
       username = PStr ''a'', password = PStr ''b'',
       ssl_verify = PBool False, http_request_timeout = PInt 10,
       http_pool_connections = PInt 10, http_pool_maxsize = PInt 10,
       silent_ssl_warnings = PBool False, log_api_calls_as_info = PBool False,
       wapi_url = (if cloud then ''https://nios.example.com/wapi/v2.5/''
                   else ''https://nios.example.com/wapi/v1.4/''),
       cloud_api_enabled = cloud,
       session = \<lparr> pool_connections = PInt 10, pool_maxsize = PInt 10,
                   auth = (PStr ''a'', PStr ''b''), verify = PBool False,
                   warnings_disabled = False \<rparr>,
       urlencode = sample_urlencode,
       quote = (\<lambda>s. s),
       urljoin = (\<lambda>base rel. base @ rel) \<rparr>"

fun scripted :: "outcome list transport" where
  "scripted m url opts [] = (Failed, [])"
| "scripted m url opts (out # rest) = (out, rest)"

definition fresh :: "'s \<Rightarrow> 's world" where
  "fresh s = \<lparr> remote = s, sent = [], logged = [] \<rparr>"

definition reply :: "int \<Rightarrow> string \<Rightarrow> outcome" where
  "reply code body = Reply \<lparr> status_code = code, content = body \<rparr>"

definition object_options :: "pydict \<Rightarrow> options" where
  "object_options attrs = \<lparr> is_dict = False, opt_items = [], opt_attrs = attrs \<rparr>"

section \<open>Properties of the version gate and the validator\<close>

lemma find_last_only:
  assumes "\<And>n. 1 \<le> n \<Longrightarrow> n < k \<Longrightarrow> \<not> P n"
  shows "List.find P (rev [1 ..< Suc k]) = (if 1 \<le> k \<and> P k then Some k else None)"
proof (cases "1 \<le> k")
  case False
  then show ?thesis by simp
next
  case True
  then have "rev [1 ..< Suc k] = k # rev [1 ..< k]" by simp
  moreover have "List.find P (rev [1 ..< k]) = None"
    using assms by (auto simp: find_None_iff)
  ultimately show ?thesis using True by simp
qed

lemma drop_in_run:
  assumes "n < length (takeWhile (is_digit lib) s)"
  shows "\<exists>c r. drop n s = c # r \<and> is_digit lib c"
proof -
  let ?run = "takeWhile (is_digit lib) s"
  have s: "s = ?run @ dropWhile (is_digit lib) s" by simp
  have "drop n s = drop n ?run @ dropWhile (is_digit lib) s"
    using assms by (metis s drop_append less_imp_le_nat diff_is_0_eq drop0)
  moreover obtain c r where "drop n ?run = c # r"
    using assms by (metis Cons_nth_drop_Suc)
  moreover have "c \<in> set ?run" using calculation(2) by (metis in_set_dropD list.set_intros(1))
  then have "is_digit lib c" by (metis set_takeWhileD)
  ultimately show ?thesis by auto
qed

lemma dot_not_digit: "\<not> is_digit lib ''.''"
  by (simp add: is_digit_def decimal_value_def)

lemma version_match_at_run:
  "version_match_at lib s =
     (let run = takeWhile (is_digit lib) s; rest = dropWhile (is_digit lib) s in
      if run \<noteq> [] \<and> (case rest of c # d # _ \<Rightarrow> c = ''.'' \<and> is_digit lib d | _ \<Rightarrow> False)
      then Some (run, takeWhile (is_digit lib) (tl rest)) else None)"
proof -
  let ?run = "takeWhile (is_digit lib) s"
  let ?P = "\<lambda>n. case drop n s of c # d # _ \<Rightarrow> c = ''.'' \<and> is_digit lib d | _ \<Rightarrow> False"
  have no: "\<not> ?P n" if "n < length ?run" for n
    using drop_in_run[OF that] dot_not_digit by (auto split: list.splits)
  have f: "List.find ?P (rev [1 ..< Suc (length ?run)]) = (if 1 \<le> length ?run \<and> ?P (length ?run) then Some (length ?run) else None)"
    by (rule find_last_only) (use no in auto)
  have d: "drop (length ?run) s = dropWhile (is_digit lib) s"
    by (metis append_eq_conv_conj takeWhile_dropWhile_id)
  have t: "take (length ?run) s = ?run"
    by (metis append_eq_conv_conj takeWhile_dropWhile_id)
  have d2: "drop (Suc (length ?run)) s = tl (dropWhile (is_digit lib) s)"
    by (metis d drop_Suc tl_drop)
  show ?thesis
    unfolding version_match_at_def Let_def f
    by (auto simp: d t d2 Suc_le_eq)
qed


lemma takeWhile_digits_dot:
  "list_all (is_digit lib) m \<Longrightarrow> takeWhile (is_digit lib) (m @ ''.'' # r) = m"
  by (induction m) (auto simp: dot_not_digit)

lemma dropWhile_digits_dot:
  "list_all (is_digit lib) m \<Longrightarrow> dropWhile (is_digit lib) (m @ ''.'' # r) = ''.'' # r"
  by (induction m) (auto simp: dot_not_digit)

lemma version_match_at_Some:
  assumes "version_match_at lib s = Some (major, minor)"
  shows "\<exists>post. version_pattern_at lib s [] major minor post \<and>
           (case post of [] \<Rightarrow> True | c # _ \<Rightarrow> \<not> is_digit lib c)"
proof -
  let ?run = "takeWhile (is_digit lib) s" and ?rest = "dropWhile (is_digit lib) s"
  from assms obtain d r where
    run: "?run \<noteq> []" and rest: "?rest = ''.'' # d # r" and d: "is_digit lib d"
    and maj: "major = ?run" and mn: "minor = takeWhile (is_digit lib) (d # r)"
    unfolding version_match_at_run Let_def
    by (auto split: if_splits list.splits)
  let ?post = "dropWhile (is_digit lib) (d # r)"
  have "s = ?run @ ?rest" by simp
  then have "s = major @ [''.''] @ minor @ ?post"
    unfolding rest maj mn by simp
  moreover have "digits lib major"
    using run maj by (auto simp: digits_def list_all_iff dest: set_takeWhileD)
  moreover have "digits lib minor"
    using d mn by (auto simp: digits_def list_all_iff dest: set_takeWhileD)
  moreover have "case ?post of [] \<Rightarrow> True | c # _ \<Rightarrow> \<not> is_digit lib c"
    by (metis (mono_tags, lifting) hd_dropWhile list.case_eq_if)
  ultimately show ?thesis
    unfolding version_pattern_at_def by (intro exI[of _ ?post]) simp
qed

lemma version_match_at_complete:
  assumes "version_pattern_at lib s [] major minor post"
  shows "version_match_at lib s \<noteq> None"
proof -
  from assms have s: "s = major @ ''.'' # minor @ post"
    and maj: "major \<noteq> []" "list_all (is_digit lib) major"
    and mn: "minor \<noteq> []" "list_all (is_digit lib) minor"
    by (auto simp: version_pattern_at_def digits_def)
  obtain d m' where m: "minor = d # m'" "is_digit lib d"
    using mn by (cases minor) auto
  have "takeWhile (is_digit lib) s = major"
    unfolding s using maj by (rule_tac takeWhile_digits_dot)
  moreover have "dropWhile (is_digit lib) s = ''.'' # d # m' @ post"
    unfolding s using maj m by (simp add: dropWhile_digits_dot)
  ultimately show ?thesis
    unfolding version_match_at_run Let_def using maj m by simp
qed

lemma version_search_Some:
  "version_search lib s = Some g \<Longrightarrow>
     \<exists>pre. pre @ drop (length pre) s = s \<and> version_match_at lib (drop (length pre) s) = Some g \<and>
       (\<forall>k < length pre. version_match_at lib (drop k s) = None)"
proof (induction s)
  case Nil
  then show ?case by (intro exI[of _ "[]"]) simp
next
  case (Cons c cs)
  show ?case
  proof (cases "version_match_at lib (c # cs)")
    case (Some g')
    with Cons.prems have "g' = g" by simp
    with Some show ?thesis by (intro exI[of _ "[]"]) simp
  next
    case None
    with Cons.prems have "version_search lib cs = Some g" by simp
    from Cons.IH[OF this] obtain pre where
      p: "pre @ drop (length pre) cs = cs" "version_match_at lib (drop (length pre) cs) = Some g"
         "\<forall>k < length pre. version_match_at lib (drop k cs) = None" by blast
    have "\<forall>k < length (c # pre). version_match_at lib (drop k (c # cs)) = None"
      using None p(3) by (auto simp: less_Suc_eq_0_disj)
    with p(1,2) show ?thesis by (intro exI[of _ "c # pre"]) simp
  qed
qed

lemma version_search_None:
  "version_search lib s = None \<Longrightarrow> version_match_at lib (drop k s) = None"
proof (induction s arbitrary: k)
  case Nil
  then show ?case by simp
next
  case (Cons c cs)
  then have a: "version_match_at lib (c # cs) = None" and b: "version_search lib cs = None"
    by (auto split: option.splits)
  show ?case using a Cons.IH[OF b] by (cases k) auto
qed

lemma pattern_at_drop:
  "version_pattern_at lib s pre major minor post \<Longrightarrow>
     version_pattern_at lib (drop (length pre) s) [] major minor post"
  by (simp add: version_pattern_at_def)


lemma version_search_first:
  assumes "version_search lib s = Some (major, minor)"
  shows "first_version_pattern lib s major minor"
proof -
  from version_search_Some[OF assms] obtain pre where
    p: "pre @ drop (length pre) s = s"
       "version_match_at lib (drop (length pre) s) = Some (major, minor)"
       "\<forall>k < length pre. version_match_at lib (drop k s) = None" by (elim exE conjE)
  from version_match_at_Some[OF p(2)] obtain post where
    q: "version_pattern_at lib (drop (length pre) s) [] major minor post"
       "case post of [] \<Rightarrow> True | c # _ \<Rightarrow> \<not> is_digit lib c" by (elim exE conjE)
  have "s = pre @ drop (length pre) s" using p(1) by simp
  also have "drop (length pre) s = major @ [''.''] @ minor @ post"
    using q(1) by (simp add: version_pattern_at_def)
  finally have at: "version_pattern_at lib s pre major minor post"
    using q(1) by (simp add: version_pattern_at_def)
  have least: "length pre \<le> length pre'"
    if "version_pattern_at lib s pre' major' minor' post'" for pre' major' minor' post'
  proof (rule ccontr)
    assume "\<not> length pre \<le> length pre'"
    then have "version_match_at lib (drop (length pre') s) = None" using p(3) by simp
    with version_match_at_complete[OF pattern_at_drop[OF that]] show False by simp
  qed
  show ?thesis
    unfolding first_version_pattern_def
  proof (intro exI conjI allI impI)
    show "version_pattern_at lib s pre major minor post" by (rule at)
    show "case post of [] \<Rightarrow> True | c # _ \<Rightarrow> \<not> is_digit lib c" by (rule q(2))
    show "length pre \<le> length pre'"
      if "version_pattern_at lib s pre' major' minor' post'" for pre' major' minor' post'
      using that by (rule least)
  qed
qed

lemma version_search_exists:
  assumes "version_pattern_at lib s pre major minor post"
  shows "version_search lib s \<noteq> None"
proof
  assume "version_search lib s = None"
  then have "version_match_at lib (drop (length pre) s) = None" by (rule version_search_None)
  with version_match_at_complete[OF pattern_at_drop[OF assms]] show False by simp
qed

lemma takeWhile_digits_stop:
  "list_all (is_digit lib) m \<Longrightarrow> (case q of [] \<Rightarrow> True | c # _ \<Rightarrow> \<not> is_digit lib c) \<Longrightarrow>
     takeWhile (is_digit lib) (m @ q) = m"
  by (induction m) (auto split: list.splits)

lemma first_version_pattern_unique:
  assumes "first_version_pattern lib s major minor" "first_version_pattern lib s major' minor'"
  shows "major' = major \<and> minor' = minor"
proof -
  from assms(1) obtain pre post where
    a: "version_pattern_at lib s pre major minor post"
       "case post of [] \<Rightarrow> True | c # _ \<Rightarrow> \<not> is_digit lib c"
       "\<forall>p a b q. version_pattern_at lib s p a b q \<longrightarrow> length pre \<le> length p"
    unfolding first_version_pattern_def by (elim exE conjE)
  from assms(2) obtain pre' post' where
    b: "version_pattern_at lib s pre' major' minor' post'"
       "case post' of [] \<Rightarrow> True | c # _ \<Rightarrow> \<not> is_digit lib c"
       "\<forall>p a b q. version_pattern_at lib s p a b q \<longrightarrow> length pre' \<le> length p"
    unfolding first_version_pattern_def by (elim exE conjE)
  have "length pre \<le> length pre'" using a(3) b(1) by (elim allE impE)
  moreover have "length pre' \<le> length pre" using b(3) a(1) by (elim allE impE)
  ultimately have len: "length pre = length pre'" by simp
  have s1: "s = pre @ (major @ ''.'' # minor @ post)"
    and s2: "s = pre' @ (major' @ ''.'' # minor' @ post')"
    using a(1) b(1) by (simp_all add: version_pattern_at_def)
  have d: "list_all (is_digit lib) major" "list_all (is_digit lib) major'"
    "list_all (is_digit lib) minor" "list_all (is_digit lib) minor'"
    using a(1) b(1) by (simp_all add: version_pattern_at_def digits_def)
  have "pre @ (major @ ''.'' # minor @ post) = pre' @ (major' @ ''.'' # minor' @ post')"
    using s1 s2 by simp
  with len have e: "major @ ''.'' # minor @ post = major' @ ''.'' # minor' @ post'"
    by simp
  have "takeWhile (is_digit lib) (major @ ''.'' # minor @ post) = major"
    "takeWhile (is_digit lib) (major' @ ''.'' # minor' @ post') = major'"
    using d by (simp_all add: takeWhile_digits_dot)
  with e have m: "major' = major" by simp
  with e have e2: "minor @ post = minor' @ post'" by simp
  from takeWhile_digits_stop[OF d(3) a(2)] takeWhile_digits_stop[OF d(4) b(2)] e2
  have "minor' = minor" by simp
  with m show ?thesis by simp
qed

lemma version_search_iff:
  "version_search lib s = Some (major, minor) \<longleftrightarrow> first_version_pattern lib s major minor"
proof
  assume "version_search lib s = Some (major, minor)"
  then show "first_version_pattern lib s major minor" by (rule version_search_first)
next
  assume f: "first_version_pattern lib s major minor"
  then obtain pre post where "version_pattern_at lib s pre major minor post"
    unfolding first_version_pattern_def by (elim exE conjE)
  from version_search_exists[OF this] obtain a b where g: "version_search lib s = Some (a, b)"
    by (cases "version_search lib s") auto
  from first_version_pattern_unique[OF f version_search_first[OF g]] g
  show "version_search lib s = Some (major, minor)" by simp
qed

text \<open>The characters of a string are its bytes, cut before every byte that starts one.\<close>

lemma concat_chars_of: "concat (chars_of s) = s"
  by (induction s rule: chars_of.induct) simp_all

lemma chars_of_ascii:
  "\<forall>b \<in> set s. \<not> is_continuation b \<Longrightarrow> chars_of s = map (\<lambda>b. [b]) s"
proof (induction s rule: chars_of.induct)
  case 1
  then show ?case by simp
next
  case (2 b bs)
  then have "takeWhile is_continuation bs = []" "dropWhile is_continuation bs = bs"
    by (cases bs; simp)+
  with 2 show ?case by simp
qed

text \<open>
  Every character is a first byte with continuation bytes only after it, and every
  character but the first starts with a byte that is no continuation byte.
\<close>

lemma chars_of_shape:
  "c \<in> set (chars_of s) \<Longrightarrow> c \<noteq> [] \<and> (\<forall>x \<in> set (tl c). is_continuation x)"
  by (induction s rule: chars_of.induct) (auto dest: set_takeWhileD)

lemma chars_of_head: "s \<noteq> [] \<Longrightarrow> hd (hd (chars_of s)) = hd s"
  by (cases s) simp_all

lemma chars_of_starts:
  "0 < i \<Longrightarrow> i < length (chars_of s) \<Longrightarrow> \<not> is_continuation (hd (chars_of s ! i))"
proof (induction s arbitrary: i rule: chars_of.induct)
  case 1
  then show ?case by simp
next
  case (2 b bs)
  let ?rest = "dropWhile is_continuation bs"
  from "2.prems" obtain j where i: "i = Suc j" by (cases i) auto
  with "2.prems" have j: "j < length (chars_of ?rest)" by simp
  show ?case
  proof (cases j)
    case 0
    from j have "?rest \<noteq> []" by (cases ?rest) auto
    then have "\<not> is_continuation (hd ?rest)" by (rule hd_dropWhile)
    moreover from \<open>?rest \<noteq> []\<close> have "hd (hd (chars_of ?rest)) = hd ?rest"
      by (rule chars_of_head)
    moreover from j 0 have "chars_of ?rest ! 0 = hd (chars_of ?rest)"
      by (simp add: hd_conv_nth)
    ultimately show ?thesis using i 0 by simp
  next
    case (Suc k)
    with j "2.IH" [of j] i show ?thesis by simp
  qed
qed

text \<open>\<^verbatim>\<open>int\<close> gives the number the digits write.\<close>

lemma denotes_snoc: "denotes (ds @ [d]) = 10 * denotes ds + d"
proof -
  have "(\<Sum>i < length ds. (ds @ [d]) ! i * 10 ^ (length ds - i))
          = (\<Sum>i < length ds. 10 * (ds ! i * 10 ^ (length ds - Suc i)))"
  proof (rule sum.cong)
    fix i assume "i \<in> {..< length ds}"
    then have i: "i < length ds" by simp
    then have "length ds - i = Suc (length ds - Suc i)" by simp
    with i show "(ds @ [d]) ! i * 10 ^ (length ds - i)
                   = 10 * (ds ! i * 10 ^ (length ds - Suc i))"
      by (simp add: nth_append)
  qed simp
  then show ?thesis
    by (simp add: denotes_def sum_distrib_left)
qed

lemma int_of_digits_number: "int_of_digits lib cs = int (number_of lib cs)"
proof (induction cs rule: rev_induct)
  case Nil
  then show ?case by (simp add: int_of_digits_def number_of_def denotes_def)
next
  case (snoc c cs)
  then show ?case
    by (simp add: int_of_digits_def number_of_def denotes_snoc digit_value_def
             split: option.splits)
qed

text \<open>
  C8. The validator rejects every empty object type, whatever the expected form; with
  the type form expected it rejects every object type that contains a slash; without
  it, it accepts every non-empty object type.
\<close>

theorem validate_obj_type_or_die_cases:
  "validate_obj_type_or_die [] expected = Inl (ValueError ''NIOS object type cannot be empty.'')
   \<and> (CHR ''/'' \<in> set obj_type \<longrightarrow>
        validate_obj_type_or_die obj_type True
          = Inl (ValueError ''NIOS object type cannot contain slash.''))
   \<and> (obj_type \<noteq> [] \<longrightarrow> validate_obj_type_or_die obj_type False = Inr ())
   \<and> validate_obj_type_or_die ''net/work'' True
        = Inl (ValueError ''NIOS object type cannot contain slash.'')
   \<and> validate_obj_type_or_die ''net/work'' False = Inr ()"
  by (auto simp: validate_obj_type_or_die_def)

theorem validate_obj_type_or_die_cases_witness:
  "CHR ''/'' \<in> set ''record:host/ZG5z''
   \<and> validate_obj_type_or_die ''record:host/ZG5z'' True
        = Inl (ValueError ''NIOS object type cannot contain slash.'')
   \<and> ''record:host/ZG5z'' \<noteq> []
   \<and> validate_obj_type_or_die ''record:host/ZG5z'' False = Inr ()"
  using validate_obj_type_or_die_cases [of True "''record:host/ZG5z''"]
  by simp

lemma is_cloud_wapi_string:
  "s \<noteq> [] \<Longrightarrow>
     is_cloud_wapi lib (PStr s)
       = Inr (\<exists>major minor. version_search lib (chars_of s) = Some (major, minor)
                \<and> 2 \<le> number_of lib major)"
  by (auto simp: is_cloud_wapi_def is_string_def CLOUD_WAPI_MAJOR_VERSION_def
             int_of_digits_number
           split: option.splits)

text \<open>ASCII strings are read the same way by every interpreter.\<close>

lemma ascii_decimal [simp]:
  "decimal_value lib ''0'' = Some 0" "decimal_value lib ''1'' = Some 1"
  "decimal_value lib ''2'' = Some 2" "decimal_value lib ''3'' = Some 3"
  "decimal_value lib ''4'' = Some 4" "decimal_value lib ''5'' = Some 5"
  "decimal_value lib ''6'' = Some 6" "decimal_value lib ''7'' = Some 7"
  "decimal_value lib ''8'' = Some 8" "decimal_value lib ''9'' = Some 9"
  "decimal_value lib ''.'' = None"
  by (simp_all add: decimal_value_def)

lemma chars_of_samples:
  "chars_of ''2.5'' = [''2'', ''.'', ''5'']"
  "chars_of ''1.4'' = [''1'', ''.'', ''4'']"
  by (simp_all add: is_continuation_def)

lemma version_search_samples:
  "version_search lib [''2'', ''.'', ''5''] = Some ([''2''], [''5''])"
  "version_search lib [''1'', ''.'', ''4''] = Some ([''1''], [''4''])"
  by (simp_all add: version_match_at_run is_digit_def)

lemma is_cloud_wapi_samples:
  "is_cloud_wapi lib (PStr ''2.5'') = Inr True"
  "is_cloud_wapi lib (PStr ''1.4'') = Inr False"
proof -
  have "is_cloud_wapi lib (PStr ''2.5'')
          = Inr (\<exists>major minor. version_search lib (chars_of ''2.5'') = Some (major, minor)
                   \<and> 2 \<le> number_of lib major)"
    by (rule is_cloud_wapi_string) simp
  also have "(\<exists>major minor. version_search lib (chars_of ''2.5'') = Some (major, minor)
                   \<and> 2 \<le> number_of lib major) = True"
    unfolding chars_of_samples version_search_samples
    by (simp add: number_of_def denotes_def)
  finally show "is_cloud_wapi lib (PStr ''2.5'') = Inr True" .
  have "is_cloud_wapi lib (PStr ''1.4'')
          = Inr (\<exists>major minor. version_search lib (chars_of ''1.4'') = Some (major, minor)
                   \<and> 2 \<le> number_of lib major)"
    by (rule is_cloud_wapi_string) simp
  also have "(\<exists>major minor. version_search lib (chars_of ''1.4'') = Some (major, minor)
                   \<and> 2 \<le> number_of lib major) = False"
    unfolding chars_of_samples version_search_samples
    by (simp add: number_of_def denotes_def)
  finally show "is_cloud_wapi lib (PStr ''1.4'') = Inr False" .
qed

text \<open>
  C5. The version gate raises on the empty string and on anything that is not a
  string. On a non-empty string it answers whether the string has a first major.minor
  pattern whose major part writes a number that is at least 2.
\<close>

theorem is_cloud_wapi_gate:
  "is_cloud_wapi lib (PStr []) = Inl (ValueError ''Invalid argument was passed'')
   \<and> (\<not> is_string v \<longrightarrow> is_cloud_wapi lib v = Inl (ValueError ''Invalid argument was passed''))
   \<and> (s \<noteq> [] \<longrightarrow>
        is_cloud_wapi lib (PStr s)
          = Inr (\<exists>major minor. first_version_pattern lib (chars_of s) major minor
                   \<and> 2 \<le> number_of lib major))
   \<and> is_cloud_wapi lib (PStr ''2.5'') = Inr True
   \<and> is_cloud_wapi lib (PStr ''1.4'') = Inr False
   \<and> is_cloud_wapi lib (PInt 123) = Inl (ValueError ''Invalid argument was passed'')"
proof (intro conjI impI)
  show "is_cloud_wapi lib (PStr []) = Inl (ValueError ''Invalid argument was passed'')"
    by (simp add: is_cloud_wapi_def)
  show "is_cloud_wapi lib v = Inl (ValueError ''Invalid argument was passed'')"
    if "\<not> is_string v"
    using that by (simp add: is_cloud_wapi_def)
  show "is_cloud_wapi lib (PStr s)
          = Inr (\<exists>major minor. first_version_pattern lib (chars_of s) major minor
                   \<and> 2 \<le> number_of lib major)"
    if "s \<noteq> []"
    using that by (simp add: is_cloud_wapi_string version_search_iff)
  show "is_cloud_wapi lib (PStr ''2.5'') = Inr True"
    by (rule is_cloud_wapi_samples)
  show "is_cloud_wapi lib (PStr ''1.4'') = Inr False"
    by (rule is_cloud_wapi_samples)
  show "is_cloud_wapi lib (PInt 123) = Inl (ValueError ''Invalid argument was passed'')"
    by (simp add: is_cloud_wapi_def is_string_def)
qed

text \<open>
  Sample runs: a major part of two digits, a major part with a leading zero, and the
  Arabic-Indic digits three, dot, zero, which the sample digit table knows and a table
  without digits beyond ASCII does not.
\<close>

lemma version_search_runs:
  "version_search sample_lib (chars_of ''v12.0-beta'') = Some ([''1'', ''2''], [''0''])"
  "version_search sample_lib (chars_of ''01.9'') = Some ([''0'', ''1''], [''9''])"
  "version_search sample_lib (chars_of [CHR 0xD9, CHR 0xA3, CHR ''.'', CHR 0xD9, CHR 0xA0])
     = Some ([[CHR 0xD9, CHR 0xA3]], [[CHR 0xD9, CHR 0xA0]])"
  by code_simp+

lemma number_of_runs:
  "number_of sample_lib [''1'', ''2''] = 12"
  "number_of sample_lib [''0'', ''1''] = 1"
  "number_of sample_lib [[CHR 0xD9, CHR 0xA3]] = 3"
  by (simp_all add: number_of_def denotes_def decimal_value_def sample_lib_def
        sample_decimal_def)

lemma is_cloud_wapi_ascii_table:
  "is_cloud_wapi (sample_lib \<lparr> nonascii_decimal := (\<lambda>c. None) \<rparr>)
     (PStr [CHR 0xD9, CHR 0xA3, CHR ''.'', CHR 0xD9, CHR 0xA0]) = Inr False"
  by code_simp

theorem is_cloud_wapi_gate_witness:
  "\<not> is_string (PList [])
   \<and> is_cloud_wapi sample_lib (PList []) = Inl (ValueError ''Invalid argument was passed'')
   \<and> ''v12.0-beta'' \<noteq> []
   \<and> first_version_pattern sample_lib (chars_of ''v12.0-beta'') [''1'', ''2''] [''0'']
   \<and> is_cloud_wapi sample_lib (PStr ''v12.0-beta'') = Inr True
   \<and> first_version_pattern sample_lib (chars_of ''01.9'') [''0'', ''1''] [''9'']
   \<and> is_cloud_wapi sample_lib (PStr ''01.9'') = Inr False
   \<and> first_version_pattern sample_lib
        (chars_of [CHR 0xD9, CHR 0xA3, CHR ''.'', CHR 0xD9, CHR 0xA0])
        [[CHR 0xD9, CHR 0xA3]] [[CHR 0xD9, CHR 0xA0]]
   \<and> is_cloud_wapi sample_lib (PStr [CHR 0xD9, CHR 0xA3, CHR ''.'', CHR 0xD9, CHR 0xA0])
        = Inr True"
proof -
  let ?ar = "[CHR 0xD9, CHR 0xA3, CHR ''.'', CHR 0xD9, CHR 0xA0]"
  note p = version_search_runs [unfolded version_search_iff]
  have a: "is_cloud_wapi sample_lib (PList []) = Inl (ValueError ''Invalid argument was passed'')"
    by (rule is_cloud_wapi_gate [where lib = sample_lib and v = "PList []",
                THEN conjunct2, THEN conjunct1, THEN mp])
       (simp add: is_string_def)
  have b: "is_cloud_wapi sample_lib (PStr ''v12.0-beta'') = Inr True"
  proof -
    have "\<exists>major minor. first_version_pattern sample_lib (chars_of ''v12.0-beta'') major minor
            \<and> 2 \<le> number_of sample_lib major"
      using p(1) number_of_runs(1) by (intro exI [of _ "[''1'', ''2'']"] exI [of _ "[''0'']"]) simp
    then show ?thesis
      using is_cloud_wapi_gate [where lib = sample_lib and s = "''v12.0-beta''",
              THEN conjunct2, THEN conjunct2, THEN conjunct1]
      by simp
  qed
  have c: "is_cloud_wapi sample_lib (PStr ''01.9'') = Inr False"
  proof -
    have "\<not> (\<exists>major minor. first_version_pattern sample_lib (chars_of ''01.9'') major minor
            \<and> 2 \<le> number_of sample_lib major)"
    proof
      assume "\<exists>major minor. first_version_pattern sample_lib (chars_of ''01.9'') major minor
                \<and> 2 \<le> number_of sample_lib major"
      then obtain major minor where
        f: "first_version_pattern sample_lib (chars_of ''01.9'') major minor"
        and n: "2 \<le> number_of sample_lib major" by blast
      from first_version_pattern_unique [OF p(2) f] have "major = [''0'', ''1'']" by simp
      with n number_of_runs(2) show False by simp
    qed
    then show ?thesis
      using is_cloud_wapi_gate [where lib = sample_lib and s = "''01.9''",
              THEN conjunct2, THEN conjunct2, THEN conjunct1]
      by simp
  qed
  have d: "is_cloud_wapi sample_lib (PStr ?ar) = Inr True"
  proof -
    have "\<exists>major minor. first_version_pattern sample_lib (chars_of ?ar) major minor
            \<and> 2 \<le> number_of sample_lib major"
      using p(3) number_of_runs(3)
      by (intro exI [of _ "[[CHR 0xD9, CHR 0xA3]]"] exI [of _ "[[CHR 0xD9, CHR 0xA0]]"]) simp
    then show ?thesis
      using is_cloud_wapi_gate [where lib = sample_lib and s = ?ar,
              THEN conjunct2, THEN conjunct2, THEN conjunct1]
      by simp
  qed
  from a b c d p show ?thesis by (simp add: is_string_def)
qed

text \<open>
  C10. On a non-empty string with no digits.digits pattern anywhere, the version gate
  returns false and raises nothing.
\<close>

theorem is_cloud_wapi_no_pattern:
  assumes "s \<noteq> []"
    and "\<not> (\<exists>pre major minor post. version_pattern_at lib (chars_of s) pre major minor post)"
  shows "is_cloud_wapi lib (PStr s) = Inr False"
proof -
  have "version_search lib (chars_of s) = None"
  proof (cases "version_search lib (chars_of s)")
    case (Some g)
    obtain major minor where "g = (major, minor)" by (cases g)
    with Some have "first_version_pattern lib (chars_of s) major minor"
      by (simp add: version_search_first)
    with assms(2) show ?thesis
      unfolding first_version_pattern_def by blast
  qed simp
  with assms(1) show ?thesis
    by (simp add: is_cloud_wapi_string)
qed

theorem is_cloud_wapi_no_pattern_witness:
  "''abc'' \<noteq> []
   \<and> \<not> (\<exists>pre major minor post.
           version_pattern_at sample_lib (chars_of ''abc'') pre major minor post)
   \<and> is_cloud_wapi sample_lib (PStr ''abc'') = Inr False"
proof -
  have n: "\<not> (\<exists>pre major minor post.
                 version_pattern_at sample_lib (chars_of ''abc'') pre major minor post)"
  proof
    assume "\<exists>pre major minor post.
              version_pattern_at sample_lib (chars_of ''abc'') pre major minor post"
    then obtain pre major minor post where
      "version_pattern_at sample_lib (chars_of ''abc'') pre major minor post"
      by blast
    then have "version_search sample_lib (chars_of ''abc'') \<noteq> None"
      by (rule version_search_exists)
    moreover have "version_search sample_lib (chars_of ''abc'') = None" by code_simp
    ultimately show False by simp
  qed
  have e: "''abc'' \<noteq> []" by simp
  from is_cloud_wapi_no_pattern [OF e n] n show ?thesis by simp
qed

section \<open>Properties of configuration resolution\<close>

lemma resolve_option_resolved:
  "resolve_option opts attr =
     (case resolved opts attr of
        Some v \<Rightarrow> Inr v
      | None \<Rightarrow> Inl (InfobloxConfigException
                       (''WAPI config error. Option '' @ attr @ '' is not defined'')))"
  by (simp add: resolve_option_def resolved_def provided_def split: option.splits)

lemma resolved_default:
  "map_of DEFAULT_OPTIONS attr = Some d \<Longrightarrow> \<exists>v. resolved opts attr = Some v"
  by (simp add: resolved_def split: option.splits)

lemma default_keys:
  "map_of DEFAULT_OPTIONS ''wapi_version'' = Some (PStr ''1.4'')"
  "map_of DEFAULT_OPTIONS ''ssl_verify'' = Some (PBool False)"
  "map_of DEFAULT_OPTIONS ''http_request_timeout'' = Some (PInt 10)"
  "map_of DEFAULT_OPTIONS ''http_pool_connections'' = Some (PInt 10)"
  "map_of DEFAULT_OPTIONS ''http_pool_maxsize'' = Some (PInt 10)"
  "map_of DEFAULT_OPTIONS ''silent_ssl_warnings'' = Some (PBool False)"
  "map_of DEFAULT_OPTIONS ''log_api_calls_as_info'' = Some (PBool False)"
  "map_of DEFAULT_OPTIONS ''host'' = None"
  "map_of DEFAULT_OPTIONS ''username'' = None"
  "map_of DEFAULT_OPTIONS ''password'' = None"
  by (simp_all add: DEFAULT_OPTIONS_def)

text \<open>The options with a default always resolve.\<close>

lemma resolved_with_default:
  obtains v1 v2 v3 v4 v5 v6 v7 where
    "resolved opts ''wapi_version'' = Some v1"
    "resolved opts ''ssl_verify'' = Some v2"
    "resolved opts ''http_request_timeout'' = Some v3"
    "resolved opts ''http_pool_connections'' = Some v4"
    "resolved opts ''http_pool_maxsize'' = Some v5"
    "resolved opts ''silent_ssl_warnings'' = Some v6"
    "resolved opts ''log_api_calls_as_info'' = Some v7"
  using resolved_default[OF default_keys(1), of opts]
    resolved_default[OF default_keys(2), of opts]
    resolved_default[OF default_keys(3), of opts]
    resolved_default[OF default_keys(4), of opts]
    resolved_default[OF default_keys(5), of opts]
    resolved_default[OF default_keys(6), of opts]
    resolved_default[OF default_keys(7), of opts]
  by blast

text \<open>The whole of \<open>parse_options\<close> in terms of what the options resolve to.\<close>

lemma parse_options_resolved:
  "parse_options lib opts =
     (case resolved opts ''host'' of None \<Rightarrow> Inl (not_defined_error ''host'') | Some h \<Rightarrow>
      case resolved opts ''username'' of None \<Rightarrow> Inl (not_defined_error ''username'') | Some u \<Rightarrow>
      case resolved opts ''password'' of None \<Rightarrow> Inl (not_defined_error ''password'') | Some p \<Rightarrow>
      if \<not> truthy h then Inl (blank_error ''host'')
      else if \<not> truthy u then Inl (blank_error ''username'')
      else if \<not> truthy p then Inl (blank_error ''password'')
      else case resolved opts ''wapi_version'' of None \<Rightarrow> Inl (not_defined_error ''wapi_version'')
        | Some ver \<Rightarrow>
          (case is_cloud_wapi lib ver of
             Inl e \<Rightarrow> Inl e
           | Inr cloud \<Rightarrow>
               Inr \<lparr> host = h, wapi_version = ver, username = u, password = p,
                     ssl_verify = the (resolved opts ''ssl_verify''),
                     http_request_timeout = the (resolved opts ''http_request_timeout''),
                     http_pool_connections = the (resolved opts ''http_pool_connections''),
                     http_pool_maxsize = the (resolved opts ''http_pool_maxsize''),
                     silent_ssl_warnings = the (resolved opts ''silent_ssl_warnings''),
                     log_api_calls_as_info = the (resolved opts ''log_api_calls_as_info''),
                     wapi_url = ''https://'' @ format_s lib h @ ''/wapi/v''
                                  @ format_s lib ver @ ''/'',
                     cloud_api_enabled = cloud \<rparr>))"
proof -
  obtain v1 v2 v3 v4 v5 v6 v7 where d:
    "resolved opts ''wapi_version'' = Some v1"
    "resolved opts ''ssl_verify'' = Some v2"
    "resolved opts ''http_request_timeout'' = Some v3"
    "resolved opts ''http_pool_connections'' = Some v4"
    "resolved opts ''http_pool_maxsize'' = Some v5"
    "resolved opts ''silent_ssl_warnings'' = Some v6"
    "resolved opts ''log_api_calls_as_info'' = Some v7"
    by (rule resolved_with_default)
  show ?thesis
    unfolding parse_options_def resolve_option_resolved d
    by (simp add: and_then_def require_not_blank_def not_defined_error_def blank_error_def Let_def
             split: option.splits sum.splits)
qed


text \<open>
  C3. Construction resolves every recognised option to the value the source provides,
  else to its fixed default; a required option with neither raises the configuration
  error that names it; a falsy host, username or password raises the configuration
  error for a blank option; and the base URL is https://host/wapi/vversion/.
\<close>

theorem parse_options_resolution:
  "(parse_options lib opts = Inr c \<longrightarrow>
      resolved opts ''host'' = Some (host c)
      \<and> resolved opts ''wapi_version'' = Some (wapi_version c)
      \<and> resolved opts ''username'' = Some (username c)
      \<and> resolved opts ''password'' = Some (password c)
      \<and> resolved opts ''ssl_verify'' = Some (ssl_verify c)
      \<and> resolved opts ''http_request_timeout'' = Some (http_request_timeout c)
      \<and> resolved opts ''http_pool_connections'' = Some (http_pool_connections c)
      \<and> resolved opts ''http_pool_maxsize'' = Some (http_pool_maxsize c)
      \<and> resolved opts ''silent_ssl_warnings'' = Some (silent_ssl_warnings c)
      \<and> resolved opts ''log_api_calls_as_info'' = Some (log_api_calls_as_info c)
      \<and> truthy (host c) \<and> truthy (username c) \<and> truthy (password c)
      \<and> wapi_url c = ''https://'' @ format_s lib (host c) @ ''/wapi/v''
                        @ format_s lib (wapi_version c) @ ''/''
      \<and> is_cloud_wapi lib (wapi_version c) = Inr (cloud_api_enabled c))
   \<and> (resolved opts ''host'' = None \<or> resolved opts ''username'' = None
        \<or> resolved opts ''password'' = None \<longrightarrow>
        (\<exists>attr. attr \<in> {''host'', ''username'', ''password''} \<and> resolved opts attr = None
           \<and> parse_options lib opts = Inl (not_defined_error attr)))
   \<and> (resolved opts ''host'' = Some h \<and> resolved opts ''username'' = Some u
        \<and> resolved opts ''password'' = Some p
        \<and> (\<not> truthy h \<or> \<not> truthy u \<or> \<not> truthy p) \<longrightarrow>
        (\<exists>attr v. (attr, v) \<in> {(''host'', h), (''username'', u), (''password'', p)}
           \<and> \<not> truthy v \<and> parse_options lib opts = Inl (blank_error attr)))
   \<and> (resolved opts ''host'' = Some h \<and> resolved opts ''username'' = Some u
        \<and> resolved opts ''password'' = Some p \<and> truthy h \<and> truthy u \<and> truthy p
        \<and> resolved opts ''wapi_version'' = Some (PStr ver) \<and> ver \<noteq> [] \<longrightarrow>
        (\<exists>c'. parse_options lib opts = Inr c'))
   \<and> map_of DEFAULT_OPTIONS ''ssl_verify'' = Some (PBool False)
   \<and> map_of DEFAULT_OPTIONS ''silent_ssl_warnings'' = Some (PBool False)
   \<and> map_of DEFAULT_OPTIONS ''http_request_timeout'' = Some (PInt 10)
   \<and> map_of DEFAULT_OPTIONS ''http_pool_connections'' = Some (PInt 10)
   \<and> map_of DEFAULT_OPTIONS ''http_pool_maxsize'' = Some (PInt 10)
   \<and> map_of DEFAULT_OPTIONS ''wapi_version'' = Some (PStr ''1.4'')
   \<and> map_of DEFAULT_OPTIONS ''log_api_calls_as_info'' = Some (PBool False)
   \<and> map_of DEFAULT_OPTIONS ''host'' = None
   \<and> map_of DEFAULT_OPTIONS ''username'' = None
   \<and> map_of DEFAULT_OPTIONS ''password'' = None"
proof -
  obtain v1 v2 v3 v4 v5 v6 v7 where d:
    "resolved opts ''wapi_version'' = Some v1"
    "resolved opts ''ssl_verify'' = Some v2"
    "resolved opts ''http_request_timeout'' = Some v3"
    "resolved opts ''http_pool_connections'' = Some v4"
    "resolved opts ''http_pool_maxsize'' = Some v5"
    "resolved opts ''silent_ssl_warnings'' = Some v6"
    "resolved opts ''log_api_calls_as_info'' = Some v7"
    by (rule resolved_with_default)
  have success: "resolved opts ''host'' = Some (host c)
      \<and> resolved opts ''wapi_version'' = Some (wapi_version c)
      \<and> resolved opts ''username'' = Some (username c)
      \<and> resolved opts ''password'' = Some (password c)
      \<and> resolved opts ''ssl_verify'' = Some (ssl_verify c)
      \<and> resolved opts ''http_request_timeout'' = Some (http_request_timeout c)
      \<and> resolved opts ''http_pool_connections'' = Some (http_pool_connections c)
      \<and> resolved opts ''http_pool_maxsize'' = Some (http_pool_maxsize c)
      \<and> resolved opts ''silent_ssl_warnings'' = Some (silent_ssl_warnings c)
      \<and> resolved opts ''log_api_calls_as_info'' = Some (log_api_calls_as_info c)
      \<and> truthy (host c) \<and> truthy (username c) \<and> truthy (password c)
      \<and> wapi_url c = ''https://'' @ format_s lib (host c) @ ''/wapi/v''
                        @ format_s lib (wapi_version c) @ ''/''
      \<and> is_cloud_wapi lib (wapi_version c) = Inr (cloud_api_enabled c)"
    if "parse_options lib opts = Inr c"
    using that unfolding parse_options_resolved d
    by (auto split: option.splits if_splits sum.splits)
  have missing: "\<exists>attr. attr \<in> {''host'', ''username'', ''password''} \<and> resolved opts attr = None
           \<and> parse_options lib opts = Inl (not_defined_error attr)"
    if "resolved opts ''host'' = None \<or> resolved opts ''username'' = None
        \<or> resolved opts ''password'' = None"
  proof (cases "resolved opts ''host''")
    case None
    then have "parse_options lib opts = Inl (not_defined_error ''host'')"
      by (simp add: parse_options_resolved)
    with None show ?thesis by blast
  next
    case h: (Some h)
    show ?thesis
    proof (cases "resolved opts ''username''")
      case None
      with h have "parse_options lib opts = Inl (not_defined_error ''username'')"
        by (simp add: parse_options_resolved)
      with None show ?thesis by blast
    next
      case u: (Some u)
      with h that have n: "resolved opts ''password'' = None" by simp
      with h u have "parse_options lib opts = Inl (not_defined_error ''password'')"
        by (simp add: parse_options_resolved)
      with n show ?thesis by blast
    qed
  qed
  have blank: "\<exists>attr v. (attr, v) \<in> {(''host'', h), (''username'', u), (''password'', p)}
           \<and> \<not> truthy v \<and> parse_options lib opts = Inl (blank_error attr)"
    if r: "resolved opts ''host'' = Some h" "resolved opts ''username'' = Some u"
        "resolved opts ''password'' = Some p"
      and f: "\<not> truthy h \<or> \<not> truthy u \<or> \<not> truthy p"
  proof -
    consider "\<not> truthy h" | "truthy h" "\<not> truthy u" | "truthy h" "truthy u" "\<not> truthy p"
      using f by blast
    then show ?thesis
    proof cases
      case 1
      then have "parse_options lib opts = Inl (blank_error ''host'')"
        using r by (simp add: parse_options_resolved)
      with 1 show ?thesis by blast
    next
      case 2
      then have "parse_options lib opts = Inl (blank_error ''username'')"
        using r by (simp add: parse_options_resolved)
      with 2 show ?thesis by blast
    next
      case 3
      then have "parse_options lib opts = Inl (blank_error ''password'')"
        using r by (simp add: parse_options_resolved)
      with 3 show ?thesis by blast
    qed
  qed
  have total: "\<exists>c'. parse_options lib opts = Inr c'"
    if t: "resolved opts ''host'' = Some h" "resolved opts ''username'' = Some u"
       "resolved opts ''password'' = Some p" "truthy h" "truthy u" "truthy p"
       "resolved opts ''wapi_version'' = Some (PStr ver)" "ver \<noteq> []"
  proof -
    obtain b where "is_cloud_wapi lib (PStr ver) = Inr b"
      using t(8) by (simp add: is_cloud_wapi_string)
    then show ?thesis
      using t by (simp add: parse_options_resolved)
  qed
  from success missing blank total show ?thesis
    by (simp only: default_keys simp_thms) blast
qed


lemma resolved_sample_options:
  "resolved (sample_options ver) ''host'' = Some (PStr ''nios.example.com'')"
  "resolved (sample_options ver) ''username'' = Some (PStr ''a'')"
  "resolved (sample_options ver) ''password'' = Some (PStr ''b'')"
  "resolved (sample_options ver) ''wapi_version'' = Some (PStr ver)"
  "resolved (sample_options ver) ''http_request_timeout'' = Some (PInt 10)"
  by (simp_all add: resolved_def provided_def sample_options_def DEFAULT_OPTIONS_def)

lemma resolved_object_options:
  "resolved (object_options [(''host'', PStr ''h''), (''password'', PStr [])]) ''host''
     = Some (PStr ''h'')"
  "resolved (object_options [(''host'', PStr ''h''), (''password'', PStr [])]) ''username''
     = None"
  "resolved (object_options [(''host'', PStr ''h''), (''password'', PStr [])]) ''password''
     = Some (PStr [])"
  "resolved (object_options [(''host'', PStr ''h''), (''password'', PStr []),
                             (''username'', PStr ''a'')]) ''host'' = Some (PStr ''h'')"
  "resolved (object_options [(''host'', PStr ''h''), (''password'', PStr []),
                             (''username'', PStr ''a'')]) ''username'' = Some (PStr ''a'')"
  "resolved (object_options [(''host'', PStr ''h''), (''password'', PStr []),
                             (''username'', PStr ''a'')]) ''password'' = Some (PStr [])"
  by (simp_all add: resolved_def provided_def object_options_def DEFAULT_OPTIONS_def)

theorem parse_options_resolution_witness:
  "(\<exists>c. parse_options sample_lib (sample_options ''2.5'') = Inr c
        \<and> host c = PStr ''nios.example.com''
        \<and> http_request_timeout c = PInt 10
        \<and> wapi_url c = ''https://nios.example.com/wapi/v2.5/''
        \<and> cloud_api_enabled c)
   \<and> parse_options sample_lib (object_options [(''host'', PStr ''h''), (''password'', PStr [])])
        = Inl (not_defined_error ''username'')
   \<and> parse_options sample_lib
        (object_options [(''host'', PStr ''h''), (''password'', PStr []),
                         (''username'', PStr ''a'')])
        = Inl (blank_error ''password'')"
proof -
  let ?o1 = "sample_options ''2.5''"
  let ?o2 = "object_options [(''host'', PStr ''h''), (''password'', PStr [])]"
  let ?o3 = "object_options [(''host'', PStr ''h''), (''password'', PStr []),
                             (''username'', PStr ''a'')]"
  note t1 = parse_options_resolution
    [of sample_lib ?o1 _ "PStr ''nios.example.com''" "PStr ''a''" "PStr ''b''" "''2.5''"]
  note total = t1 [THEN conjunct2, THEN conjunct2, THEN conjunct2, THEN conjunct1, THEN mp]
  have "\<exists>c'. parse_options sample_lib ?o1 = Inr c'"
    by (rule total) (simp add: resolved_sample_options)
  then obtain c where c: "parse_options sample_lib ?o1 = Inr c" ..
  note success = parse_options_resolution
    [of sample_lib ?o1 c, THEN conjunct1, THEN mp, OF c]
  have h: "host c = PStr ''nios.example.com''" "wapi_version c = PStr ''2.5''"
    "http_request_timeout c = PInt 10"
    using success resolved_sample_options [of "''2.5''"] by simp_all
  have "wapi_url c = ''https://nios.example.com/wapi/v2.5/''" "cloud_api_enabled c"
    using success by (simp_all add: h format_s_def is_cloud_wapi_samples)
  with h c have a: "\<exists>c. parse_options sample_lib ?o1 = Inr c
        \<and> host c = PStr ''nios.example.com''
        \<and> http_request_timeout c = PInt 10
        \<and> wapi_url c = ''https://nios.example.com/wapi/v2.5/''
        \<and> cloud_api_enabled c" by blast
  note missing = parse_options_resolution
    [of sample_lib ?o2, THEN conjunct2, THEN conjunct1, THEN mp]
  have "\<exists>attr. attr \<in> {''host'', ''username'', ''password''} \<and> resolved ?o2 attr = None
           \<and> parse_options sample_lib ?o2 = Inl (not_defined_error attr)"
    by (rule missing) (simp add: resolved_object_options)
  then obtain attr where m: "attr \<in> {''host'', ''username'', ''password''}"
    "resolved ?o2 attr = None" "parse_options sample_lib ?o2 = Inl (not_defined_error attr)"
    by (elim exE conjE)
  from m(1,2) resolved_object_options(1,3) have "attr = ''username''" by auto
  with m(3) have b: "parse_options sample_lib ?o2 = Inl (not_defined_error ''username'')"
    by simp
  note blank = parse_options_resolution
    [of sample_lib ?o3 _ "PStr ''h''" "PStr ''a''" "PStr []",
     THEN conjunct2, THEN conjunct2, THEN conjunct1, THEN mp]
  have "\<exists>attr v.
          (attr, v) \<in> {(''host'', PStr ''h''), (''username'', PStr ''a''), (''password'', PStr [])}
          \<and> \<not> truthy v \<and> parse_options sample_lib ?o3 = Inl (blank_error attr)"
    by (rule blank) (simp add: resolved_object_options)
  then obtain attr' v where n:
    "(attr', v) \<in> {(''host'', PStr ''h''), (''username'', PStr ''a''), (''password'', PStr [])}"
    "\<not> truthy v" "parse_options sample_lib ?o3 = Inl (blank_error attr')"
    by (elim exE conjE)
  from n(1,2) have "attr' = ''password''" by auto
  with n(3) have "parse_options sample_lib ?o3 = Inl (blank_error ''password'')"
    by simp
  with a b show ?thesis by (intro conjI)
qed

text \<open>
  The blank test is Python's truth test: a host of spaces only is not blank to it, and
  construction goes through.
\<close>

lemma parse_options_spaces_host:
  "\<exists>c. parse_options sample_lib
          (object_options [(''host'', PStr ''  ''), (''username'', PStr ''a''),
                           (''password'', PStr ''b'')]) = Inr c
       \<and> wapi_url c = ''https://  /wapi/v1.4/''"
  by (simp add: parse_options_resolved resolved_def provided_def object_options_def
        DEFAULT_OPTIONS_def is_cloud_wapi_samples format_s_def)

text \<open>The sample connectors are what construction gives on the sample options.\<close>

lemma sample_connector_init:
  "connector_init sample_lib (sample_options ''2.5'') = Inr (sample_connector True)"
  "connector_init sample_lib (sample_options ''1.4'') = Inr (sample_connector False)"
  by (simp_all add: connector_init_def parse_options_resolved resolved_sample_options
        resolved_def provided_def sample_options_def DEFAULT_OPTIONS_def
        is_cloud_wapi_samples and_then_def format_s_def configure_session_def
        sample_connector_def sample_lib_def config.extend_def connector.fields_def)

section \<open>Properties of the URL builder\<close>

lemma extattr_queries_values:
  "extattr_values ea = Some eas \<Longrightarrow>
     extattr_queries ea acc = Inr (acc @ map (\<lambda>(k, v). ''*'' @ k @ ''='' @ v) eas)"
proof (induction ea arbitrary: acc eas)
  case Nil
  then show ?case by simp
next
  case (Cons a ea)
  obtain key descr where a: "a = (key, descr)" by (cases a)
  from Cons.prems a obtain d s rest where
    d: "descr = PDict d" "map_of d ''value'' = Some (PStr s)"
    and r: "extattr_values ea = Some rest" "eas = (key, s) # rest"
    by (auto split: pyval.splits option.splits)
  have "extattr_query key descr = Inr (''*'' @ key @ ''='' @ s)"
    using d by (simp add: extattr_query_def py_getitem_def and_then_def)
  then show ?case
    using Cons.IH[OF r(1)] a r(2) by (simp add: and_then_def)
qed

lemma extattr_values_empty:
  "extattr_values ea = Some eas \<Longrightarrow> (eas = []) = (ea = [])"
  by (cases ea) (auto split: pyval.splits option.splits)

text \<open>The joined attribute queries are the attribute segment.\<close>

lemma join_extattr_segment:
  "join ''&'' (map (\<lambda>(k, v). ''*'' @ k @ ''='' @ v) eas) = extattr_segment eas"
proof (induction eas)
  case Nil
  then show ?case by simp
next
  case (Cons a eas)
  obtain k v where a: "a = (k, v)" by (cases a)
  show ?case
  proof (cases eas)
    case Nil
    with a show ?thesis by simp
  next
    case (Cons b rest)
    with Cons.IH a show ?thesis by simp
  qed
qed

lemma extattr_segment_length:
  "eas \<noteq> [] \<Longrightarrow> 0 < length (extattr_segment eas)"
  by (cases eas) auto

lemma construct_url_valid:
  assumes "relative_path \<noteq> []" "hd relative_path \<noteq> CHR ''/''"
    and "extattr_values (case extattrs of None \<Rightarrow> [] | Some e \<Rightarrow> e) = Some eas"
  shows "construct_url c relative_path query_params extattrs force_proxy =
           Inr (urljoin c (wapi_url c) (quote c relative_path)
                @ query_string (urlencode c)
                    (if force_proxy
                     then AList.update ''_proxy_search'' (PStr ''GM'')
                            (case query_params of None \<Rightarrow> [] | Some q \<Rightarrow> q)
                     else (case query_params of None \<Rightarrow> [] | Some q \<Rightarrow> q))
                    eas)"
proof -
  let ?ea = "case extattrs of None \<Rightarrow> [] | Some e \<Rightarrow> e"
  have q: "extattr_queries ?ea [] = Inr (map (\<lambda>(k, v). ''*'' @ k @ ''='' @ v) eas)"
    using extattr_queries_values[OF assms(3), of "[]"] by simp
  have e: "(eas = []) = (?ea = [])"
    using assms(3) by (rule extattr_values_empty)
  show ?thesis
  proof (cases "eas = []")
    case True
    with e have "?ea = []" by simp
    with True show ?thesis
      using assms(1,2)
      by (simp add: construct_url_def Let_def and_then_def query_string_def)
  next
    case False
    with e have n: "?ea \<noteq> []" by simp
    from False have l: "0 < length (extattr_segment eas)"
      by (rule extattr_segment_length)
    note j = join_extattr_segment [of eas, simplified]
    show ?thesis
      using assms(1,2) n False l q
      by (simp add: construct_url_def Let_def and_then_def query_string_def j)
  qed
qed

text \<open>
  Outside the data model the loop raises: \<^verbatim>\<open>KeyError\<close> on a descriptor without
  \<^verbatim>\<open>value\<close>, \<^verbatim>\<open>TypeError\<close> on a descriptor that is no dict or a value that is no
  string.
\<close>

lemma extattr_queries_malformed:
  "extattr_values ea = None \<Longrightarrow>
     extattr_queries ea acc = Inl TypeError
     \<or> extattr_queries ea acc = Inl (KeyError ''value'')"
proof (induction ea arbitrary: acc)
  case Nil
  then show ?case by simp
next
  case (Cons a ea)
  obtain key descr where a: "a = (key, descr)" by (cases a)
  show ?case
  proof (cases "extattr_query key descr")
    case (Inl e)
    then have "e = TypeError \<or> e = KeyError ''value''"
      by (auto simp: extattr_query_def py_getitem_def and_then_def
               split: pyval.splits option.splits)
    with Inl a show ?thesis by (auto simp: and_then_def)
  next
    case (Inr q)
    then have "extattr_values ea = None"
      using Cons.prems a
      by (auto simp: extattr_query_def py_getitem_def and_then_def
               split: pyval.splits option.splits)
    from Cons.IH[OF this, of "acc @ [q]"] Inr a show ?thesis
      by (simp add: and_then_def)
  qed
qed

text \<open>
  C4 as stated fails: with a value that is not a string under \<^verbatim>\<open>value\<close>, a number or
  a list, the concatenation raises \<^verbatim>\<open>TypeError\<close> and the builder returns no URL.
\<close>

theorem construct_url_value_counterexample:
  "''network'' \<noteq> [] \<and> hd ''network'' \<noteq> CHR ''/''
   \<and> construct_url (sample_connector True) ''network'' None
        (Some [(''Subnet ID'', PDict [(''value'', PInt 1)])]) False = Inl TypeError
   \<and> construct_url (sample_connector True) ''network'' None
        (Some [(''Subnet ID'', PDict [(''value'', PInt 1)])]) False
        \<noteq> Inr ''https://nios.example.com/wapi/v2.5/network?*Subnet ID=1''
   \<and> construct_url (sample_connector True) ''network'' None
        (Some [(''Tenant'', PDict [(''value'', PList [PStr ''a'', PStr ''b''])])]) False
        = Inl TypeError"
  by (simp add: construct_url_def extattr_query_def py_getitem_def and_then_def Let_def)

text \<open>
  C4, as the code has it. The URL builder rejects an empty relative path and one that
  begins with a slash. Otherwise, for extensible attributes that each hold a string
  under \<^verbatim>\<open>value\<close>, the URL is the base URL joined with the quoted path, followed by the
  query string: a question mark, the attribute segment, an ampersand when both
  segments are there, and the encoded ordinary parameters, to which a forced proxy
  adds _proxy_search=GM before encoding.
\<close>

theorem construct_url_result:
  "(relative_path = [] \<or> hd relative_path = CHR ''/'' \<longrightarrow>
      construct_url c relative_path query_params extattrs force_proxy
        = Inl (ValueError ''Path in request must be relative.''))
   \<and> (relative_path \<noteq> [] \<and> hd relative_path \<noteq> CHR ''/''
        \<and> extattr_values (case extattrs of None \<Rightarrow> [] | Some e \<Rightarrow> e) = Some eas \<longrightarrow>
        construct_url c relative_path query_params extattrs force_proxy
          = Inr (urljoin c (wapi_url c) (quote c relative_path)
                 @ query_string (urlencode c)
                     (if force_proxy
                      then AList.update ''_proxy_search'' (PStr ''GM'')
                             (case query_params of None \<Rightarrow> [] | Some q \<Rightarrow> q)
                      else (case query_params of None \<Rightarrow> [] | Some q \<Rightarrow> q))
                     eas))
   \<and> map_of (AList.update ''_proxy_search'' (PStr ''GM'') params) ''_proxy_search''
        = Some (PStr ''GM'')
   \<and> (attrs \<noteq> [] \<and> params \<noteq> [] \<longrightarrow>
        query_string encode params attrs
          = ''?'' @ extattr_segment attrs @ ''&'' @ encode params)
   \<and> (attrs \<noteq> [] \<longrightarrow> query_string encode [] attrs = ''?'' @ extattr_segment attrs)
   \<and> (params \<noteq> [] \<longrightarrow> query_string encode params [] = ''?'' @ encode params)
   \<and> query_string encode [] [] = []"
proof (intro conjI impI)
  show "construct_url c relative_path query_params extattrs force_proxy
          = Inl (ValueError ''Path in request must be relative.'')"
    if "relative_path = [] \<or> hd relative_path = CHR ''/''"
    using that by (auto simp: construct_url_def Let_def)
  show "construct_url c relative_path query_params extattrs force_proxy
          = Inr (urljoin c (wapi_url c) (quote c relative_path)
                 @ query_string (urlencode c)
                     (if force_proxy
                      then AList.update ''_proxy_search'' (PStr ''GM'')
                             (case query_params of None \<Rightarrow> [] | Some q \<Rightarrow> q)
                      else (case query_params of None \<Rightarrow> [] | Some q \<Rightarrow> q))
                     eas)"
    if "relative_path \<noteq> [] \<and> hd relative_path \<noteq> CHR ''/''
        \<and> extattr_values (case extattrs of None \<Rightarrow> [] | Some e \<Rightarrow> e) = Some eas"
    using that by (intro construct_url_valid) simp_all
  show "map_of (AList.update ''_proxy_search'' (PStr ''GM'') params) ''_proxy_search''
          = Some (PStr ''GM'')"
    by (simp add: update_conv')
  show "query_string encode params attrs
          = ''?'' @ extattr_segment attrs @ ''&'' @ encode params"
    if "attrs \<noteq> [] \<and> params \<noteq> []"
    using that by (simp add: query_string_def)
  show "query_string encode [] attrs = ''?'' @ extattr_segment attrs" if "attrs \<noteq> []"
    using that by (simp add: query_string_def)
  show "query_string encode params [] = ''?'' @ encode params" if "params \<noteq> []"
    using that by (simp add: query_string_def)
  show "query_string encode [] [] = []"
    by (simp add: query_string_def)
qed

theorem construct_url_result_witness:
  "hd ''/network'' = CHR ''/''
   \<and> construct_url (sample_connector True) ''/network'' None None False
        = Inl (ValueError ''Path in request must be relative.'')
   \<and> ''network'' \<noteq> [] \<and> hd ''network'' \<noteq> CHR ''/''
   \<and> extattr_values [(''Subnet ID'', PDict [(''value'', PStr ''s1'')]),
                      (''Tenant'', PDict [(''value'', PStr ''t2'')]),
                      (''Zone'', PDict [(''value'', PStr ''z3'')])]
        = Some [(''Subnet ID'', ''s1''), (''Tenant'', ''t2''), (''Zone'', ''z3'')]
   \<and> construct_url (sample_connector True) ''network'' (Some [(''view'', PStr ''default'')])
        (Some [(''Subnet ID'', PDict [(''value'', PStr ''s1'')]),
               (''Tenant'', PDict [(''value'', PStr ''t2'')]),
               (''Zone'', PDict [(''value'', PStr ''z3'')])]) True
        = Inr ''https://nios.example.com/wapi/v2.5/network?*Subnet ID=s1&*Tenant=t2&*Zone=z3&view=default&_proxy_search=GM''
   \<and> construct_url (sample_connector True) ''network'' None
        (Some [(''Subnet ID'', PDict [(''value'', PStr ''s1'')]),
               (''Tenant'', PDict [(''value'', PStr ''t2'')])]) False
        = Inr ''https://nios.example.com/wapi/v2.5/network?*Subnet ID=s1&*Tenant=t2''
   \<and> construct_url (sample_connector True) ''network'' (Some [(''view'', PStr ''default'')])
        None False
        = Inr ''https://nios.example.com/wapi/v2.5/network?view=default''"
proof -
  let ?c = "sample_connector True"
  let ?ea3 = "[(''Subnet ID'', PDict [(''value'', PStr ''s1'')]),
               (''Tenant'', PDict [(''value'', PStr ''t2'')]),
               (''Zone'', PDict [(''value'', PStr ''z3'')])]"
  let ?ea2 = "[(''Subnet ID'', PDict [(''value'', PStr ''s1'')]),
               (''Tenant'', PDict [(''value'', PStr ''t2'')])]"
  have a: "hd ''/network'' = CHR ''/''" by simp
  have b: "construct_url ?c ''/network'' None None False
             = Inl (ValueError ''Path in request must be relative.'')"
    by (rule construct_url_result
          [where relative_path = "''/network''" and c = ?c, THEN conjunct1, THEN mp])
       simp
  have v3: "extattr_values ?ea3
              = Some [(''Subnet ID'', ''s1''), (''Tenant'', ''t2''), (''Zone'', ''z3'')]"
    by simp
  have v2: "extattr_values ?ea2 = Some [(''Subnet ID'', ''s1''), (''Tenant'', ''t2'')]"
    by simp
  have "construct_url ?c ''network'' (Some [(''view'', PStr ''default'')]) (Some ?ea3) True
        = Inr (urljoin ?c (wapi_url ?c) (quote ?c ''network'')
               @ query_string (urlencode ?c)
                   (AList.update ''_proxy_search'' (PStr ''GM'') [(''view'', PStr ''default'')])
                   [(''Subnet ID'', ''s1''), (''Tenant'', ''t2''), (''Zone'', ''z3'')])"
    using construct_url_result
      [where relative_path = "''network''" and c = ?c
         and query_params = "Some [(''view'', PStr ''default'')]"
         and extattrs = "Some ?ea3" and force_proxy = True
         and eas = "[(''Subnet ID'', ''s1''), (''Tenant'', ''t2''), (''Zone'', ''z3'')]",
       THEN conjunct2, THEN conjunct1, THEN mp]
    by simp
  then have c: "construct_url ?c ''network'' (Some [(''view'', PStr ''default'')]) (Some ?ea3)
                  True
        = Inr ''https://nios.example.com/wapi/v2.5/network?*Subnet ID=s1&*Tenant=t2&*Zone=z3&view=default&_proxy_search=GM''"
    by (simp add: sample_connector_def query_string_def sample_urlencode_def)
  have "construct_url ?c ''network'' None (Some ?ea2) False
        = Inr (urljoin ?c (wapi_url ?c) (quote ?c ''network'')
               @ query_string (urlencode ?c) [] [(''Subnet ID'', ''s1''), (''Tenant'', ''t2'')])"
    using construct_url_result
      [where relative_path = "''network''" and c = ?c and query_params = None
         and extattrs = "Some ?ea2" and force_proxy = False
         and eas = "[(''Subnet ID'', ''s1''), (''Tenant'', ''t2'')]",
       THEN conjunct2, THEN conjunct1, THEN mp]
    by simp
  then have d: "construct_url ?c ''network'' None (Some ?ea2) False
        = Inr ''https://nios.example.com/wapi/v2.5/network?*Subnet ID=s1&*Tenant=t2''"
    by (simp add: sample_connector_def query_string_def)
  have "construct_url ?c ''network'' (Some [(''view'', PStr ''default'')]) None False
        = Inr (urljoin ?c (wapi_url ?c) (quote ?c ''network'')
               @ query_string (urlencode ?c) [(''view'', PStr ''default'')] [])"
    using construct_url_result
      [where relative_path = "''network''" and c = ?c
         and query_params = "Some [(''view'', PStr ''default'')]"
         and extattrs = None and force_proxy = False and eas = "[]",
       THEN conjunct2, THEN conjunct1, THEN mp]
    by simp
  then have e: "construct_url ?c ''network'' (Some [(''view'', PStr ''default'')]) None False
        = Inr ''https://nios.example.com/wapi/v2.5/network?view=default''"
    by (simp add: sample_connector_def query_string_def sample_urlencode_def)
  from a b v3 c d e show ?thesis by simp
qed

section \<open>Properties of the operations\<close>

subsection \<open>Requests, one at a time\<close>

lemma sent_session_request:
  "sent (snd (session_request tr m url opts w)) = sent w @ [(m, url, opts)]"
  by (simp add: session_request_def split: prod.splits)

lemma request_sent:
  "\<exists>res w'. with_response (session_request tr m url opts (log_request c url opts w)) f
               = (res, w')
     \<and> sent w' = sent w @ [(m, url, opts)]"
  by (auto simp: with_response_def session_request_def log_request_def
           split: prod.splits sum.splits outcome.splits)

lemma request_answered:
  assumes "answers tr m url opts w r"
  shows "\<exists>w'. with_response (session_request tr m url opts (log_request c url opts w)) f
               = (f r, w')
     \<and> sent w' = sent w @ [(m, url, opts)]"
  using assms
  by (auto simp: answers_def with_response_def session_request_def log_request_def
           split: prod.splits sum.splits outcome.splits)

lemma request_raised:
  assumes "with_response (session_request tr m url opts w) f = (Inl e, w')"
  shows "e \<in> {RequestsTimeout, RequestsException}
         \<or> (\<exists>r. answers tr m url opts w r \<and> f r = Inl e)"
  using assms
  by (auto simp: answers_def with_response_def session_request_def
           split: prod.splits sum.splits outcome.splits)

lemma answers_log_request [simp]:
  "answers tr m url opts (log_request c url' opts' w) r = answers tr m url opts w r"
  by (simp add: answers_def log_request_def)

lemma reraise_plain [simp]:
  "reraise_neutron_exception (Inr v, w) = (Inr v, w)"
  "reraise_neutron_exception (Inl (ValueError msg), w) = (Inl (ValueError msg), w)"
  "reraise_neutron_exception (Inl TypeError, w) = (Inl TypeError, w)"
  "reraise_neutron_exception (Inl AttributeError, w) = (Inl AttributeError, w)"
  "reraise_neutron_exception (Inl (KeyError k), w) = (Inl (KeyError k), w)"
  "reraise_neutron_exception (Inl (JSONDecodeFailure s), w) = (Inl (JSONDecodeFailure s), w)"
  "reraise_neutron_exception (Inl (InfobloxBadWAPICredential s), w)
     = (Inl (InfobloxBadWAPICredential s), w)"
  "reraise_neutron_exception (Inl (InfobloxSearchError b t s n), w)
     = (Inl (InfobloxSearchError b t s n), w)"
  "reraise_neutron_exception (Inl (InfobloxMemberAlreadyAssigned b t s p n), w)
     = (Inl (InfobloxMemberAlreadyAssigned b t s p n), w)"
  "reraise_neutron_exception (Inl (InfobloxCannotCreateObject b t s p n), w)
     = (Inl (InfobloxCannotCreateObject b t s p n), w)"
  "reraise_neutron_exception (Inl (InfobloxFuncException b t f s n), w)
     = (Inl (InfobloxFuncException b t f s n), w)"
  "reraise_neutron_exception (Inl (InfobloxCannotUpdateObject b t s n), w)
     = (Inl (InfobloxCannotUpdateObject b t s n), w)"
  "reraise_neutron_exception (Inl (InfobloxCannotDeleteObject b t s n), w)
     = (Inl (InfobloxCannotDeleteObject b t s n), w)"
  "reraise_neutron_exception (Inl (InfobloxConnectionError cr), w)
     = (Inl (InfobloxConnectionError cr), w)"
  "reraise_neutron_exception (Inl RequestsTimeout, w) = (Inl InfobloxTimeoutError, w)"
  "reraise_neutron_exception (Inl RequestsException, w)
     = (Inl (InfobloxConnectionError TransportFailure), w)"
  by (simp_all add: reraise_neutron_exception_def)

lemma snd_reraise [simp]: "snd (reraise_neutron_exception res) = snd res"
  by (cases res) (auto simp: reraise_neutron_exception_def split: sum.splits error.splits)

text \<open>The operations once their URL is built.\<close>

lemma get_object1_answered:
  assumes "answers tr GET url (get_request_options lib c PNone) w r"
  shows "\<exists>w'. get_object1 lib tr c obj_type url w = (get_object1_reply lib obj_type r, w')
           \<and> sent w' = sent w @ [(GET, url, get_request_options lib c PNone)]"
  unfolding get_object1_def Let_def by (rule request_answered [OF assms])

lemma get_object1_sent:
  "\<exists>res w'. get_object1 lib tr c obj_type url w = (res, w')
     \<and> sent w' = sent w @ [(GET, url, get_request_options lib c PNone)]"
  unfolding get_object1_def Let_def by (rule request_sent)

lemma create_object_answered:
  assumes "validate_obj_type_or_die obj_type True = Inr ()"
    and "construct_url c obj_type (Some (build_query_params None return_fields)) None False
           = Inr url"
    and "answers tr POST url (get_request_options lib c payload) w r"
  shows "fst (create_object lib tr c obj_type payload return_fields w)
           = fst (reraise_neutron_exception (create_object_reply lib obj_type payload r, w))"
proof -
  from request_answered [OF assms(3), of c "create_object_reply lib obj_type payload"]
  obtain w' where
    "with_response (session_request tr POST url (get_request_options lib c payload)
        (log_request c url (get_request_options lib c payload) w))
        (create_object_reply lib obj_type payload)
      = (create_object_reply lib obj_type payload r, w')" by blast
  then show ?thesis
    using assms(1,2)
    by (simp add: create_object_def Let_def reraise_neutron_exception_def
             split: sum.splits error.splits)
qed

lemma call_func_answered:
  assumes "construct_url c ref
             (Some (AList.update ''_function'' (PStr func_name)
                      (build_query_params None return_fields))) None False = Inr url"
    and "answers tr POST url (get_request_options lib c payload) w r"
  shows "fst (call_func lib tr c func_name ref payload return_fields w)
           = fst (reraise_neutron_exception (call_func_reply lib func_name ref r, w))"
proof -
  from request_answered [OF assms(2), of c "call_func_reply lib func_name ref"]
  obtain w' where
    "with_response (session_request tr POST url (get_request_options lib c payload)
        (log_request c url (get_request_options lib c payload) w))
        (call_func_reply lib func_name ref)
      = (call_func_reply lib func_name ref r, w')" by blast
  then show ?thesis
    using assms(1)
    by (simp add: call_func_def Let_def reraise_neutron_exception_def
             split: sum.splits error.splits)
qed

lemma update_object_answered:
  assumes "construct_url c ref (Some (build_query_params None return_fields)) None False
             = Inr url"
    and "answers tr PUT url (get_request_options lib c payload) w r"
  shows "fst (update_object lib tr c ref payload return_fields w)
           = fst (reraise_neutron_exception (update_object_reply lib ref r, w))"
proof -
  from request_answered [OF assms(2), of c "update_object_reply lib ref"]
  obtain w' where
    "with_response (session_request tr PUT url (get_request_options lib c payload)
        (log_request c url (get_request_options lib c payload) w))
        (update_object_reply lib ref)
      = (update_object_reply lib ref r, w')" by blast
  then show ?thesis
    using assms(1)
    by (simp add: update_object_def Let_def reraise_neutron_exception_def
             split: sum.splits error.splits)
qed

lemma delete_object_answered:
  assumes "construct_url c ref None None False = Inr url"
    and "answers tr DELETE url (get_request_options lib c PNone) w r"
  shows "fst (delete_object lib tr c ref w)
           = fst (reraise_neutron_exception (delete_object_reply lib ref r, w))"
proof -
  from request_answered [OF assms(2), of c "delete_object_reply lib ref"]
  obtain w' where
    "with_response (session_request tr DELETE url (get_request_options lib c PNone)
        (log_request c url (get_request_options lib c PNone) w))
        (delete_object_reply lib ref)
      = (delete_object_reply lib ref r, w')" by blast
  then show ?thesis
    using assms(1)
    by (simp add: delete_object_def Let_def reraise_neutron_exception_def
             split: sum.splits error.splits)
qed

subsection \<open>The proxy retry of get\<close>

lemma construct_url_proxy_too:
  assumes "construct_url c p q ea False = Inr url1"
  shows "\<exists>url2. construct_url c p q ea True = Inr url2"
proof -
  let ?ea = "case ea of None \<Rightarrow> [] | Some e \<Rightarrow> e"
  from assms have path: "p \<noteq> []" "hd p \<noteq> CHR ''/''"
    by (auto simp: construct_url_def Let_def split: if_splits)
  show ?thesis
  proof (cases "extattr_values ?ea")
    case (Some eas)
    from construct_url_valid [OF path Some, of c q True] show ?thesis by blast
  next
    case None
    then have n: "?ea \<noteq> []" by auto
    from extattr_queries_malformed [OF None, of "[]"]
    obtain e where "extattr_queries ?ea [] = Inl e" by blast
    with n path have "\<exists>e. construct_url c p q ea False = Inl e"
      by (simp add: construct_url_def Let_def and_then_def)
    with assms show ?thesis by simp
  qed
qed

lemma get_object_steps:
  assumes v: "validate_obj_type_or_die obj_type False = Inr ()"
    and u: "construct_url c obj_type (Some (build_query_params payload return_fields))
              extattrs (cloud_api_enabled c \<and> force_proxy) = Inr url1"
    and g: "get_object1 lib tr c obj_type url1 w = (first, w1)"
  shows "first = Inl e \<Longrightarrow>
           get_object lib tr c obj_type payload return_fields extattrs force_proxy w
             = reraise_neutron_exception (Inl e, w1)"
    and "first = Inr v1 \<Longrightarrow> truthy v1 \<Longrightarrow>
           get_object lib tr c obj_type payload return_fields extattrs force_proxy w
             = (Inr v1, w1)"
    and "first = Inr v1 \<Longrightarrow> \<not> truthy v1 \<Longrightarrow> \<not> (cloud_api_enabled c \<and> \<not> force_proxy) \<Longrightarrow>
           get_object lib tr c obj_type payload return_fields extattrs force_proxy w
             = (Inr PNone, w1)"
    and "first = Inr v1 \<Longrightarrow> \<not> truthy v1 \<Longrightarrow> cloud_api_enabled c \<Longrightarrow> \<not> force_proxy \<Longrightarrow>
           construct_url c obj_type (Some (build_query_params payload return_fields))
              extattrs True = Inr url2 \<Longrightarrow>
           get_object1 lib tr c obj_type url2 w1 = (second, w2) \<Longrightarrow>
           get_object lib tr c obj_type payload return_fields extattrs force_proxy w
             = reraise_neutron_exception
                 (case second of
                    Inl e \<Rightarrow> Inl e
                  | Inr v2 \<Rightarrow> Inr (if truthy v2 then v2 else PNone), w2)"
  using v u g
  by (auto simp: get_object_def get_object_body_def Let_def split: sum.splits)

lemma get_object_at_most_two:
  "\<exists>rs. sent (snd (get_object lib tr c obj_type payload return_fields extattrs force_proxy w))
          = sent w @ rs \<and> length rs \<le> 2"
proof (cases "validate_obj_type_or_die obj_type False")
  case (Inl e)
  then show ?thesis by (simp add: get_object_def get_object_body_def)
next
  case (Inr u)
  then have v: "validate_obj_type_or_die obj_type False = Inr ()" by simp
  let ?qp = "build_query_params payload return_fields"
  let ?opts = "get_request_options lib c PNone"
  show ?thesis
  proof (cases "construct_url c obj_type (Some ?qp) extattrs (cloud_api_enabled c \<and> force_proxy)")
    case (Inl e)
    with v show ?thesis by (simp add: get_object_def get_object_body_def Let_def)
  next
    case (Inr url1)
    from get_object1_sent [of lib tr c obj_type url1 w] obtain first w1 where
      g: "get_object1 lib tr c obj_type url1 w = (first, w1)"
      and s1: "sent w1 = sent w @ [(GET, url1, ?opts)]" by blast
    note steps = get_object_steps [OF v Inr g]
    show ?thesis
    proof (cases first)
      case (Inl e)
      from steps(1) [OF this] s1 show ?thesis by simp
    next
      case first: (Inr v1)
      show ?thesis
      proof (cases "truthy v1")
        case True
        from steps(2) [OF first True] s1 show ?thesis by simp
      next
        case False
        show ?thesis
        proof (cases "cloud_api_enabled c \<and> \<not> force_proxy")
          case no: False
          from steps(3) [OF first False no] s1 show ?thesis by simp
        next
          case True
          with Inr have "construct_url c obj_type (Some ?qp) extattrs False = Inr url1"
            by simp
          from construct_url_proxy_too [OF this] obtain url2 where
            u2: "construct_url c obj_type (Some ?qp) extattrs True = Inr url2" by blast
          from get_object1_sent [of lib tr c obj_type url2 w1] obtain second w2 where
            g2: "get_object1 lib tr c obj_type url2 w1 = (second, w2)"
            and s2: "sent w2 = sent w1 @ [(GET, url2, ?opts)]" by blast
          from True have "cloud_api_enabled c" "\<not> force_proxy" by simp_all
          from steps(4) [OF first False this u2 g2] s1 s2 show ?thesis by simp
        qed
      qed
    qed
  qed
qed

text \<open>
  C1, as the code has it. Once the object type is valid and the first URL is built, the
  first request decides. A non-empty result is returned at once and an error is raised
  at once, each after that one request. An empty result on a cloud-capable connector
  whose caller did not force the proxy is followed by exactly one more GET, built with
  the proxy forced; its error is raised, its non-empty result is returned, and its
  empty result is returned as \<^verbatim>\<open>None\<close>. Any other empty result is returned as
  \<^verbatim>\<open>None\<close> after the one request. No call sends more than two requests.
\<close>

theorem get_object_proxy_retry:
  "(validate_obj_type_or_die obj_type False = Inr ()
    \<and> construct_url c obj_type (Some (build_query_params payload return_fields)) extattrs
         (cloud_api_enabled c \<and> force_proxy) = Inr url1
    \<and> get_object1 lib tr c obj_type url1 w = (first, w1) \<longrightarrow>
      sent w1 = sent w @ [(GET, url1, get_request_options lib c PNone)]
      \<and> (first = Inl e \<longrightarrow>
           get_object lib tr c obj_type payload return_fields extattrs force_proxy w
             = reraise_neutron_exception (Inl e, w1))
      \<and> (first = Inr v1 \<and> truthy v1 \<longrightarrow>
           get_object lib tr c obj_type payload return_fields extattrs force_proxy w
             = (Inr v1, w1))
      \<and> (first = Inr v1 \<and> \<not> truthy v1 \<and> \<not> (cloud_api_enabled c \<and> \<not> force_proxy) \<longrightarrow>
           get_object lib tr c obj_type payload return_fields extattrs force_proxy w
             = (Inr PNone, w1))
      \<and> (first = Inr v1 \<and> \<not> truthy v1 \<and> cloud_api_enabled c \<and> \<not> force_proxy \<longrightarrow>
           (\<exists>url2 second w2.
              construct_url c obj_type (Some (build_query_params payload return_fields))
                extattrs True = Inr url2
              \<and> get_object1 lib tr c obj_type url2 w1 = (second, w2)
              \<and> sent w2 = sent w @ [(GET, url1, get_request_options lib c PNone),
                                     (GET, url2, get_request_options lib c PNone)]
              \<and> get_object lib tr c obj_type payload return_fields extattrs force_proxy w
                  = reraise_neutron_exception
                      (case second of
                         Inl e2 \<Rightarrow> Inl e2
                       | Inr v2 \<Rightarrow> Inr (if truthy v2 then v2 else PNone), w2))))
   \<and> (\<exists>rs. sent (snd (get_object lib tr c obj_type payload return_fields extattrs
                        force_proxy w)) = sent w @ rs \<and> length rs \<le> 2)"
proof (intro conjI impI)
  show "\<exists>rs. sent (snd (get_object lib tr c obj_type payload return_fields extattrs
                        force_proxy w)) = sent w @ rs \<and> length rs \<le> 2"
    by (rule get_object_at_most_two)
next
  let ?qp = "build_query_params payload return_fields"
  let ?opts = "get_request_options lib c PNone"
  assume a: "validate_obj_type_or_die obj_type False = Inr ()
    \<and> construct_url c obj_type (Some ?qp) extattrs (cloud_api_enabled c \<and> force_proxy)
        = Inr url1
    \<and> get_object1 lib tr c obj_type url1 w = (first, w1)"
  then have v: "validate_obj_type_or_die obj_type False = Inr ()"
    and u: "construct_url c obj_type (Some ?qp) extattrs (cloud_api_enabled c \<and> force_proxy)
              = Inr url1"
    and g: "get_object1 lib tr c obj_type url1 w = (first, w1)" by simp_all
  note steps = get_object_steps [OF v u g]
  from get_object1_sent [of lib tr c obj_type url1 w] g
  show s1: "sent w1 = sent w @ [(GET, url1, ?opts)]" by simp
  show "get_object lib tr c obj_type payload return_fields extattrs force_proxy w
          = reraise_neutron_exception (Inl e, w1)" if "first = Inl e"
    using that by (rule steps(1))
  show "get_object lib tr c obj_type payload return_fields extattrs force_proxy w
          = (Inr v1, w1)" if "first = Inr v1 \<and> truthy v1"
    using that steps(2) by blast
  show "get_object lib tr c obj_type payload return_fields extattrs force_proxy w
          = (Inr PNone, w1)"
    if "first = Inr v1 \<and> \<not> truthy v1 \<and> \<not> (cloud_api_enabled c \<and> \<not> force_proxy)"
    using that steps(3) by blast
  show "\<exists>url2 second w2.
          construct_url c obj_type (Some ?qp) extattrs True = Inr url2
          \<and> get_object1 lib tr c obj_type url2 w1 = (second, w2)
          \<and> sent w2 = sent w @ [(GET, url1, ?opts), (GET, url2, ?opts)]
          \<and> get_object lib tr c obj_type payload return_fields extattrs force_proxy w
              = reraise_neutron_exception
                  (case second of
                     Inl e2 \<Rightarrow> Inl e2
                   | Inr v2 \<Rightarrow> Inr (if truthy v2 then v2 else PNone), w2)"
    if t: "first = Inr v1 \<and> \<not> truthy v1 \<and> cloud_api_enabled c \<and> \<not> force_proxy"
  proof -
    from t u have "construct_url c obj_type (Some ?qp) extattrs False = Inr url1" by simp
    from construct_url_proxy_too [OF this] obtain url2 where
      u2: "construct_url c obj_type (Some ?qp) extattrs True = Inr url2" by blast
    from get_object1_sent [of lib tr c obj_type url2 w1] obtain second w2 where
      g2: "get_object1 lib tr c obj_type url2 w1 = (second, w2)"
      and s2: "sent w2 = sent w1 @ [(GET, url2, ?opts)]" by blast
    from t have f: "first = Inr v1" "\<not> truthy v1" "cloud_api_enabled c" "\<not> force_proxy"
      by simp_all
    from steps(4) [OF f u2 g2] u2 g2 s1 s2 show ?thesis by simp
  qed
qed

lemmas run_defs =
  get_object_def get_object_body_def get_object1_def get_object1_reply_def
  validate_obj_type_or_die_def build_query_params_def construct_url_def
  sample_connector_def get_request_options_def log_request_def session_request_def
  with_response_def validate_authorized_def parse_reply_def sample_lib_def
  sample_loads_def sample_urlencode_def fresh_def reply_def and_then_def json_loads_def
  reraise_neutron_exception_def Let_def DEFAULT_HEADER_def

lemma sample_urls:
  "construct_url (sample_connector True) ''network'' (Some (build_query_params None None))
     None False = Inr ''https://nios.example.com/wapi/v2.5/network''"
  "construct_url (sample_connector True) ''network'' (Some (build_query_params None None))
     None True = Inr ''https://nios.example.com/wapi/v2.5/network?_proxy_search=GM''"
  "construct_url (sample_connector False) ''network'' (Some (build_query_params None None))
     None False = Inr ''https://nios.example.com/wapi/v1.4/network''"
  by (simp_all add: run_defs)

lemma sample_first_empty:
  "fst (get_object1 sample_lib scripted (sample_connector cloud) ''network'' url
         (fresh (reply 200 ''[]'' # rest))) = Inr (PList [])"
  "remote (snd (get_object1 sample_lib scripted (sample_connector cloud) ''network'' url
         (fresh (reply 200 ''[]'' # rest)))) = rest"
  by (simp_all add: run_defs)

lemma sample_second:
  "remote w = reply 200 body # rest \<Longrightarrow>
     fst (get_object1 sample_lib scripted (sample_connector cloud) ''network'' url w)
       = (case sample_loads body of Some v \<Rightarrow> Inr v
          | None \<Rightarrow> Inl (InfobloxConnectionError (RawContent body)))"
  by (simp add: get_object1_def get_object1_reply_def get_request_options_def
        log_request_def session_request_def with_response_def validate_authorized_def
        parse_reply_def sample_lib_def reply_def and_then_def Let_def
      split: option.splits)

lemma sample_get_empty_twice:
  "fst (get_object sample_lib scripted (sample_connector True) ''network'' None None None
          False (fresh [reply 200 ''[]'', reply 200 ''[]''])) = Inr PNone"
  by (simp add: run_defs)

lemma sample_get_empty_standalone:
  "fst (get_object sample_lib scripted (sample_connector False) ''network'' None None None
          False (fresh [reply 200 ''[]''])) = Inr PNone"
  by (simp add: run_defs)

text \<open>
  C1 as stated fails: the second request answers with the empty list and the call
  returns \<^verbatim>\<open>None\<close>, not that list; on a connector that is not cloud-capable the one
  request answers with the empty list and the call returns \<^verbatim>\<open>None\<close>, not that list.
\<close>

theorem get_object_as_is_counterexample:
  "fst (get_object1 sample_lib scripted (sample_connector True) ''network''
          ''https://nios.example.com/wapi/v2.5/network''
          (fresh [reply 200 ''[]'', reply 200 ''[]''])) = Inr (PList [])
   \<and> fst (get_object1 sample_lib scripted (sample_connector True) ''network''
          ''https://nios.example.com/wapi/v2.5/network?_proxy_search=GM''
          (snd (get_object1 sample_lib scripted (sample_connector True) ''network''
                  ''https://nios.example.com/wapi/v2.5/network''
                  (fresh [reply 200 ''[]'', reply 200 ''[]''])))) = Inr (PList [])
   \<and> fst (get_object sample_lib scripted (sample_connector True) ''network'' None None None
            False (fresh [reply 200 ''[]'', reply 200 ''[]''])) \<noteq> Inr (PList [])
   \<and> fst (get_object1 sample_lib scripted (sample_connector False) ''network''
          ''https://nios.example.com/wapi/v1.4/network''
          (fresh [reply 200 ''[]''])) = Inr (PList [])
   \<and> fst (get_object sample_lib scripted (sample_connector False) ''network'' None None None
            False (fresh [reply 200 ''[]''])) \<noteq> Inr (PList [])"
proof (intro conjI)
  show "fst (get_object1 sample_lib scripted (sample_connector True) ''network''
          ''https://nios.example.com/wapi/v2.5/network''
          (fresh [reply 200 ''[]'', reply 200 ''[]''])) = Inr (PList [])"
    by (rule sample_first_empty)
  show "fst (get_object1 sample_lib scripted (sample_connector True) ''network''
          ''https://nios.example.com/wapi/v2.5/network?_proxy_search=GM''
          (snd (get_object1 sample_lib scripted (sample_connector True) ''network''
                  ''https://nios.example.com/wapi/v2.5/network''
                  (fresh [reply 200 ''[]'', reply 200 ''[]''])))) = Inr (PList [])"
    by (subst sample_second [where body = "''[]''" and rest = "[]"])
       (simp_all add: sample_first_empty sample_loads_def)
  show "fst (get_object sample_lib scripted (sample_connector True) ''network'' None None None
            False (fresh [reply 200 ''[]'', reply 200 ''[]''])) \<noteq> Inr (PList [])"
    by (simp add: sample_get_empty_twice)
  show "fst (get_object1 sample_lib scripted (sample_connector False) ''network''
          ''https://nios.example.com/wapi/v1.4/network''
          (fresh [reply 200 ''[]''])) = Inr (PList [])"
    by (rule sample_first_empty)
  show "fst (get_object sample_lib scripted (sample_connector False) ''network'' None None None
            False (fresh [reply 200 ''[]''])) \<noteq> Inr (PList [])"
    by (simp add: sample_get_empty_standalone)
qed

theorem get_object_proxy_retry_witness:
  \<open>validate_obj_type_or_die ''network'' False = Inr ()
   \<and> construct_url (sample_connector True) ''network'' (Some (build_query_params None None))
        None (cloud_api_enabled (sample_connector True) \<and> False)
        = Inr ''https://nios.example.com/wapi/v2.5/network''
   \<and> fst (get_object1 sample_lib scripted (sample_connector True) ''network''
          ''https://nios.example.com/wapi/v2.5/network''
          (fresh [reply 200 ''[]'', reply 200 ''[{"network": "10.0.0.0/8"}]'']))
        = Inr (PList [])
   \<and> \<not> truthy (PList [])
   \<and> cloud_api_enabled (sample_connector True)
   \<and> fst (get_object sample_lib scripted (sample_connector True) ''network'' None None None
            False (fresh [reply 200 ''[]'', reply 200 ''[{"network": "10.0.0.0/8"}]'']))
        = Inr (PList [PDict [(''network'', PStr ''10.0.0.0/8'')]])
   \<and> map (\<lambda>(m, url, opts). (m, url))
         (sent (snd (get_object sample_lib scripted (sample_connector True) ''network'' None
                       None None False
                       (fresh [reply 200 ''[]'', reply 200 ''[{"network": "10.0.0.0/8"}]'']))))
        = [(GET, ''https://nios.example.com/wapi/v2.5/network''),
           (GET, ''https://nios.example.com/wapi/v2.5/network?_proxy_search=GM'')]\<close>
proof -
  let ?c = "sample_connector True"
  let ?u1 = "''https://nios.example.com/wapi/v2.5/network''"
  let ?u2 = "''https://nios.example.com/wapi/v2.5/network?_proxy_search=GM''"
  let ?w = \<open>fresh [reply 200 ''[]'', reply 200 ''[{"network": "10.0.0.0/8"}]'' :: outcome]\<close>
  let ?w1 = "snd (get_object1 sample_lib scripted ?c ''network'' ?u1 ?w)"
  let ?found = "PList [PDict [(''network'', PStr ''10.0.0.0/8'')]]"
  have v: "validate_obj_type_or_die ''network'' False = Inr ()"
    by (simp add: validate_obj_type_or_die_def)
  have cl: "cloud_api_enabled ?c" by (simp add: sample_connector_def)
  have u1: "construct_url ?c ''network'' (Some (build_query_params None None)) None
              (cloud_api_enabled ?c \<and> False) = Inr ?u1"
    using sample_urls(1) by simp
  have f: "fst (get_object1 sample_lib scripted ?c ''network'' ?u1 ?w) = Inr (PList [])"
    by (rule sample_first_empty)
  then have g: "get_object1 sample_lib scripted ?c ''network'' ?u1 ?w = (Inr (PList []), ?w1)"
    by (simp add: prod_eq_iff)
  have e: "Inr (PList []) = Inr (PList []) \<and> \<not> truthy (PList []) \<and> cloud_api_enabled ?c
           \<and> \<not> False"
    using cl by simp
  note t = get_object_proxy_retry
    [of "''network''" ?c None None None False ?u1 sample_lib scripted ?w "Inr (PList [])" ?w1
        _ "PList []",
     THEN conjunct1, THEN mp, OF conjI [OF v conjI [OF u1 g]]]
  note retry = t [THEN conjunct2, THEN conjunct2, THEN conjunct2, THEN conjunct2, THEN mp, OF e]
  then obtain url2 second w2 where
    u2: "construct_url ?c ''network'' (Some (build_query_params None None)) None True
           = Inr url2"
    and g2: "get_object1 sample_lib scripted ?c ''network'' url2 ?w1 = (second, w2)"
    and s: "sent w2 = sent ?w @ [(GET, ?u1, get_request_options sample_lib ?c PNone),
                                 (GET, url2, get_request_options sample_lib ?c PNone)]"
    and r: "get_object sample_lib scripted ?c ''network'' None None None False ?w
              = reraise_neutron_exception
                  (case second of Inl e2 \<Rightarrow> Inl e2
                   | Inr v2 \<Rightarrow> Inr (if truthy v2 then v2 else PNone), w2)"
    by (elim exE conjE)
  from u2 sample_urls(2) have url2: "url2 = ?u2" by simp
  have \<open>remote ?w1 = [reply 200 ''[{"network": "10.0.0.0/8"}]'']\<close>
    by (rule sample_first_empty)
  from sample_second [OF this, of True url2] g2
  have second: "second = Inr ?found"
    by (simp add: sample_loads_def)
  from r second have res: "get_object sample_lib scripted ?c ''network'' None None None False ?w
                             = (Inr ?found, w2)"
    by simp
  from res have a: "fst (get_object sample_lib scripted ?c ''network'' None None None False ?w)
                      = Inr ?found" by simp
  from res s url2 have b: "map (\<lambda>(m, url, opts). (m, url))
         (sent (snd (get_object sample_lib scripted ?c ''network'' None None None False ?w)))
        = [(GET, ?u1), (GET, ?u2)]"
    by (simp add: fresh_def)
  from v u1 f cl a b show ?thesis by simp
qed

subsection \<open>What each operation makes of a response\<close>

lemma reply_unauthorized:
  assumes "status_code r = 401"
  shows "get_object1_reply lib obj_type r = Inl (InfobloxBadWAPICredential [])"
    and "create_object_reply lib obj_type payload r = Inl (InfobloxBadWAPICredential [])"
    and "call_func_reply lib func_name ref r = Inl (InfobloxBadWAPICredential [])"
    and "update_object_reply lib ref r = Inl (InfobloxBadWAPICredential [])"
    and "delete_object_reply lib ref r = Inl (InfobloxBadWAPICredential [])"
  using assms
  by (simp_all add: get_object1_reply_def create_object_reply_def call_func_reply_def
        update_object_reply_def delete_object_reply_def validate_authorized_def and_then_def)

lemma reply_not_json:
  assumes "loads lib (content r) = None"
  shows "status_code r = 200 \<Longrightarrow>
           get_object1_reply lib obj_type r = Inl (InfobloxConnectionError (RawContent (content r)))"
    and "status_code r = 201 \<Longrightarrow>
           create_object_reply lib obj_type payload r
             = Inl (InfobloxConnectionError (RawContent (content r)))"
    and "status_code r = 200 \<or> status_code r = 201 \<Longrightarrow>
           call_func_reply lib func_name ref r
             = Inl (InfobloxConnectionError (RawContent (content r)))"
    and "status_code r = 200 \<Longrightarrow>
           update_object_reply lib ref r = Inl (InfobloxConnectionError (RawContent (content r)))"
    and "status_code r = 200 \<Longrightarrow>
           delete_object_reply lib ref r = Inl (InfobloxConnectionError (RawContent (content r)))"
  using assms
  by (auto simp: get_object1_reply_def create_object_reply_def call_func_reply_def
        update_object_reply_def delete_object_reply_def validate_authorized_def and_then_def
        parse_reply_def)

lemma reply_rejected:
  assumes "status_code r \<noteq> 401"
  shows "status_code r \<noteq> 200 \<Longrightarrow>
           get_object1_reply lib obj_type r =
             (case loads lib (content r) of
                Some body \<Rightarrow> Inl (InfobloxSearchError body obj_type (content r) (status_code r))
              | None \<Rightarrow> Inl (JSONDecodeFailure (content r)))"
    and "status_code r \<noteq> 200 \<and> status_code r \<noteq> 201 \<Longrightarrow>
           call_func_reply lib func_name ref r =
             (case loads lib (content r) of
                Some body \<Rightarrow>
                  Inl (InfobloxFuncException body ref func_name (content r) (status_code r))
              | None \<Rightarrow> Inl (JSONDecodeFailure (content r)))"
    and "status_code r \<noteq> 200 \<Longrightarrow>
           update_object_reply lib ref r =
             (case loads lib (content r) of
                Some body \<Rightarrow> Inl (InfobloxCannotUpdateObject body ref (content r) (status_code r))
              | None \<Rightarrow> Inl (JSONDecodeFailure (content r)))"
    and "status_code r \<noteq> 200 \<Longrightarrow>
           delete_object_reply lib ref r =
             (case loads lib (content r) of
                Some body \<Rightarrow> Inl (InfobloxCannotDeleteObject body ref (content r) (status_code r))
              | None \<Rightarrow> Inl (JSONDecodeFailure (content r)))"
  using assms
  by (auto simp: get_object1_reply_def call_func_reply_def
        update_object_reply_def delete_object_reply_def validate_authorized_def and_then_def
        json_loads_def split: option.splits)

lemma get_object_first_answer:
  assumes "validate_obj_type_or_die obj_type False = Inr ()"
    and "construct_url c obj_type (Some (build_query_params payload return_fields)) extattrs
           (cloud_api_enabled c \<and> force_proxy) = Inr url"
    and "answers tr GET url (get_request_options lib c PNone) w r"
    and "get_object1_reply lib obj_type r = Inl e"
  shows "fst (get_object lib tr c obj_type payload return_fields extattrs force_proxy w)
           = fst (reraise_neutron_exception (Inl e, w))"
proof -
  from get_object1_answered [OF assms(3), of obj_type] assms(4) obtain w1 where
    g: "get_object1 lib tr c obj_type url w = (Inl e, w1)" by auto
  from get_object_steps(1) [OF assms(1,2) g] show ?thesis
    by (simp add: reraise_neutron_exception_def split: error.splits)
qed

lemma get_object_second_answer:
  assumes "validate_obj_type_or_die obj_type False = Inr ()"
    and "construct_url c obj_type (Some (build_query_params payload return_fields)) extattrs
           (cloud_api_enabled c \<and> force_proxy) = Inr url1"
    and "get_object1 lib tr c obj_type url1 w = (Inr v1, w1)"
    and "\<not> truthy v1" "cloud_api_enabled c" "\<not> force_proxy"
    and "construct_url c obj_type (Some (build_query_params payload return_fields)) extattrs
           True = Inr url2"
    and "answers tr GET url2 (get_request_options lib c PNone) w1 r"
    and "get_object1_reply lib obj_type r = Inl e"
  shows "fst (get_object lib tr c obj_type payload return_fields extattrs force_proxy w)
           = fst (reraise_neutron_exception (Inl e, w))"
proof -
  from get_object1_answered [OF assms(8), of obj_type] assms(9) obtain w2 where
    g: "get_object1 lib tr c obj_type url2 w1 = (Inl e, w2)" by auto
  from get_object_steps(4) [OF assms(1,2,3) refl assms(4,5,6,7) g] show ?thesis
    by (simp add: reraise_neutron_exception_def split: error.splits)
qed

subsection \<open>The sample environment\<close>

lemma answers_scripted [simp]:
  "answers scripted m url opts (fresh (Reply r # rest)) r"
  by (simp add: answers_def fresh_def)

lemma answers_scripted_remote:
  "remote w = Reply r # rest \<Longrightarrow> answers scripted m url opts w r"
  by (simp add: answers_def)

lemma sample_validate [simp]:
  "validate_obj_type_or_die ''network'' expected = Inr ()"
  by (simp add: validate_obj_type_or_die_def)

lemma sample_ref_urls:
  "construct_url (sample_connector True) ''network/ZG5z:default'' None None False
     = Inr ''https://nios.example.com/wapi/v2.5/network/ZG5z:default''"
  "construct_url (sample_connector True) ''network/ZG5z:default''
     (Some (build_query_params None None)) None False
     = Inr ''https://nios.example.com/wapi/v2.5/network/ZG5z:default''"
  "construct_url (sample_connector True) ''network/ZG5z:default''
     (Some (AList.update ''_function'' (PStr ''next_available_ip'')
              (build_query_params None None))) None False
     = Inr ''https://nios.example.com/wapi/v2.5/network/ZG5z:default?_function=next_available_ip''"
  by (simp_all add: construct_url_def build_query_params_def sample_connector_def
        sample_urlencode_def and_then_def Let_def)

subsection \<open>Unauthorized responses\<close>

text \<open>
  C6. A response with status 401 makes every operation raise the credential error,
  whatever its body and whatever status the operation hoped for: on the one request of
  create, call, update and delete, and on the first and on the second request of get.
\<close>

theorem unauthorized_raises_auth_error:
  assumes "status_code r = 401"
  shows
  "(answers tr GET url (get_request_options lib c PNone) w r \<longrightarrow>
      fst (get_object1 lib tr c obj_type url w) = Inl (InfobloxBadWAPICredential []))
   \<and> (validate_obj_type_or_die obj_type False = Inr ()
        \<and> construct_url c obj_type (Some (build_query_params gpayload return_fields)) extattrs
             (cloud_api_enabled c \<and> force_proxy) = Inr url
        \<and> answers tr GET url (get_request_options lib c PNone) w r \<longrightarrow>
        fst (get_object lib tr c obj_type gpayload return_fields extattrs force_proxy w)
          = Inl (InfobloxBadWAPICredential []))
   \<and> (validate_obj_type_or_die obj_type False = Inr ()
        \<and> construct_url c obj_type (Some (build_query_params gpayload return_fields)) extattrs
             (cloud_api_enabled c \<and> force_proxy) = Inr url1
        \<and> get_object1 lib tr c obj_type url1 w = (Inr v1, w1)
        \<and> \<not> truthy v1 \<and> cloud_api_enabled c \<and> \<not> force_proxy
        \<and> construct_url c obj_type (Some (build_query_params gpayload return_fields)) extattrs
             True = Inr url
        \<and> answers tr GET url (get_request_options lib c PNone) w1 r \<longrightarrow>
        fst (get_object lib tr c obj_type gpayload return_fields extattrs force_proxy w)
          = Inl (InfobloxBadWAPICredential []))
   \<and> (validate_obj_type_or_die obj_type True = Inr ()
        \<and> construct_url c obj_type (Some (build_query_params None return_fields)) None False
             = Inr url
        \<and> answers tr POST url (get_request_options lib c payload) w r \<longrightarrow>
        fst (create_object lib tr c obj_type payload return_fields w)
          = Inl (InfobloxBadWAPICredential []))
   \<and> (construct_url c ref
          (Some (AList.update ''_function'' (PStr func_name)
                   (build_query_params None return_fields))) None False = Inr url
        \<and> answers tr POST url (get_request_options lib c payload) w r \<longrightarrow>
        fst (call_func lib tr c func_name ref payload return_fields w)
          = Inl (InfobloxBadWAPICredential []))
   \<and> (construct_url c ref (Some (build_query_params None return_fields)) None False
          = Inr url
        \<and> answers tr PUT url (get_request_options lib c payload) w r \<longrightarrow>
        fst (update_object lib tr c ref payload return_fields w)
          = Inl (InfobloxBadWAPICredential []))
   \<and> (construct_url c ref None None False = Inr url
        \<and> answers tr DELETE url (get_request_options lib c PNone) w r \<longrightarrow>
        fst (delete_object lib tr c ref w) = Inl (InfobloxBadWAPICredential []))"
proof (intro conjI impI)
  note u = reply_unauthorized [OF assms]
  show "fst (get_object1 lib tr c obj_type url w) = Inl (InfobloxBadWAPICredential [])"
    if "answers tr GET url (get_request_options lib c PNone) w r"
    using get_object1_answered [OF that, of obj_type] u(1) by auto
  show "fst (get_object lib tr c obj_type gpayload return_fields extattrs force_proxy w)
          = Inl (InfobloxBadWAPICredential [])"
    if h: "validate_obj_type_or_die obj_type False = Inr ()
        \<and> construct_url c obj_type (Some (build_query_params gpayload return_fields)) extattrs
             (cloud_api_enabled c \<and> force_proxy) = Inr url
        \<and> answers tr GET url (get_request_options lib c PNone) w r"
    using get_object_first_answer
            [OF h [THEN conjunct1] h [THEN conjunct2, THEN conjunct1]
                h [THEN conjunct2, THEN conjunct2] u(1)]
    by simp
  show "fst (get_object lib tr c obj_type gpayload return_fields extattrs force_proxy w)
          = Inl (InfobloxBadWAPICredential [])"
    if h: "validate_obj_type_or_die obj_type False = Inr ()
        \<and> construct_url c obj_type (Some (build_query_params gpayload return_fields)) extattrs
             (cloud_api_enabled c \<and> force_proxy) = Inr url1
        \<and> get_object1 lib tr c obj_type url1 w = (Inr v1, w1)
        \<and> \<not> truthy v1 \<and> cloud_api_enabled c \<and> \<not> force_proxy
        \<and> construct_url c obj_type (Some (build_query_params gpayload return_fields)) extattrs
             True = Inr url
        \<and> answers tr GET url (get_request_options lib c PNone) w1 r"
  proof -
    from h have p: "validate_obj_type_or_die obj_type False = Inr ()"
      "construct_url c obj_type (Some (build_query_params gpayload return_fields)) extattrs
         (cloud_api_enabled c \<and> force_proxy) = Inr url1"
      "get_object1 lib tr c obj_type url1 w = (Inr v1, w1)"
      "\<not> truthy v1" "cloud_api_enabled c" "\<not> force_proxy"
      "construct_url c obj_type (Some (build_query_params gpayload return_fields)) extattrs
         True = Inr url"
      "answers tr GET url (get_request_options lib c PNone) w1 r"
      by blast+
    from get_object_second_answer [OF p u(1)] show ?thesis by simp
  qed
  show "fst (create_object lib tr c obj_type payload return_fields w)
          = Inl (InfobloxBadWAPICredential [])"
    if h: "validate_obj_type_or_die obj_type True = Inr ()
        \<and> construct_url c obj_type (Some (build_query_params None return_fields)) None False
             = Inr url
        \<and> answers tr POST url (get_request_options lib c payload) w r"
    using create_object_answered
            [OF h [THEN conjunct1] h [THEN conjunct2, THEN conjunct1]
                h [THEN conjunct2, THEN conjunct2]] u(2)
    by simp
  show "fst (call_func lib tr c func_name ref payload return_fields w)
          = Inl (InfobloxBadWAPICredential [])"
    if h: "construct_url c ref
          (Some (AList.update ''_function'' (PStr func_name)
                   (build_query_params None return_fields))) None False = Inr url
        \<and> answers tr POST url (get_request_options lib c payload) w r"
    using call_func_answered [OF h [THEN conjunct1] h [THEN conjunct2]] u(3)
    by simp
  show "fst (update_object lib tr c ref payload return_fields w)
          = Inl (InfobloxBadWAPICredential [])"
    if h: "construct_url c ref (Some (build_query_params None return_fields)) None False
          = Inr url
        \<and> answers tr PUT url (get_request_options lib c payload) w r"
    using update_object_answered [OF h [THEN conjunct1] h [THEN conjunct2]] u(4)
    by simp
  show "fst (delete_object lib tr c ref w) = Inl (InfobloxBadWAPICredential [])"
    if h: "construct_url c ref None None False = Inr url
        \<and> answers tr DELETE url (get_request_options lib c PNone) w r"
    using delete_object_answered [OF h [THEN conjunct1] h [THEN conjunct2]] u(5)
    by simp
qed

theorem unauthorized_raises_auth_error_witness:
  "status_code \<lparr> status_code = 401, content = ''[]'' \<rparr> = 401
   \<and> fst (get_object sample_lib scripted (sample_connector True) ''network'' None None None
            False (fresh [reply 401 ''[]''])) = Inl (InfobloxBadWAPICredential [])
   \<and> fst (get_object sample_lib scripted (sample_connector True) ''network'' None None None
            False (fresh [reply 200 ''[]'', reply 401 ''[]'']))
        = Inl (InfobloxBadWAPICredential [])
   \<and> fst (create_object sample_lib scripted (sample_connector True) ''network''
            (PDict [(''network'', PStr ''10.0.0.0/8'')]) None (fresh [reply 401 ''[]'']))
        = Inl (InfobloxBadWAPICredential [])
   \<and> fst (call_func sample_lib scripted (sample_connector True) ''next_available_ip''
            ''network/ZG5z:default'' (PDict [(''num'', PInt 1)]) None
            (fresh [reply 401 ''[]''])) = Inl (InfobloxBadWAPICredential [])
   \<and> fst (update_object sample_lib scripted (sample_connector True) ''network/ZG5z:default''
            (PDict [(''comment'', PStr ''x'')]) None (fresh [reply 401 ''[]'']))
        = Inl (InfobloxBadWAPICredential [])
   \<and> fst (delete_object sample_lib scripted (sample_connector True) ''network/ZG5z:default''
            (fresh [reply 401 ''[]''])) = Inl (InfobloxBadWAPICredential [])"
proof -
  let ?r = "\<lparr> status_code = 401, content = ''[]'' \<rparr>"
  let ?c = "sample_connector True"
  let ?w = "fresh [reply 401 ''[]''] :: outcome list world"
  let ?w2 = "fresh [reply 200 ''[]'', reply 401 ''[]''] :: outcome list world"
  let ?u1 = "''https://nios.example.com/wapi/v2.5/network''"
  let ?u2 = "''https://nios.example.com/wapi/v2.5/network?_proxy_search=GM''"
  let ?ref = "''network/ZG5z:default''"
  have st: "status_code ?r = 401" by simp
  have cl: "cloud_api_enabled ?c" by (simp add: sample_connector_def)
  have w: "?w = fresh [Reply ?r]" by (simp add: reply_def)
  have a: "fst (get_object sample_lib scripted ?c ''network'' None None None False ?w)
             = Inl (InfobloxBadWAPICredential [])"
    by (rule unauthorized_raises_auth_error
          [where r = ?r and url = ?u1, OF st, THEN conjunct2, THEN conjunct1, THEN mp])
       (simp add: w sample_urls)
  let ?w1 = "snd (get_object1 sample_lib scripted ?c ''network'' ?u1 ?w2)"
  have g: "get_object1 sample_lib scripted ?c ''network'' ?u1 ?w2 = (Inr (PList []), ?w1)"
    using sample_first_empty(1) [of True ?u1 "[reply 401 ''[]'']"] by (simp add: prod_eq_iff)
  have "remote ?w1 = [Reply ?r]"
    using sample_first_empty(2) [of True ?u1 "[reply 401 ''[]'']"] by (simp add: reply_def)
  then have an: "answers scripted GET ?u2 (get_request_options sample_lib ?c PNone) ?w1 ?r"
    by (rule answers_scripted_remote)
  have b: "fst (get_object sample_lib scripted ?c ''network'' None None None False ?w2)
             = Inl (InfobloxBadWAPICredential [])"
    by (rule unauthorized_raises_auth_error
          [where r = ?r and url = ?u2 and ?url1.0 = ?u1 and ?v1.0 = "PList []" and ?w1.0 = ?w1,
           OF st, THEN conjunct2, THEN conjunct2, THEN conjunct1, THEN mp])
       (intro conjI; (rule g | rule an | simp add: sample_urls cl))
  have c: "fst (create_object sample_lib scripted ?c ''network''
                 (PDict [(''network'', PStr ''10.0.0.0/8'')]) None ?w)
             = Inl (InfobloxBadWAPICredential [])"
    by (rule unauthorized_raises_auth_error
          [where r = ?r and url = ?u1, OF st, THEN conjunct2, THEN conjunct2, THEN conjunct2,
           THEN conjunct1, THEN mp])
       (simp add: w sample_urls)
  have d: "fst (call_func sample_lib scripted ?c ''next_available_ip'' ?ref
                 (PDict [(''num'', PInt 1)]) None ?w)
             = Inl (InfobloxBadWAPICredential [])"
    by (rule unauthorized_raises_auth_error
          [where r = ?r
             and url = "''https://nios.example.com/wapi/v2.5/network/ZG5z:default?_function=next_available_ip''",
           OF st, THEN conjunct2, THEN conjunct2, THEN conjunct2,
           THEN conjunct2, THEN conjunct1, THEN mp])
       (simp add: w sample_ref_urls)
  have e: "fst (update_object sample_lib scripted ?c ?ref (PDict [(''comment'', PStr ''x'')])
                 None ?w)
             = Inl (InfobloxBadWAPICredential [])"
    by (rule unauthorized_raises_auth_error
          [where r = ?r
             and url = "''https://nios.example.com/wapi/v2.5/network/ZG5z:default''",
           OF st, THEN conjunct2, THEN conjunct2, THEN conjunct2,
           THEN conjunct2, THEN conjunct2, THEN conjunct1, THEN mp])
       (simp add: w sample_ref_urls)
  have f: "fst (delete_object sample_lib scripted ?c ?ref ?w)
             = Inl (InfobloxBadWAPICredential [])"
    by (rule unauthorized_raises_auth_error
          [where r = ?r
             and url = "''https://nios.example.com/wapi/v2.5/network/ZG5z:default''",
           OF st, THEN conjunct2, THEN conjunct2, THEN conjunct2,
           THEN conjunct2, THEN conjunct2, THEN conjunct2, THEN mp])
       (simp add: w sample_ref_urls)
  from st a b c d e f show ?thesis by (intro conjI)
qed

subsection \<open>Success statuses with a body that is not JSON\<close>

text \<open>
  C7. When the response has the operation's success status and its content does not
  decode as JSON, the operation raises the connection error with the raw content as
  its reason: on the one request of create, call, update and delete, and on the first
  and on the second request of get.
\<close>

theorem undecodable_success_raises_connection_error:
  assumes "loads lib (content r) = None"
  shows
  "(status_code r = 200 \<and> answers tr GET url (get_request_options lib c PNone) w r \<longrightarrow>
      fst (get_object1 lib tr c obj_type url w)
        = Inl (InfobloxConnectionError (RawContent (content r))))
   \<and> (status_code r = 200 \<and> validate_obj_type_or_die obj_type False = Inr ()
        \<and> construct_url c obj_type (Some (build_query_params gpayload return_fields)) extattrs
             (cloud_api_enabled c \<and> force_proxy) = Inr url
        \<and> answers tr GET url (get_request_options lib c PNone) w r \<longrightarrow>
        fst (get_object lib tr c obj_type gpayload return_fields extattrs force_proxy w)
          = Inl (InfobloxConnectionError (RawContent (content r))))
   \<and> (status_code r = 200 \<and> validate_obj_type_or_die obj_type False = Inr ()
        \<and> construct_url c obj_type (Some (build_query_params gpayload return_fields)) extattrs
             (cloud_api_enabled c \<and> force_proxy) = Inr url1
        \<and> get_object1 lib tr c obj_type url1 w = (Inr v1, w1)
        \<and> \<not> truthy v1 \<and> cloud_api_enabled c \<and> \<not> force_proxy
        \<and> construct_url c obj_type (Some (build_query_params gpayload return_fields)) extattrs
             True = Inr url
        \<and> answers tr GET url (get_request_options lib c PNone) w1 r \<longrightarrow>
        fst (get_object lib tr c obj_type gpayload return_fields extattrs force_proxy w)
          = Inl (InfobloxConnectionError (RawContent (content r))))
   \<and> (status_code r = 201 \<and> validate_obj_type_or_die obj_type True = Inr ()
        \<and> construct_url c obj_type (Some (build_query_params None return_fields)) None False
             = Inr url
        \<and> answers tr POST url (get_request_options lib c payload) w r \<longrightarrow>
        fst (create_object lib tr c obj_type payload return_fields w)
          = Inl (InfobloxConnectionError (RawContent (content r))))
   \<and> ((status_code r = 200 \<or> status_code r = 201)
        \<and> construct_url c ref
          (Some (AList.update ''_function'' (PStr func_name)
                   (build_query_params None return_fields))) None False = Inr url
        \<and> answers tr POST url (get_request_options lib c payload) w r \<longrightarrow>
        fst (call_func lib tr c func_name ref payload return_fields w)
          = Inl (InfobloxConnectionError (RawContent (content r))))
   \<and> (status_code r = 200
        \<and> construct_url c ref (Some (build_query_params None return_fields)) None False
          = Inr url
        \<and> answers tr PUT url (get_request_options lib c payload) w r \<longrightarrow>
        fst (update_object lib tr c ref payload return_fields w)
          = Inl (InfobloxConnectionError (RawContent (content r))))
   \<and> (status_code r = 200 \<and> construct_url c ref None None False = Inr url
        \<and> answers tr DELETE url (get_request_options lib c PNone) w r \<longrightarrow>
        fst (delete_object lib tr c ref w)
          = Inl (InfobloxConnectionError (RawContent (content r))))"
proof (intro conjI impI)
  note u = reply_not_json [OF assms]
  show "fst (get_object1 lib tr c obj_type url w)
          = Inl (InfobloxConnectionError (RawContent (content r)))"
    if h: "status_code r = 200 \<and> answers tr GET url (get_request_options lib c PNone) w r"
    using get_object1_answered [OF h [THEN conjunct2], of obj_type] u(1) h by auto
  show "fst (get_object lib tr c obj_type gpayload return_fields extattrs force_proxy w)
          = Inl (InfobloxConnectionError (RawContent (content r)))"
    if h: "status_code r = 200 \<and> validate_obj_type_or_die obj_type False = Inr ()
        \<and> construct_url c obj_type (Some (build_query_params gpayload return_fields)) extattrs
             (cloud_api_enabled c \<and> force_proxy) = Inr url
        \<and> answers tr GET url (get_request_options lib c PNone) w r"
  proof -
    from h have p: "validate_obj_type_or_die obj_type False = Inr ()"
      "construct_url c obj_type (Some (build_query_params gpayload return_fields)) extattrs
         (cloud_api_enabled c \<and> force_proxy) = Inr url"
      "answers tr GET url (get_request_options lib c PNone) w r"
      and s: "status_code r = 200"
      by blast+
    from get_object_first_answer [OF p u(1) [OF s]] show ?thesis by simp
  qed
  show "fst (get_object lib tr c obj_type gpayload return_fields extattrs force_proxy w)
          = Inl (InfobloxConnectionError (RawContent (content r)))"
    if h: "status_code r = 200 \<and> validate_obj_type_or_die obj_type False = Inr ()
        \<and> construct_url c obj_type (Some (build_query_params gpayload return_fields)) extattrs
             (cloud_api_enabled c \<and> force_proxy) = Inr url1
        \<and> get_object1 lib tr c obj_type url1 w = (Inr v1, w1)
        \<and> \<not> truthy v1 \<and> cloud_api_enabled c \<and> \<not> force_proxy
        \<and> construct_url c obj_type (Some (build_query_params gpayload return_fields)) extattrs
             True = Inr url
        \<and> answers tr GET url (get_request_options lib c PNone) w1 r"
  proof -
    from h have p: "validate_obj_type_or_die obj_type False = Inr ()"
      "construct_url c obj_type (Some (build_query_params gpayload return_fields)) extattrs
         (cloud_api_enabled c \<and> force_proxy) = Inr url1"
      "get_object1 lib tr c obj_type url1 w = (Inr v1, w1)"
      "\<not> truthy v1" "cloud_api_enabled c" "\<not> force_proxy"
      "construct_url c obj_type (Some (build_query_params gpayload return_fields)) extattrs
         True = Inr url"
      "answers tr GET url (get_request_options lib c PNone) w1 r"
      and s: "status_code r = 200"
      by blast+
    from get_object_second_answer [OF p u(1) [OF s]] show ?thesis by simp
  qed
  show "fst (create_object lib tr c obj_type payload return_fields w)
          = Inl (InfobloxConnectionError (RawContent (content r)))"
    if h: "status_code r = 201 \<and> validate_obj_type_or_die obj_type True = Inr ()
        \<and> construct_url c obj_type (Some (build_query_params None return_fields)) None False
             = Inr url
        \<and> answers tr POST url (get_request_options lib c payload) w r"
  proof -
    from h have p: "validate_obj_type_or_die obj_type True = Inr ()"
      "construct_url c obj_type (Some (build_query_params None return_fields)) None False
         = Inr url"
      "answers tr POST url (get_request_options lib c payload) w r"
      and s: "status_code r = 201"
      by blast+
    from create_object_answered [OF p] u(2) [OF s] show ?thesis by simp
  qed
  show "fst (call_func lib tr c func_name ref payload return_fields w)
          = Inl (InfobloxConnectionError (RawContent (content r)))"
    if h: "(status_code r = 200 \<or> status_code r = 201)
        \<and> construct_url c ref
          (Some (AList.update ''_function'' (PStr func_name)
                   (build_query_params None return_fields))) None False = Inr url
        \<and> answers tr POST url (get_request_options lib c payload) w r"
  proof -
    from h have p: "construct_url c ref
          (Some (AList.update ''_function'' (PStr func_name)
                   (build_query_params None return_fields))) None False = Inr url"
      "answers tr POST url (get_request_options lib c payload) w r"
      and s: "status_code r = 200 \<or> status_code r = 201"
      by blast+
    from call_func_answered [OF p] u(3) [OF s] show ?thesis by simp
  qed
  show "fst (update_object lib tr c ref payload return_fields w)
          = Inl (InfobloxConnectionError (RawContent (content r)))"
    if h: "status_code r = 200
        \<and> construct_url c ref (Some (build_query_params None return_fields)) None False
          = Inr url
        \<and> answers tr PUT url (get_request_options lib c payload) w r"
  proof -
    from h have p: "construct_url c ref (Some (build_query_params None return_fields)) None
                      False = Inr url"
      "answers tr PUT url (get_request_options lib c payload) w r"
      and s: "status_code r = 200"
      by blast+
    from update_object_answered [OF p] u(4) [OF s] show ?thesis by simp
  qed
  show "fst (delete_object lib tr c ref w)
          = Inl (InfobloxConnectionError (RawContent (content r)))"
    if h: "status_code r = 200 \<and> construct_url c ref None None False = Inr url
        \<and> answers tr DELETE url (get_request_options lib c PNone) w r"
  proof -
    from h have p: "construct_url c ref None None False = Inr url"
      "answers tr DELETE url (get_request_options lib c PNone) w r"
      and s: "status_code r = 200"
      by blast+
    from delete_object_answered [OF p] u(5) [OF s] show ?thesis by simp
  qed
qed

theorem undecodable_success_raises_connection_error_witness:
  "loads sample_lib (content \<lparr> status_code = 200, content = ''<html>'' \<rparr>) = None
   \<and> fst (get_object sample_lib scripted (sample_connector True) ''network'' None None None
            False (fresh [reply 200 ''<html>'']))
        = Inl (InfobloxConnectionError (RawContent ''<html>''))
   \<and> fst (get_object sample_lib scripted (sample_connector True) ''network'' None None None
            False (fresh [reply 200 ''[]'', reply 200 ''<html>'']))
        = Inl (InfobloxConnectionError (RawContent ''<html>''))
   \<and> fst (create_object sample_lib scripted (sample_connector True) ''network''
            (PDict [(''network'', PStr ''10.0.0.0/8'')]) None (fresh [reply 201 ''<html>'']))
        = Inl (InfobloxConnectionError (RawContent ''<html>''))
   \<and> fst (call_func sample_lib scripted (sample_connector True) ''next_available_ip''
            ''network/ZG5z:default'' (PDict [(''num'', PInt 1)]) None
            (fresh [reply 201 ''<html>'']))
        = Inl (InfobloxConnectionError (RawContent ''<html>''))
   \<and> fst (update_object sample_lib scripted (sample_connector True) ''network/ZG5z:default''
            (PDict [(''comment'', PStr ''x'')]) None (fresh [reply 200 ''<html>'']))
        = Inl (InfobloxConnectionError (RawContent ''<html>''))
   \<and> fst (delete_object sample_lib scripted (sample_connector True) ''network/ZG5z:default''
            (fresh [reply 200 ''<html>'']))
        = Inl (InfobloxConnectionError (RawContent ''<html>''))"
proof -
  let ?r = "\<lparr> status_code = 200, content = ''<html>'' \<rparr>"
  let ?r1 = "\<lparr> status_code = 201, content = ''<html>'' \<rparr>"
  let ?c = "sample_connector True"
  let ?w = "fresh [reply 200 ''<html>''] :: outcome list world"
  let ?wc = "fresh [reply 201 ''<html>''] :: outcome list world"
  let ?w2 = "fresh [reply 200 ''[]'', reply 200 ''<html>''] :: outcome list world"
  let ?u1 = "''https://nios.example.com/wapi/v2.5/network''"
  let ?u2 = "''https://nios.example.com/wapi/v2.5/network?_proxy_search=GM''"
  let ?ref = "''network/ZG5z:default''"
  have st: "loads sample_lib (content ?r) = None"
    by (simp add: sample_lib_def sample_loads_def)
  have st1: "loads sample_lib (content ?r1) = None"
    by (simp add: sample_lib_def sample_loads_def)
  have cl: "cloud_api_enabled ?c" by (simp add: sample_connector_def)
  have w: "?w = fresh [Reply ?r]" "?wc = fresh [Reply ?r1]" by (simp_all add: reply_def)
  note t = undecodable_success_raises_connection_error [where lib = sample_lib and r = ?r, OF st]
  note t1 = undecodable_success_raises_connection_error
              [where lib = sample_lib and r = ?r1, OF st1]
  have a: "fst (get_object sample_lib scripted ?c ''network'' None None None False ?w)
             = Inl (InfobloxConnectionError (RawContent ''<html>''))"
    using t [where url = ?u1 and obj_type = "''network''" and c = ?c and force_proxy = False
               and gpayload = None and return_fields = None and extattrs = None
               and tr = scripted and w = ?w,
             THEN conjunct2, THEN conjunct1, THEN mp]
    by (simp add: w sample_urls)
  let ?w1 = "snd (get_object1 sample_lib scripted ?c ''network'' ?u1 ?w2)"
  have g: "get_object1 sample_lib scripted ?c ''network'' ?u1 ?w2 = (Inr (PList []), ?w1)"
    using sample_first_empty(1) [of True ?u1 "[reply 200 ''<html>'']"]
    by (simp add: prod_eq_iff)
  have "remote ?w1 = [Reply ?r]"
    using sample_first_empty(2) [of True ?u1 "[reply 200 ''<html>'']"]
    by (simp add: reply_def)
  then have an: "answers scripted GET ?u2 (get_request_options sample_lib ?c PNone) ?w1 ?r"
    by (rule answers_scripted_remote)
  have "fst (get_object sample_lib scripted ?c ''network'' None None None False ?w2)
             = Inl (InfobloxConnectionError (RawContent (content ?r)))"
    by (rule t [where url = ?u2 and ?url1.0 = ?u1 and ?v1.0 = "PList []" and ?w1.0 = ?w1,
                THEN conjunct2, THEN conjunct2, THEN conjunct1, THEN mp])
       (intro conjI; (rule g | rule an | simp add: sample_urls cl))
  then have b: "fst (get_object sample_lib scripted ?c ''network'' None None None False ?w2)
             = Inl (InfobloxConnectionError (RawContent ''<html>''))" by simp
  have "fst (create_object sample_lib scripted ?c ''network''
                 (PDict [(''network'', PStr ''10.0.0.0/8'')]) None ?wc)
             = Inl (InfobloxConnectionError (RawContent (content ?r1)))"
    by (rule t1 [where url = ?u1, THEN conjunct2, THEN conjunct2, THEN conjunct2,
                 THEN conjunct1, THEN mp])
       (simp add: w sample_urls)
  then have c: "fst (create_object sample_lib scripted ?c ''network''
                 (PDict [(''network'', PStr ''10.0.0.0/8'')]) None ?wc)
             = Inl (InfobloxConnectionError (RawContent ''<html>''))" by simp
  have "fst (call_func sample_lib scripted ?c ''next_available_ip'' ?ref
                 (PDict [(''num'', PInt 1)]) None ?wc)
             = Inl (InfobloxConnectionError (RawContent (content ?r1)))"
    by (rule t1 [where
            url = "''https://nios.example.com/wapi/v2.5/network/ZG5z:default?_function=next_available_ip''",
            THEN conjunct2, THEN conjunct2, THEN conjunct2,
            THEN conjunct2, THEN conjunct1, THEN mp])
       (simp add: w sample_ref_urls)
  then have d: "fst (call_func sample_lib scripted ?c ''next_available_ip'' ?ref
                 (PDict [(''num'', PInt 1)]) None ?wc)
             = Inl (InfobloxConnectionError (RawContent ''<html>''))" by simp
  have "fst (update_object sample_lib scripted ?c ?ref (PDict [(''comment'', PStr ''x'')])
                 None ?w)
             = Inl (InfobloxConnectionError (RawContent (content ?r)))"
    by (rule t [where url = "''https://nios.example.com/wapi/v2.5/network/ZG5z:default''",
                THEN conjunct2, THEN conjunct2, THEN conjunct2,
                THEN conjunct2, THEN conjunct2, THEN conjunct1, THEN mp])
       (simp add: w sample_ref_urls)
  then have e: "fst (update_object sample_lib scripted ?c ?ref
                       (PDict [(''comment'', PStr ''x'')]) None ?w)
             = Inl (InfobloxConnectionError (RawContent ''<html>''))" by simp
  have "fst (delete_object sample_lib scripted ?c ?ref ?w)
             = Inl (InfobloxConnectionError (RawContent (content ?r)))"
    by (rule t [where url = "''https://nios.example.com/wapi/v2.5/network/ZG5z:default''",
                THEN conjunct2, THEN conjunct2, THEN conjunct2,
                THEN conjunct2, THEN conjunct2, THEN conjunct2, THEN mp])
       (simp add: w sample_ref_urls)
  then have f: "fst (delete_object sample_lib scripted ?c ?ref ?w)
             = Inl (InfobloxConnectionError (RawContent ''<html>''))" by simp
  from st a b c d e f show ?thesis by (intro conjI)
qed

subsection \<open>Rejections by the appliance\<close>

lemma extattr_queries_raises:
  "extattr_queries ea acc = Inl e \<Longrightarrow> e = TypeError \<or> e = KeyError ''value''"
proof (induction ea arbitrary: acc)
  case Nil
  then show ?case by simp
next
  case (Cons a ea)
  obtain key descr where a: "a = (key, descr)" by (cases a)
  show ?case
  proof (cases "extattr_query key descr")
    case (Inl e')
    then have "e' = TypeError \<or> e' = KeyError ''value''"
      by (auto simp: extattr_query_def py_getitem_def and_then_def
               split: pyval.splits option.splits)
    with Inl a Cons.prems show ?thesis by (auto simp: and_then_def)
  next
    case (Inr q)
    with Cons.prems a have "extattr_queries ea (acc @ [q]) = Inl e"
      by (simp add: and_then_def)
    then show ?thesis by (rule Cons.IH)
  qed
qed

lemma construct_url_raises:
  assumes "construct_url c p q ea fp = Inl e"
  shows "e = ValueError ''Path in request must be relative.'' \<or> e = TypeError
         \<or> e = KeyError ''value''"
proof (cases "p = [] \<or> hd p = CHR ''/''")
  case True
  with assms show ?thesis by (auto simp: construct_url_def Let_def)
next
  case False
  let ?ea = "case ea of None \<Rightarrow> [] | Some x \<Rightarrow> x"
  from assms False have "extattr_queries ?ea [] = Inl e"
    by (auto simp: construct_url_def Let_def and_then_def split: if_splits sum.splits)
  from extattr_queries_raises [OF this] show ?thesis by simp
qed

lemma reraise_keeps:
  assumes "fst (reraise_neutron_exception (res, w)) = Inl e"
    and "e \<noteq> InfobloxTimeoutError" "e \<noteq> InfobloxConnectionError TransportFailure"
  shows "res = Inl e"
  using assms
  by (auto simp: reraise_neutron_exception_def split: sum.splits error.splits)

lemma reply_typed_error:
  "get_object1_reply lib obj_type r = Inl (InfobloxSearchError b t cnt code)
     \<Longrightarrow> loads lib cnt = Some b"
  "call_func_reply lib func_name ref r = Inl (InfobloxFuncException b t f cnt code)
     \<Longrightarrow> loads lib cnt = Some b"
  "update_object_reply lib ref r = Inl (InfobloxCannotUpdateObject b t cnt code)
     \<Longrightarrow> loads lib cnt = Some b"
  "delete_object_reply lib ref r = Inl (InfobloxCannotDeleteObject b t cnt code)
     \<Longrightarrow> loads lib cnt = Some b"
  by (auto simp: get_object1_reply_def call_func_reply_def update_object_reply_def
        delete_object_reply_def validate_authorized_def and_then_def json_loads_def
        parse_reply_def
      split: if_splits option.splits)

lemma get_object1_search_error:
  assumes "get_object1 lib tr c obj_type url w = (Inl (InfobloxSearchError b t cnt code), w')"
  shows "loads lib cnt = Some b"
proof -
  from assms request_raised
    [of tr GET url "get_request_options lib c PNone"
        "log_request c url (get_request_options lib c PNone) w"
        "get_object1_reply lib obj_type" "InfobloxSearchError b t cnt code" w']
  obtain r where "get_object1_reply lib obj_type r = Inl (InfobloxSearchError b t cnt code)"
    by (auto simp: get_object1_def Let_def)
  then show ?thesis by (rule reply_typed_error)
qed

lemma get_object_search_error:
  assumes "fst (get_object lib tr c obj_type payload return_fields extattrs force_proxy w)
             = Inl (InfobloxSearchError b t cnt code)"
  shows "loads lib cnt = Some b"
proof (cases "validate_obj_type_or_die obj_type False")
  case (Inl e)
  then have "\<exists>m. e = ValueError m"
    by (auto simp: validate_obj_type_or_die_def split: if_splits)
  with Inl assms show ?thesis by (auto simp: get_object_def get_object_body_def)
next
  case (Inr u)
  then have v: "validate_obj_type_or_die obj_type False = Inr ()" by simp
  let ?qp = "build_query_params payload return_fields"
  let ?err = "InfobloxSearchError b t cnt code"
  show ?thesis
  proof (cases "construct_url c obj_type (Some ?qp) extattrs (cloud_api_enabled c \<and> force_proxy)")
    case (Inl e)
    from construct_url_raises [OF this] Inl v assms show ?thesis
      by (auto simp: get_object_def get_object_body_def Let_def)
  next
    case (Inr url1)
    obtain first w1 where g: "get_object1 lib tr c obj_type url1 w = (first, w1)"
      by (cases "get_object1 lib tr c obj_type url1 w")
    note steps = get_object_steps [OF v Inr g]
    show ?thesis
    proof (cases first)
      case (Inl e)
      from assms have "fst (reraise_neutron_exception (Inl e :: error + pyval, w1)) = Inl ?err"
        by (simp only: steps(1) [OF Inl])
      from reraise_keeps [OF this] have "e = ?err" by simp
      with g Inl show ?thesis by (auto intro: get_object1_search_error)
    next
      case first: (Inr v1)
      show ?thesis
      proof (cases "truthy v1")
        case True
        from steps(2) [OF first True] assms show ?thesis by simp
      next
        case False
        show ?thesis
        proof (cases "cloud_api_enabled c \<and> \<not> force_proxy")
          case no: False
          from steps(3) [OF first False no] assms show ?thesis by simp
        next
          case True
          with Inr have "construct_url c obj_type (Some ?qp) extattrs False = Inr url1"
            by simp
          from construct_url_proxy_too [OF this] obtain url2 where
            u2: "construct_url c obj_type (Some ?qp) extattrs True = Inr url2" by blast
          obtain second w2 where g2: "get_object1 lib tr c obj_type url2 w1 = (second, w2)"
            by (cases "get_object1 lib tr c obj_type url2 w1")
          from True have "cloud_api_enabled c" "\<not> force_proxy" by simp_all
          note s4 = steps(4) [OF first False this u2 g2]
          from assms
          have r: "fst (reraise_neutron_exception
                     (case second of Inl e \<Rightarrow> Inl e
                      | Inr v2 \<Rightarrow> Inr (if truthy v2 then v2 else PNone), w2)) = Inl ?err"
            by (simp only: s4)
          from reraise_keeps [OF r] have "second = Inl ?err"
            by (cases second) auto
          with g2 show ?thesis by (auto intro: get_object1_search_error)
        qed
      qed
    qed
  qed
qed

lemma call_func_typed_error:
  assumes "fst (call_func lib tr c func_name ref payload return_fields w)
             = Inl (InfobloxFuncException b t f cnt code)"
  shows "loads lib cnt = Some b"
proof -
  let ?err = "InfobloxFuncException b t f cnt code"
  let ?qp = "AList.update ''_function'' (PStr func_name) (build_query_params None return_fields)"
  let ?opts = "get_request_options lib c payload"
  show ?thesis
  proof (cases "construct_url c ref (Some ?qp) None False")
    case (Inl e)
    from construct_url_raises [OF this] Inl assms show ?thesis
      by (auto simp: call_func_def Let_def)
  next
    case (Inr url)
    obtain res w' where
      q: "with_response (session_request tr POST url ?opts (log_request c url ?opts w))
            (call_func_reply lib func_name ref) = (res, w')"
      by (cases "with_response (session_request tr POST url ?opts (log_request c url ?opts w))
            (call_func_reply lib func_name ref)")
    with Inr assms have "fst (reraise_neutron_exception (res, w')) = Inl ?err"
      by (simp add: call_func_def Let_def)
    from reraise_keeps [OF this] have "res = Inl ?err" by simp
    with q request_raised [of tr POST url ?opts "log_request c url ?opts w"
                             "call_func_reply lib func_name ref" ?err w']
    obtain r where "call_func_reply lib func_name ref r = Inl ?err" by auto
    then show ?thesis by (rule reply_typed_error)
  qed
qed

lemma update_object_typed_error:
  assumes "fst (update_object lib tr c ref payload return_fields w)
             = Inl (InfobloxCannotUpdateObject b t cnt code)"
  shows "loads lib cnt = Some b"
proof -
  let ?err = "InfobloxCannotUpdateObject b t cnt code"
  let ?opts = "get_request_options lib c payload"
  show ?thesis
  proof (cases "construct_url c ref (Some (build_query_params None return_fields)) None False")
    case (Inl e)
    from construct_url_raises [OF this] Inl assms show ?thesis
      by (auto simp: update_object_def Let_def)
  next
    case (Inr url)
    obtain res w' where
      q: "with_response (session_request tr PUT url ?opts (log_request c url ?opts w))
            (update_object_reply lib ref) = (res, w')"
      by (cases "with_response (session_request tr PUT url ?opts (log_request c url ?opts w))
            (update_object_reply lib ref)")
    with Inr assms have "fst (reraise_neutron_exception (res, w')) = Inl ?err"
      by (simp add: update_object_def Let_def)
    from reraise_keeps [OF this] have "res = Inl ?err" by simp
    with q request_raised [of tr PUT url ?opts "log_request c url ?opts w"
                             "update_object_reply lib ref" ?err w']
    obtain r where "update_object_reply lib ref r = Inl ?err" by auto
    then show ?thesis by (rule reply_typed_error)
  qed
qed

lemma delete_object_typed_error:
  assumes "fst (delete_object lib tr c ref w) = Inl (InfobloxCannotDeleteObject b t cnt code)"
  shows "loads lib cnt = Some b"
proof -
  let ?err = "InfobloxCannotDeleteObject b t cnt code"
  let ?opts = "get_request_options lib c PNone"
  show ?thesis
  proof (cases "construct_url c ref None None False")
    case (Inl e)
    from construct_url_raises [OF this] Inl assms show ?thesis
      by (auto simp: delete_object_def Let_def)
  next
    case (Inr url)
    obtain res w' where
      q: "with_response (session_request tr DELETE url ?opts (log_request c url ?opts w))
            (delete_object_reply lib ref) = (res, w')"
      by (cases "with_response (session_request tr DELETE url ?opts (log_request c url ?opts w))
            (delete_object_reply lib ref)")
    with Inr assms have "fst (reraise_neutron_exception (res, w')) = Inl ?err"
      by (simp add: delete_object_def Let_def)
    from reraise_keeps [OF this] have "res = Inl ?err" by simp
    with q request_raised [of tr DELETE url ?opts "log_request c url ?opts w"
                             "delete_object_reply lib ref" ?err w']
    obtain r where "delete_object_reply lib ref r = Inl ?err" by auto
    then show ?thesis by (rule reply_typed_error)
  qed
qed

lemma create_reply_undecodable:
  assumes "status_code r \<noteq> 401" "status_code r \<noteq> 201" "loads lib (content r) = None"
  shows "create_object_reply lib obj_type payload r
           = Inl (InfobloxCannotCreateObject PNone obj_type (content r) payload (status_code r))"
  using assms
  by (simp add: create_object_reply_def validate_authorized_def and_then_def safe_json_load_def)

lemma rejected_cases:
  assumes "reply_of r = (case loads lib (content r) of Some body \<Rightarrow> Inl (typed body)
                         | None \<Rightarrow> Inl (JSONDecodeFailure (content r)))"
  obtains e where "reply_of r = Inl e"
    "e = (case loads lib (content r) of Some body \<Rightarrow> typed body
          | None \<Rightarrow> JSONDecodeFailure (content r))"
  using assms by (cases "loads lib (content r)") auto

text \<open>
  C9. On a response whose status is neither 401 nor the operation's success status,
  get, call, update and delete raise their typed error with the decoded body when the
  content decodes as JSON, and raise the decoder's own error when it does not; create
  alone then still raises its typed error, with no body. Whenever one of the four
  operations raises its typed error, the content it carries decodes to the body it
  carries.
\<close>

theorem rejection_needs_decodable_body:
  assumes "status_code r \<noteq> 401"
  shows
  "(status_code r \<noteq> 200 \<and> validate_obj_type_or_die obj_type False = Inr ()
        \<and> construct_url c obj_type (Some (build_query_params gpayload return_fields)) extattrs
             (cloud_api_enabled c \<and> force_proxy) = Inr url
        \<and> answers tr GET url (get_request_options lib c PNone) w r \<longrightarrow>
        fst (get_object lib tr c obj_type gpayload return_fields extattrs force_proxy w)
          = (case loads lib (content r) of
               Some body \<Rightarrow> Inl (InfobloxSearchError body obj_type (content r) (status_code r))
             | None \<Rightarrow> Inl (JSONDecodeFailure (content r))))
   \<and> (status_code r \<noteq> 200 \<and> validate_obj_type_or_die obj_type False = Inr ()
        \<and> construct_url c obj_type (Some (build_query_params gpayload return_fields)) extattrs
             (cloud_api_enabled c \<and> force_proxy) = Inr url1
        \<and> get_object1 lib tr c obj_type url1 w = (Inr v1, w1)
        \<and> \<not> truthy v1 \<and> cloud_api_enabled c \<and> \<not> force_proxy
        \<and> construct_url c obj_type (Some (build_query_params gpayload return_fields)) extattrs
             True = Inr url
        \<and> answers tr GET url (get_request_options lib c PNone) w1 r \<longrightarrow>
        fst (get_object lib tr c obj_type gpayload return_fields extattrs force_proxy w)
          = (case loads lib (content r) of
               Some body \<Rightarrow> Inl (InfobloxSearchError body obj_type (content r) (status_code r))
             | None \<Rightarrow> Inl (JSONDecodeFailure (content r))))
   \<and> (status_code r \<noteq> 200 \<and> status_code r \<noteq> 201
        \<and> construct_url c ref
          (Some (AList.update ''_function'' (PStr func_name)
                   (build_query_params None return_fields))) None False = Inr url
        \<and> answers tr POST url (get_request_options lib c payload) w r \<longrightarrow>
        fst (call_func lib tr c func_name ref payload return_fields w)
          = (case loads lib (content r) of
               Some body \<Rightarrow>
                 Inl (InfobloxFuncException body ref func_name (content r) (status_code r))
             | None \<Rightarrow> Inl (JSONDecodeFailure (content r))))
   \<and> (status_code r \<noteq> 200
        \<and> construct_url c ref (Some (build_query_params None return_fields)) None False
          = Inr url
        \<and> answers tr PUT url (get_request_options lib c payload) w r \<longrightarrow>
        fst (update_object lib tr c ref payload return_fields w)
          = (case loads lib (content r) of
               Some body \<Rightarrow> Inl (InfobloxCannotUpdateObject body ref (content r) (status_code r))
             | None \<Rightarrow> Inl (JSONDecodeFailure (content r))))
   \<and> (status_code r \<noteq> 200 \<and> construct_url c ref None None False = Inr url
        \<and> answers tr DELETE url (get_request_options lib c PNone) w r \<longrightarrow>
        fst (delete_object lib tr c ref w)
          = (case loads lib (content r) of
               Some body \<Rightarrow> Inl (InfobloxCannotDeleteObject body ref (content r) (status_code r))
             | None \<Rightarrow> Inl (JSONDecodeFailure (content r))))
   \<and> (status_code r \<noteq> 201 \<and> loads lib (content r) = None
        \<and> validate_obj_type_or_die obj_type True = Inr ()
        \<and> construct_url c obj_type (Some (build_query_params None return_fields)) None False
             = Inr url
        \<and> answers tr POST url (get_request_options lib c payload) w r \<longrightarrow>
        fst (create_object lib tr c obj_type payload return_fields w)
          = Inl (InfobloxCannotCreateObject PNone obj_type (content r) payload (status_code r)))
   \<and> (fst (get_object lib tr c obj_type gpayload return_fields extattrs force_proxy w)
          = Inl (InfobloxSearchError b t cnt code) \<longrightarrow> loads lib cnt = Some b)
   \<and> (fst (call_func lib tr c func_name ref payload return_fields w)
          = Inl (InfobloxFuncException b t f cnt code) \<longrightarrow> loads lib cnt = Some b)
   \<and> (fst (update_object lib tr c ref payload return_fields w)
          = Inl (InfobloxCannotUpdateObject b t cnt code) \<longrightarrow> loads lib cnt = Some b)
   \<and> (fst (delete_object lib tr c ref w)
          = Inl (InfobloxCannotDeleteObject b t cnt code) \<longrightarrow> loads lib cnt = Some b)"
proof (intro conjI impI)
  note u = reply_rejected [OF assms]
  show "fst (get_object lib tr c obj_type gpayload return_fields extattrs force_proxy w)
          = (case loads lib (content r) of
               Some body \<Rightarrow> Inl (InfobloxSearchError body obj_type (content r) (status_code r))
             | None \<Rightarrow> Inl (JSONDecodeFailure (content r)))"
    if h: "status_code r \<noteq> 200 \<and> validate_obj_type_or_die obj_type False = Inr ()
        \<and> construct_url c obj_type (Some (build_query_params gpayload return_fields)) extattrs
             (cloud_api_enabled c \<and> force_proxy) = Inr url
        \<and> answers tr GET url (get_request_options lib c PNone) w r"
  proof -
    from h have p: "validate_obj_type_or_die obj_type False = Inr ()"
      "construct_url c obj_type (Some (build_query_params gpayload return_fields)) extattrs
         (cloud_api_enabled c \<and> force_proxy) = Inr url"
      "answers tr GET url (get_request_options lib c PNone) w r"
      and s: "status_code r \<noteq> 200"
      by blast+
    from u(1) [OF s, of lib obj_type] obtain e where
      e: "get_object1_reply lib obj_type r = Inl e"
         "e = (case loads lib (content r) of
                 Some body \<Rightarrow> InfobloxSearchError body obj_type (content r) (status_code r)
               | None \<Rightarrow> JSONDecodeFailure (content r))"
      by (rule rejected_cases)
    from get_object_first_answer [OF p e(1)] e(2) show ?thesis
      by (simp split: option.splits)
  qed
  show "fst (get_object lib tr c obj_type gpayload return_fields extattrs force_proxy w)
          = (case loads lib (content r) of
               Some body \<Rightarrow> Inl (InfobloxSearchError body obj_type (content r) (status_code r))
             | None \<Rightarrow> Inl (JSONDecodeFailure (content r)))"
    if h: "status_code r \<noteq> 200 \<and> validate_obj_type_or_die obj_type False = Inr ()
        \<and> construct_url c obj_type (Some (build_query_params gpayload return_fields)) extattrs
             (cloud_api_enabled c \<and> force_proxy) = Inr url1
        \<and> get_object1 lib tr c obj_type url1 w = (Inr v1, w1)
        \<and> \<not> truthy v1 \<and> cloud_api_enabled c \<and> \<not> force_proxy
        \<and> construct_url c obj_type (Some (build_query_params gpayload return_fields)) extattrs
             True = Inr url
        \<and> answers tr GET url (get_request_options lib c PNone) w1 r"
  proof -
    from h have p: "validate_obj_type_or_die obj_type False = Inr ()"
      "construct_url c obj_type (Some (build_query_params gpayload return_fields)) extattrs
         (cloud_api_enabled c \<and> force_proxy) = Inr url1"
      "get_object1 lib tr c obj_type url1 w = (Inr v1, w1)"
      "\<not> truthy v1" "cloud_api_enabled c" "\<not> force_proxy"
      "construct_url c obj_type (Some (build_query_params gpayload return_fields)) extattrs
         True = Inr url"
      "answers tr GET url (get_request_options lib c PNone) w1 r"
      and s: "status_code r \<noteq> 200"
      by blast+
    from u(1) [OF s, of lib obj_type] obtain e where
      e: "get_object1_reply lib obj_type r = Inl e"
         "e = (case loads lib (content r) of
                 Some body \<Rightarrow> InfobloxSearchError body obj_type (content r) (status_code r)
               | None \<Rightarrow> JSONDecodeFailure (content r))"
      by (rule rejected_cases)
    from get_object_second_answer [OF p e(1)] e(2) show ?thesis
      by (simp split: option.splits)
  qed
  show "fst (call_func lib tr c func_name ref payload return_fields w)
          = (case loads lib (content r) of
               Some body \<Rightarrow>
                 Inl (InfobloxFuncException body ref func_name (content r) (status_code r))
             | None \<Rightarrow> Inl (JSONDecodeFailure (content r)))"
    if h: "status_code r \<noteq> 200 \<and> status_code r \<noteq> 201
        \<and> construct_url c ref
          (Some (AList.update ''_function'' (PStr func_name)
                   (build_query_params None return_fields))) None False = Inr url
        \<and> answers tr POST url (get_request_options lib c payload) w r"
  proof -
    from h have p: "construct_url c ref
          (Some (AList.update ''_function'' (PStr func_name)
                   (build_query_params None return_fields))) None False = Inr url"
      "answers tr POST url (get_request_options lib c payload) w r"
      and s: "status_code r \<noteq> 200 \<and> status_code r \<noteq> 201"
      by blast+
    from call_func_answered [OF p] u(2) [OF s, of lib func_name ref] show ?thesis
      by (simp split: option.splits)
  qed
  show "fst (update_object lib tr c ref payload return_fields w)
          = (case loads lib (content r) of
               Some body \<Rightarrow> Inl (InfobloxCannotUpdateObject body ref (content r) (status_code r))
             | None \<Rightarrow> Inl (JSONDecodeFailure (content r)))"
    if h: "status_code r \<noteq> 200
        \<and> construct_url c ref (Some (build_query_params None return_fields)) None False
          = Inr url
        \<and> answers tr PUT url (get_request_options lib c payload) w r"
  proof -
    from h have p: "construct_url c ref (Some (build_query_params None return_fields)) None
                      False = Inr url"
      "answers tr PUT url (get_request_options lib c payload) w r"
      and s: "status_code r \<noteq> 200"
      by blast+
    from update_object_answered [OF p] u(3) [OF s, of lib ref] show ?thesis
      by (simp split: option.splits)
  qed
  show "fst (delete_object lib tr c ref w)
          = (case loads lib (content r) of
               Some body \<Rightarrow> Inl (InfobloxCannotDeleteObject body ref (content r) (status_code r))
             | None \<Rightarrow> Inl (JSONDecodeFailure (content r)))"
    if h: "status_code r \<noteq> 200 \<and> construct_url c ref None None False = Inr url
        \<and> answers tr DELETE url (get_request_options lib c PNone) w r"
  proof -
    from h have p: "construct_url c ref None None False = Inr url"
      "answers tr DELETE url (get_request_options lib c PNone) w r"
      and s: "status_code r \<noteq> 200"
      by blast+
    from delete_object_answered [OF p] u(4) [OF s, of lib ref] show ?thesis
      by (simp split: option.splits)
  qed
  show "fst (create_object lib tr c obj_type payload return_fields w)
          = Inl (InfobloxCannotCreateObject PNone obj_type (content r) payload (status_code r))"
    if h: "status_code r \<noteq> 201 \<and> loads lib (content r) = None
        \<and> validate_obj_type_or_die obj_type True = Inr ()
        \<and> construct_url c obj_type (Some (build_query_params None return_fields)) None False
             = Inr url
        \<and> answers tr POST url (get_request_options lib c payload) w r"
  proof -
    from h have p: "validate_obj_type_or_die obj_type True = Inr ()"
      "construct_url c obj_type (Some (build_query_params None return_fields)) None False
         = Inr url"
      "answers tr POST url (get_request_options lib c payload) w r"
      and s: "status_code r \<noteq> 201" "loads lib (content r) = None"
      by blast+
    from create_object_answered [OF p] create_reply_undecodable [OF assms s]
    show ?thesis by simp
  qed
  show "loads lib cnt = Some b"
    if "fst (get_object lib tr c obj_type gpayload return_fields extattrs force_proxy w)
          = Inl (InfobloxSearchError b t cnt code)"
    using that by (rule get_object_search_error)
  show "loads lib cnt = Some b"
    if "fst (call_func lib tr c func_name ref payload return_fields w)
          = Inl (InfobloxFuncException b t f cnt code)"
    using that by (rule call_func_typed_error)
  show "loads lib cnt = Some b"
    if "fst (update_object lib tr c ref payload return_fields w)
          = Inl (InfobloxCannotUpdateObject b t cnt code)"
    using that by (rule update_object_typed_error)
  show "loads lib cnt = Some b"
    if "fst (delete_object lib tr c ref w) = Inl (InfobloxCannotDeleteObject b t cnt code)"
    using that by (rule delete_object_typed_error)
qed

theorem rejection_needs_decodable_body_witness:
  \<open>status_code \<lparr> status_code = 400, content = ''<html>'' \<rparr> \<noteq> 401
   \<and> fst (get_object sample_lib scripted (sample_connector True) ''network'' None None None
            False (fresh [reply 400 ''<html>''])) = Inl (JSONDecodeFailure ''<html>'')
   \<and> fst (get_object sample_lib scripted (sample_connector True) ''network'' None None None
            False (fresh [reply 400 ''{"text": "bad request"}'']))
        = Inl (InfobloxSearchError (PDict [(''text'', PStr ''bad request'')]) ''network''
                 ''{"text": "bad request"}'' 400)
   \<and> fst (call_func sample_lib scripted (sample_connector True) ''next_available_ip''
            ''network/ZG5z:default'' (PDict [(''num'', PInt 1)]) None
            (fresh [reply 400 ''<html>''])) = Inl (JSONDecodeFailure ''<html>'')
   \<and> fst (update_object sample_lib scripted (sample_connector True) ''network/ZG5z:default''
            (PDict [(''comment'', PStr ''x'')]) None
            (fresh [reply 400 ''{"text": "bad request"}'']))
        = Inl (InfobloxCannotUpdateObject (PDict [(''text'', PStr ''bad request'')])
                 ''network/ZG5z:default'' ''{"text": "bad request"}'' 400)
   \<and> loads sample_lib ''{"text": "bad request"}''
        = Some (PDict [(''text'', PStr ''bad request'')])
   \<and> fst (delete_object sample_lib scripted (sample_connector True) ''network/ZG5z:default''
            (fresh [reply 400 ''<html>''])) = Inl (JSONDecodeFailure ''<html>'')
   \<and> fst (create_object sample_lib scripted (sample_connector True) ''network''
            (PDict [(''network'', PStr ''10.0.0.0/8'')]) None (fresh [reply 400 ''<html>'']))
        = Inl (InfobloxCannotCreateObject PNone ''network'' ''<html>''
                 (PDict [(''network'', PStr ''10.0.0.0/8'')]) 400)\<close>
proof -
  let ?r = "\<lparr> status_code = 400, content = ''<html>'' \<rparr>"
  let ?j = \<open>''{"text": "bad request"}''\<close>
  let ?rj = "\<lparr> status_code = 400, content = ?j \<rparr>"
  let ?body = "PDict [(''text'', PStr ''bad request'')]"
  let ?c = "sample_connector True"
  let ?w = "fresh [reply 400 ''<html>''] :: outcome list world"
  let ?wj = "fresh [reply 400 ?j] :: outcome list world"
  let ?u1 = "''https://nios.example.com/wapi/v2.5/network''"
  let ?ref = "''network/ZG5z:default''"
  let ?uref = "''https://nios.example.com/wapi/v2.5/network/ZG5z:default''"
  let ?ufun = "''https://nios.example.com/wapi/v2.5/network/ZG5z:default?_function=next_available_ip''"
  have st: "status_code ?r \<noteq> 401" "status_code ?rj \<noteq> 401" by simp_all
  have l: "loads sample_lib ''<html>'' = None" "loads sample_lib ?j = Some ?body"
    by (simp_all add: sample_lib_def sample_loads_def)
  have w: "?w = fresh [Reply ?r]" "?wj = fresh [Reply ?rj]" by (simp_all add: reply_def)
  note t = rejection_needs_decodable_body [where lib = sample_lib and r = ?r, OF st(1)]
  note tj = rejection_needs_decodable_body [where lib = sample_lib and r = ?rj, OF st(2)]
  have "fst (get_object sample_lib scripted ?c ''network'' None None None False ?w)
          = (case loads sample_lib (content ?r) of
               Some body \<Rightarrow> Inl (InfobloxSearchError body ''network'' (content ?r)
                                   (status_code ?r))
             | None \<Rightarrow> Inl (JSONDecodeFailure (content ?r)))"
    by (rule t [where url = ?u1, THEN conjunct1, THEN mp]) (simp add: w sample_urls)
  then have a: "fst (get_object sample_lib scripted ?c ''network'' None None None False ?w)
                  = Inl (JSONDecodeFailure ''<html>'')"
    by (simp add: l)
  have "fst (get_object sample_lib scripted ?c ''network'' None None None False ?wj)
          = (case loads sample_lib (content ?rj) of
               Some body \<Rightarrow> Inl (InfobloxSearchError body ''network'' (content ?rj)
                                   (status_code ?rj))
             | None \<Rightarrow> Inl (JSONDecodeFailure (content ?rj)))"
    by (rule tj [where url = ?u1, THEN conjunct1, THEN mp]) (simp add: w sample_urls)
  then have b: "fst (get_object sample_lib scripted ?c ''network'' None None None False ?wj)
                  = Inl (InfobloxSearchError ?body ''network'' ?j 400)"
    by (simp add: l)
  have "fst (call_func sample_lib scripted ?c ''next_available_ip'' ?ref
               (PDict [(''num'', PInt 1)]) None ?w)
          = (case loads sample_lib (content ?r) of
               Some body \<Rightarrow> Inl (InfobloxFuncException body ?ref ''next_available_ip''
                                   (content ?r) (status_code ?r))
             | None \<Rightarrow> Inl (JSONDecodeFailure (content ?r)))"
    by (rule t [where url = ?ufun, THEN conjunct2, THEN conjunct2, THEN conjunct1, THEN mp])
       (simp add: w sample_ref_urls)
  then have c: "fst (call_func sample_lib scripted ?c ''next_available_ip'' ?ref
                       (PDict [(''num'', PInt 1)]) None ?w)
                  = Inl (JSONDecodeFailure ''<html>'')"
    by (simp add: l)
  have "fst (update_object sample_lib scripted ?c ?ref (PDict [(''comment'', PStr ''x'')])
               None ?wj)
          = (case loads sample_lib (content ?rj) of
               Some body \<Rightarrow> Inl (InfobloxCannotUpdateObject body ?ref (content ?rj)
                                   (status_code ?rj))
             | None \<Rightarrow> Inl (JSONDecodeFailure (content ?rj)))"
    by (rule tj [where url = ?uref, THEN conjunct2, THEN conjunct2, THEN conjunct2,
                 THEN conjunct1, THEN mp])
       (simp add: w sample_ref_urls)
  then have d: "fst (update_object sample_lib scripted ?c ?ref
                       (PDict [(''comment'', PStr ''x'')]) None ?wj)
                  = Inl (InfobloxCannotUpdateObject ?body ?ref ?j 400)"
    by (simp add: l)
  have e: "loads sample_lib ?j = Some ?body"
    by (rule tj [THEN conjunct2, THEN conjunct2, THEN conjunct2, THEN conjunct2,
                 THEN conjunct2, THEN conjunct2, THEN conjunct2, THEN conjunct2,
                 THEN conjunct1, THEN mp])
       (rule d)
  have "fst (delete_object sample_lib scripted ?c ?ref ?w)
          = (case loads sample_lib (content ?r) of
               Some body \<Rightarrow> Inl (InfobloxCannotDeleteObject body ?ref (content ?r)
                                   (status_code ?r))
             | None \<Rightarrow> Inl (JSONDecodeFailure (content ?r)))"
    by (rule t [where url = ?uref, THEN conjunct2, THEN conjunct2, THEN conjunct2,
                THEN conjunct2, THEN conjunct1, THEN mp])
       (simp add: w sample_ref_urls)
  then have f: "fst (delete_object sample_lib scripted ?c ?ref ?w)
                  = Inl (JSONDecodeFailure ''<html>'')"
    by (simp add: l)
  have "fst (create_object sample_lib scripted ?c ''network''
               (PDict [(''network'', PStr ''10.0.0.0/8'')]) None ?w)
          = Inl (InfobloxCannotCreateObject PNone ''network'' (content ?r)
                   (PDict [(''network'', PStr ''10.0.0.0/8'')]) (status_code ?r))"
    by (rule t [where url = ?u1, THEN conjunct2, THEN conjunct2, THEN conjunct2,
                THEN conjunct2, THEN conjunct2, THEN conjunct1, THEN mp])
       (simp add: w l sample_urls)
  then have g: "fst (create_object sample_lib scripted ?c ''network''
                       (PDict [(''network'', PStr ''10.0.0.0/8'')]) None ?w)
                  = Inl (InfobloxCannotCreateObject PNone ''network'' ''<html>''
                           (PDict [(''network'', PStr ''10.0.0.0/8'')]) 400)"
    by simp
  from st(1) a b c d e f g show ?thesis by (intro conjI)
qed

subsection \<open>Rejected creations\<close>

text \<open>
  What create makes of a response that is neither 401 nor 201, by the decoded body: no
  body or a falsy one, a dict with a string under \<^verbatim>\<open>text\<close>, a non-empty dict with no
  \<^verbatim>\<open>text\<close>, and a truthy body that is no dict.
\<close>

lemma create_reply_falsy_body:
  assumes "status_code r \<noteq> 401" "status_code r \<noteq> 201"
    and "\<not> truthy (safe_json_load lib (content r))"
  shows "create_object_reply lib obj_type payload r
           = Inl (InfobloxCannotCreateObject (safe_json_load lib (content r)) obj_type
                    (content r) payload (status_code r))"
  using assms
  by (simp add: create_object_reply_def validate_authorized_def and_then_def)

lemma create_reply_text:
  assumes "status_code r \<noteq> 401" "status_code r \<noteq> 201"
    and "safe_json_load lib (content r) = PDict d" "map_of d ''text'' = Some (PStr s)"
  shows "create_object_reply lib obj_type payload r
           = (if sublist already_assigned s
              then Inl (InfobloxMemberAlreadyAssigned (PDict d) obj_type (content r) payload
                          (status_code r))
              else Inl (InfobloxCannotCreateObject (PDict d) obj_type (content r) payload
                          (status_code r)))"
proof -
  from assms(4) have "d \<noteq> []" by auto
  with assms show ?thesis
    by (simp add: create_object_reply_def validate_authorized_def and_then_def py_get_def
          py_contains_def)
qed

lemma create_reply_no_text:
  assumes "status_code r \<noteq> 401" "status_code r \<noteq> 201"
    and "safe_json_load lib (content r) = PDict d" "d \<noteq> []" "map_of d ''text'' = None"
  shows "create_object_reply lib obj_type payload r = Inl TypeError"
  using assms
  by (simp add: create_object_reply_def validate_authorized_def and_then_def py_get_def
        py_contains_def)

lemma create_reply_no_dict:
  assumes "status_code r \<noteq> 401" "status_code r \<noteq> 201"
    and "truthy (safe_json_load lib (content r))"
    and "\<forall>d. safe_json_load lib (content r) \<noteq> PDict d"
  shows "create_object_reply lib obj_type payload r = Inl AttributeError"
  using assms
  by (cases "safe_json_load lib (content r)")
     (simp_all add: create_object_reply_def validate_authorized_def and_then_def py_get_def)

text \<open>
  C2 on the code: the appliance answers a creation with status 400 and a JSON object
  that has no \<^verbatim>\<open>text\<close> member. \<^verbatim>\<open>response.get('text')\<close> is \<^verbatim>\<open>None\<close>, the membership
  test on it raises \<^verbatim>\<open>TypeError\<close>, and no creation error is raised.
\<close>

theorem create_object_body_without_text:
  \<open>fst (create_object sample_lib scripted (sample_connector True) ''network''
          (PDict [(''network'', PStr ''10.0.0.0/8'')]) None
          (fresh [reply 400 ''{"Error": "x"}''])) = Inl TypeError\<close>
proof -
  let ?r = \<open>\<lparr> status_code = 400, content = ''{"Error": "x"}'' \<rparr>\<close>
  let ?payload = "PDict [(''network'', PStr ''10.0.0.0/8'')]"
  have "safe_json_load sample_lib (content ?r) = PDict [(''Error'', PStr ''x'')]"
    by (simp add: safe_json_load_def sample_lib_def sample_loads_def)
  then have "create_object_reply sample_lib ''network'' ?payload ?r = Inl TypeError"
    by (intro create_reply_no_text [where d = "[(''Error'', PStr ''x'')]"]) simp_all
  moreover have
    "fst (create_object sample_lib scripted (sample_connector True) ''network'' ?payload None
            (fresh [Reply ?r]))
       = fst (reraise_neutron_exception
                (create_object_reply sample_lib ''network'' ?payload ?r,
                 fresh [Reply ?r] :: outcome list world))"
    by (rule create_object_answered [where url = "''https://nios.example.com/wapi/v2.5/network''"])
       (simp_all add: sample_urls)
  ultimately show ?thesis by (simp add: reply_def)
qed

end
